theory Spec2Isabelle
  imports Main "HOL-Library.Sublist" "HOL-Library.Word"
begin

section \<open>The script \<open>add_test_target.py\<close>\<close>

text \<open>
  The script reads an Xcode project file into a string, splices fixed text blocks into it
  at positions found by \<open>re.search\<close>, and writes the string back. The model follows the
  source top to bottom: strings are \<^typ>\<open>string\<close>, a match object is the pair of its
  start and end offsets, the file system is a map from paths to contents, and what the
  script prints is a list of lines.
\<close>

subsection \<open>Identifiers\<close>

text \<open>
  \<open>uuid.uuid4()\<close> belongs to the Python library: its result enters the model as a
  128-bit value. \<open>.hex\<close> is that value as 32 lower-case hexadecimal digits, most
  significant first; \<open>[:24]\<close> keeps the first 24 and \<open>.upper()\<close> maps \<open>a\<close>-\<open>z\<close> to
  \<open>A\<close>-\<open>Z\<close>.
\<close>

type_synonym uuid = "128 word"

definition hex_digit :: "nat \<Rightarrow> char" where
  "hex_digit d = ''0123456789abcdef'' ! d"

definition uuid_hex :: "uuid \<Rightarrow> string" where
  "uuid_hex u = map (\<lambda>i. hex_digit (unat u div 16 ^ (31 - i) mod 16)) [0..<32]"

definition upper_char :: "char \<Rightarrow> char" where
  "upper_char c =
     (case map_of (zip ''abcdefghijklmnopqrstuvwxyz'' ''ABCDEFGHIJKLMNOPQRSTUVWXYZ'') c of
        Some C \<Rightarrow> C
      | None \<Rightarrow> c)"

definition upper :: "string \<Rightarrow> string" where
  "upper s = map upper_char s"

definition generate_id :: "uuid \<Rightarrow> string" where
  "generate_id u = upper (take 24 (uuid_hex u))"

definition is_upper_hex :: "char \<Rightarrow> bool" where
  "is_upper_hex c = (c \<in> set ''0123456789ABCDEF'')"

text \<open>
  The eight identifiers drawn at the top of \<open>add_test_target\<close>, in the order of the
  source. \<open>rng k\<close> is the value of the \<open>k\<close>-th call of \<open>uuid.uuid4()\<close> in the run.
\<close>

record ids =
  test_target_id :: string
  test_product_id :: string
  test_sources_phase_id :: string
  test_frameworks_phase_id :: string
  test_build_config_list_id :: string
  test_debug_config_id :: string
  test_release_config_id :: string
  test_group_id :: string

definition generate_ids :: "(nat \<Rightarrow> uuid) \<Rightarrow> ids" where
  "generate_ids rng =
     \<lparr>test_target_id = generate_id (rng 0),
      test_product_id = generate_id (rng 1),
      test_sources_phase_id = generate_id (rng 2),
      test_frameworks_phase_id = generate_id (rng 3),
      test_build_config_list_id = generate_id (rng 4),
      test_debug_config_id = generate_id (rng 5),
      test_release_config_id = generate_id (rng 6),
      test_group_id = generate_id (rng 7)\<rparr>"

subsection \<open>Pattern search\<close>

text \<open>
  All patterns but two are literal text (the only metacharacters are escaped), so
  \<open>re.search\<close> finds the leftmost occurrence of the text. \<open>re_search\<close> returns the
  match as \<open>(start, end)\<close>.
\<close>

fun find_str :: "string \<Rightarrow> string \<Rightarrow> nat option" where
  "find_str pat [] = (if pat = [] then Some 0 else None)"
| "find_str pat (x # xs) =
     (if prefix pat (x # xs) then Some 0 else map_option Suc (find_str pat xs))"

definition re_search :: "string \<Rightarrow> string \<Rightarrow> (nat \<times> nat) option" where
  "re_search pat s = map_option (\<lambda>i. (i, i + length pat)) (find_str pat s)"

text \<open>
  The two remaining patterns have the shape \<open>P[^}]+children = \(\<close> with \<open>P\<close> literal.
  At a start offset the engine matches \<open>P\<close>, lets \<open>[^}]+\<close> take the longest run of
  characters other than \<open>}\<close>, and gives characters back one at a time (never below one)
  until \<open>children = (\<close> follows. The search tries the start offsets from the left.
\<close>

definition children_lit :: string where
  "children_lit = ''children = (''"

fun backtrack :: "string \<Rightarrow> string \<Rightarrow> nat \<Rightarrow> nat option" where
  "backtrack lit r 0 = None"
| "backtrack lit r (Suc k) =
     (if prefix lit (drop (Suc k) r) then Some (Suc k) else backtrack lit r k)"

definition match_children :: "string \<Rightarrow> string \<Rightarrow> nat option" where
  "match_children pre s =
     (if prefix pre s
      then (let r = drop (length pre) s
            in map_option (\<lambda>k. length pre + k + length children_lit)
                 (backtrack children_lit r (length (takeWhile (\<lambda>c. c \<noteq> CHR ''}'') r))))
      else None)"

fun re_search_children :: "string \<Rightarrow> string \<Rightarrow> (nat \<times> nat) option" where
  "re_search_children pre [] = map_option (\<lambda>n. (0, n)) (match_children pre [])"
| "re_search_children pre (x # xs) =
     (case match_children pre (x # xs) of
        Some n \<Rightarrow> Some (0, n)
      | None \<Rightarrow> map_option (\<lambda>(s, e). (Suc s, Suc e)) (re_search_children pre xs))"

text \<open>
  What it means for the pattern \<open>P[^}]+children = \(\<close> to match somewhere in \<open>s\<close>,
  said without the search: \<open>P\<close>, then at least one character and none of them \<open>}\<close>,
  then \<open>children = (\<close>.
\<close>

definition children_pattern_occurs :: "string \<Rightarrow> string \<Rightarrow> bool" where
  "children_pattern_occurs pre s \<longleftrightarrow>
     (\<exists>a m b. s = a @ pre @ m @ children_lit @ b \<and> m \<noteq> [] \<and> CHR ''}'' \<notin> set m)"

text \<open>The patterns of the source, in the order of their use.\<close>

definition main_target_pat :: string where
  "main_target_pat = ''5224F5F42EED89A600A4DEB4 /* PaykitDemo */''"

definition file_ref_begin :: string where
  "file_ref_begin = ''/* Begin PBXFileReference section */''"

definition group_begin :: string where
  "group_begin = ''/* Begin PBXGroup section */''"

definition main_group_pre :: string where
  "main_group_pre = ''5224F5EC2EED89A600A4DEB4 = {''"

definition group_end_pat :: string where
  "group_end_pat = ''/* End PBXGroup section */''"

definition products_group_pre :: string where
  "products_group_pre = ''5224F5F62EED89A600A4DEB4 /* Products */ = {''"

definition sources_phase_end_pat :: string where
  "sources_phase_end_pat = ''/* End PBXSourcesBuildPhase section */''"

definition frameworks_phase_end_pat :: string where
  "frameworks_phase_end_pat = ''/* End PBXFrameworksBuildPhase section */''"

definition native_target_end_pat :: string where
  "native_target_end_pat = ''/* End PBXNativeTarget section */''"

definition targets_pat :: string where
  "targets_pat = ''targets = (''"

definition config_list_end_pat :: string where
  "config_list_end_pat = ''/* End XCConfigurationList section */''"

definition target_attrs_pat :: string where
  "target_attrs_pat = ''TargetAttributes = {''"

subsection \<open>The inserted text\<close>

abbreviation tab :: char where "tab \<equiv> CHR 0x09"
abbreviation nl :: string where "nl \<equiv> [CHR 0x0A]"
abbreviation t2 :: string where "t2 \<equiv> [tab, tab]"
abbreviation t3 :: string where "t3 \<equiv> [tab, tab, tab]"
abbreviation t4 :: string where "t4 \<equiv> [tab, tab, tab, tab]"
abbreviation t5 :: string where "t5 \<equiv> [tab, tab, tab, tab, tab]"

definition test_file_ref :: "ids \<Rightarrow> string" where
  \<open>test_file_ref i =
     t2 @ test_product_id i @ '' /* PaykitDemoTests.xctest */ = {isa = PBXFileReference; explicitFileType = wrapper.cfbundle; includeInIndex = 0; path = PaykitDemoTests.xctest; sourceTree = BUILT_PRODUCTS_DIR; };'' @ nl\<close>

definition test_group_ref :: "ids \<Rightarrow> string" where
  \<open>test_group_ref i = t4 @ test_group_id i @ '' /* PaykitDemoTests */,'' @ nl\<close>

definition test_group_def :: "ids \<Rightarrow> string" where
  \<open>test_group_def i =
     t2 @ test_group_id i @ '' /* PaykitDemoTests */ = {'' @ nl @
     t3 @ ''isa = PBXGroup;'' @ nl @
     t3 @ ''children = ('' @ nl @
     t3 @ '');'' @ nl @
     t3 @ ''path = PaykitDemoTests;'' @ nl @
     t3 @ ''sourceTree = "<group>";'' @ nl @
     t2 @ ''};'' @ nl\<close>

definition test_product_ref :: "ids \<Rightarrow> string" where
  \<open>test_product_ref i = t4 @ test_product_id i @ '' /* PaykitDemoTests.xctest */,'' @ nl\<close>

definition test_sources_phase :: "ids \<Rightarrow> string" where
  \<open>test_sources_phase i =
     t2 @ test_sources_phase_id i @ '' /* Sources */ = {'' @ nl @
     t3 @ ''isa = PBXSourcesBuildPhase;'' @ nl @
     t3 @ ''buildActionMask = 2147483647;'' @ nl @
     t3 @ ''files = ('' @ nl @
     t3 @ '');'' @ nl @
     t3 @ ''runOnlyForDeploymentPostprocessing = 0;'' @ nl @
     t2 @ ''};'' @ nl\<close>

definition test_frameworks_phase :: "ids \<Rightarrow> string" where
  \<open>test_frameworks_phase i =
     t2 @ test_frameworks_phase_id i @ '' /* Frameworks */ = {'' @ nl @
     t3 @ ''isa = PBXFrameworksBuildPhase;'' @ nl @
     t3 @ ''buildActionMask = 2147483647;'' @ nl @
     t3 @ ''files = ('' @ nl @
     t3 @ '');'' @ nl @
     t3 @ ''runOnlyForDeploymentPostprocessing = 0;'' @ nl @
     t2 @ ''};'' @ nl\<close>

text \<open>
  The native target's text holds a ninth identifier, drawn by a \<open>generate_id()\<close> call
  inside the f-string: the parameter \<open>dep\<close>.
\<close>

definition test_target :: "ids \<Rightarrow> string \<Rightarrow> string" where
  \<open>test_target i dep =
     t2 @ test_target_id i @ '' /* PaykitDemoTests */ = {'' @ nl @
     t3 @ ''isa = PBXNativeTarget;'' @ nl @
     t3 @ ''buildConfigurationList = '' @ test_build_config_list_id i @ '' /* Build configuration list for PBXNativeTarget "PaykitDemoTests" */;'' @ nl @
     t3 @ ''buildPhases = ('' @ nl @
     t4 @ test_sources_phase_id i @ '' /* Sources */,'' @ nl @
     t4 @ test_frameworks_phase_id i @ '' /* Frameworks */,'' @ nl @
     t3 @ '');'' @ nl @
     t3 @ ''buildRules = ('' @ nl @
     t3 @ '');'' @ nl @
     t3 @ ''dependencies = ('' @ nl @
     t4 @ dep @ '' /* PBXTargetDependency */,'' @ nl @
     t3 @ '');'' @ nl @
     t3 @ ''name = PaykitDemoTests;'' @ nl @
     t3 @ ''packageProductDependencies = ('' @ nl @
     t3 @ '');'' @ nl @
     t3 @ ''productName = PaykitDemoTests;'' @ nl @
     t3 @ ''productReference = '' @ test_product_id i @ '' /* PaykitDemoTests.xctest */;'' @ nl @
     t3 @ ''productType = "com.apple.product-type.bundle.unit-test";'' @ nl @
     t2 @ ''};'' @ nl\<close>

definition test_target_ref :: "ids \<Rightarrow> string" where
  \<open>test_target_ref i = t4 @ test_target_id i @ '' /* PaykitDemoTests */,'' @ nl\<close>

text \<open>
  The build settings of the two configurations: the lines between \<open>buildSettings = {\<close>
  and its closing brace. The Release text indents two lines of the search paths less
  than the Debug text does.
\<close>

definition debug_build_settings :: string where
  \<open>debug_build_settings =
     t4 @ ''BUNDLE_LOADER = "$(TEST_HOST)";'' @ nl @
     t4 @ ''CODE_SIGN_STYLE = Automatic;'' @ nl @
     t4 @ ''CURRENT_PROJECT_VERSION = 1;'' @ nl @
     t4 @ ''GENERATE_INFOPLIST_FILE = YES;'' @ nl @
     t4 @ ''INFOPLIST_KEY_UIApplicationSupportsIndirectInputEvents = YES;'' @ nl @
     t4 @ ''IPHONEOS_DEPLOYMENT_TARGET = 16.6;'' @ nl @
     t4 @ ''LD_RUNPATH_SEARCH_PATHS = ('' @ nl @
     t5 @ ''"$(inherited)",'' @ nl @
     t5 @ ''"@executable_path/Frameworks",'' @ nl @
     t5 @ ''"@loader_path/Frameworks",'' @ nl @
     t4 @ '');'' @ nl @
     t4 @ ''MARKETING_VERSION = 1.0;'' @ nl @
     t4 @ ''PRODUCT_BUNDLE_IDENTIFIER = synonym.PaykitDemoTests;'' @ nl @
     t4 @ ''PRODUCT_NAME = "$(TARGET_NAME)";'' @ nl @
     t4 @ ''SWIFT_EMIT_LOC_STRINGS = NO;'' @ nl @
     t4 @ ''SWIFT_VERSION = 5.0;'' @ nl @
     t4 @ ''TEST_HOST = "$(BUILT_PRODUCTS_DIR)/PaykitDemo.app/$(BUNDLE_EXECUTABLE_FOLDER_PATH)/PaykitDemo";'' @ nl\<close>

definition release_build_settings :: string where
  \<open>release_build_settings =
     t4 @ ''BUNDLE_LOADER = "$(TEST_HOST)";'' @ nl @
     t4 @ ''CODE_SIGN_STYLE = Automatic;'' @ nl @
     t4 @ ''CURRENT_PROJECT_VERSION = 1;'' @ nl @
     t4 @ ''GENERATE_INFOPLIST_FILE = YES;'' @ nl @
     t4 @ ''INFOPLIST_KEY_UIApplicationSupportsIndirectInputEvents = YES;'' @ nl @
     t4 @ ''IPHONEOS_DEPLOYMENT_TARGET = 16.6;'' @ nl @
     t4 @ ''LD_RUNPATH_SEARCH_PATHS = ('' @ nl @
     t5 @ ''"$(inherited)",'' @ nl @
     t5 @ ''"@executable_path/Frameworks",'' @ nl @
     t4 @ ''"@loader_path/Frameworks",'' @ nl @
     t3 @ '');'' @ nl @
     t4 @ ''MARKETING_VERSION = 1.0;'' @ nl @
     t4 @ ''PRODUCT_BUNDLE_IDENTIFIER = synonym.PaykitDemoTests;'' @ nl @
     t4 @ ''PRODUCT_NAME = "$(TARGET_NAME)";'' @ nl @
     t4 @ ''SWIFT_EMIT_LOC_STRINGS = NO;'' @ nl @
     t4 @ ''SWIFT_VERSION = 5.0;'' @ nl @
     t4 @ ''TEST_HOST = "$(BUILT_PRODUCTS_DIR)/PaykitDemo.app/$(BUNDLE_EXECUTABLE_FOLDER_PATH)/PaykitDemo";'' @ nl\<close>

text \<open>
  The source binds the whole text (both configurations and the configuration list) to
  the one variable \<open>test_debug_config\<close>.
\<close>

definition test_debug_config :: "ids \<Rightarrow> string" where
  \<open>test_debug_config i =
     t2 @ test_debug_config_id i @ '' /* Debug */ = {'' @ nl @
     t3 @ ''isa = XCBuildConfiguration;'' @ nl @
     t3 @ ''buildSettings = {'' @ nl @
     debug_build_settings @
     t3 @ ''};'' @ nl @
     t3 @ ''name = Debug;'' @ nl @
     t2 @ ''};'' @ nl @
     t2 @ test_release_config_id i @ '' /* Release */ = {'' @ nl @
     t3 @ ''isa = XCBuildConfiguration;'' @ nl @
     t3 @ ''buildSettings = {'' @ nl @
     release_build_settings @
     t3 @ ''};'' @ nl @
     t3 @ ''name = Release;'' @ nl @
     t2 @ ''};'' @ nl @
     t2 @ test_build_config_list_id i @ '' /* Build configuration list for PBXNativeTarget "PaykitDemoTests" */ = {'' @ nl @
     t3 @ ''isa = XCConfigurationList;'' @ nl @
     t3 @ ''buildConfigurations = ('' @ nl @
     t4 @ test_debug_config_id i @ '' /* Debug */,'' @ nl @
     t4 @ test_release_config_id i @ '' /* Release */,'' @ nl @
     t3 @ '');'' @ nl @
     t3 @ ''defaultConfigurationIsVisible = 0;'' @ nl @
     t3 @ ''defaultConfigurationName = Release;'' @ nl @
     t2 @ ''};'' @ nl\<close>

definition test_target_attrs :: "ids \<Rightarrow> string" where
  \<open>test_target_attrs i =
     t4 @ test_target_id i @ '' = {'' @ nl @
     t5 @ ''CreatedOnToolsVersion = 26.1.1;'' @ nl @
     t5 @ ''TestTargetID = 5224F5F42EED89A600A4DEB4;'' @ nl @
     t4 @ ''};'' @ nl\<close>

subsection \<open>The edits\<close>

text \<open>
  Every edit of the source has the form
  \<open>if m: content = content[:pos] + new + content[pos:]\<close>, with \<open>pos\<close> the start or
  the end of the match \<open>m\<close>. \<open>insert_at\<close> is that statement, the position being
  \<open>None\<close> when there is no match.
\<close>

definition insert_at :: "nat option \<Rightarrow> string \<Rightarrow> string \<Rightarrow> string" where
  "insert_at pos new content =
     (case pos of None \<Rightarrow> content | Some p \<Rightarrow> take p content @ new @ drop p content)"

definition match_start :: "(nat \<times> nat) option \<Rightarrow> nat option" where
  "match_start m = map_option fst m"

definition match_end :: "(nat \<times> nat) option \<Rightarrow> nat option" where
  "match_end m = map_option snd m"

text \<open>Add test target file reference (source lines 43-47).\<close>

definition add_file_reference :: "ids \<Rightarrow> string \<Rightarrow> string" where
  "add_file_reference i content =
     insert_at (match_end (re_search file_ref_begin content)) (test_file_ref i) content"

text \<open>
  Add test group (source lines 50-71). Both inner edits stand under the one test of
  \<open>group_section\<close>, which is searched before either of them; the second inner search
  runs on the content the first inner edit left.
\<close>

definition add_group_ref :: "ids \<Rightarrow> string \<Rightarrow> string" where
  "add_group_ref i content =
     insert_at (match_end (re_search_children main_group_pre content)) (test_group_ref i) content"

definition add_group_def :: "ids \<Rightarrow> string \<Rightarrow> string" where
  "add_group_def i content =
     insert_at (match_start (re_search group_end_pat content)) (test_group_def i) content"

definition add_group :: "ids \<Rightarrow> string \<Rightarrow> string" where
  "add_group i content =
     (case re_search group_begin content of
        None \<Rightarrow> content
      | Some group_section \<Rightarrow> add_group_def i (add_group_ref i content))"

text \<open>Add test target to Products group (source lines 74-78).\<close>

definition add_product_ref :: "ids \<Rightarrow> string \<Rightarrow> string" where
  "add_product_ref i content =
     insert_at (match_end (re_search_children products_group_pre content))
       (test_product_ref i) content"

text \<open>Add build phases for test target (source lines 81-105).\<close>

definition add_sources_phase :: "ids \<Rightarrow> string \<Rightarrow> string" where
  "add_sources_phase i content =
     insert_at (match_start (re_search sources_phase_end_pat content))
       (test_sources_phase i) content"

definition add_frameworks_phase :: "ids \<Rightarrow> string \<Rightarrow> string" where
  "add_frameworks_phase i content =
     insert_at (match_start (re_search frameworks_phase_end_pat content))
       (test_frameworks_phase i) content"

text \<open>Add test target (source lines 108-131).\<close>

definition add_native_target :: "ids \<Rightarrow> string \<Rightarrow> string \<Rightarrow> string" where
  "add_native_target i dep content =
     insert_at (match_start (re_search native_target_end_pat content))
       (test_target i dep) content"

text \<open>Add test target to project targets list (source lines 134-138).\<close>

definition add_target_ref :: "ids \<Rightarrow> string \<Rightarrow> string" where
  "add_target_ref i content =
     insert_at (match_end (re_search targets_pat content)) (test_target_ref i) content"

text \<open>Add build configurations for test target (source lines 141-200).\<close>

definition add_build_configs :: "ids \<Rightarrow> string \<Rightarrow> string" where
  "add_build_configs i content =
     insert_at (match_start (re_search config_list_end_pat content))
       (test_debug_config i) content"

text \<open>Update target attributes (source lines 203-211).\<close>

definition add_target_attrs :: "ids \<Rightarrow> string \<Rightarrow> string" where
  "add_target_attrs i content =
     insert_at (match_end (re_search target_attrs_pat content)) (test_target_attrs i) content"

text \<open>The edits of source lines 43-211, in their order.\<close>

definition edit_content :: "ids \<Rightarrow> string \<Rightarrow> string \<Rightarrow> string" where
  "edit_content i dep content =
     (let content = add_file_reference i content;
          content = add_group i content;
          content = add_product_ref i content;
          content = add_sources_phase i content;
          content = add_frameworks_phase i content;
          content = add_native_target i dep content;
          content = add_target_ref i content;
          content = add_build_configs i content;
          content = add_target_attrs i content
      in content)"

subsection \<open>\<open>add_test_target\<close> and the script\<close>

text \<open>
  The world of the script: the files it can open, by path, and the lines it has printed.
  \<open>open(project_path, 'r')\<close> raises when the file is missing; the exception is the
  \<open>Inl\<close> result. The file is read and written as text; the model takes the string
  \<open>f.read()\<close> returns as the file's content and stores the string given to \<open>f.write\<close>.
  The ninth identifier is drawn only where the native target's text is built; drawing it
  has no effect but its value, so the model hands the value to \<open>edit_content\<close>.

  Text mode reads with universal newlines: of a file whose characters are \<open>raw\<close>,
  \<open>f.read()\<close> returns \<open>universal_newlines raw\<close>, in which every CR LF and every other CR
  has become LF. Writing, on a POSIX system, stores the characters of the string as they
  are. So \<open>files\<close> holds for the file read what \<open>universal_newlines\<close> makes of its
  characters, and for the file written its characters.
\<close>

fun universal_newlines :: "string \<Rightarrow> string" where
  "universal_newlines [] = []"
| "universal_newlines [c] = (if c = CHR 0x0D then [CHR 0x0A] else [c])"
| "universal_newlines (c # d # ds) =
     (if c = CHR 0x0D \<and> d = CHR 0x0A then CHR 0x0A # universal_newlines ds
      else if c = CHR 0x0D then CHR 0x0A # universal_newlines (d # ds)
      else c # universal_newlines (d # ds))"

datatype error = FileNotFoundError

record world =
  files :: "string \<rightharpoonup> string"
  stdout :: "string list"

definition print :: "string \<Rightarrow> world \<Rightarrow> world" where
  "print line w = w\<lparr>stdout := stdout w @ [line]\<rparr>"

definition write_file :: "string \<Rightarrow> string \<Rightarrow> world \<Rightarrow> world" where
  "write_file path content w = w\<lparr>files := (files w)(path \<mapsto> content)\<rparr>"

definition add_test_target :: "(nat \<Rightarrow> uuid) \<Rightarrow> string \<Rightarrow> world \<Rightarrow> error + (bool \<times> world)" where
  "add_test_target rng project_path w =
     (case files w project_path of
        None \<Rightarrow> Inl FileNotFoundError
      | Some content \<Rightarrow>
          (let i = generate_ids rng in
           case re_search main_target_pat content of
             None \<Rightarrow> Inr (False, print ''Error: Could not find main target'' w)
           | Some main_target_match \<Rightarrow>
               (let content = edit_content i (generate_id (rng 8)) content;
                    w = write_file project_path content w;
                    w = print ''Added PaykitDemoTests target to project'' w;
                    w = print (''Test target ID: '' @ test_target_id i) w
                in Inr (True, w))))"

text \<open>The \<open>__main__\<close> block: the result is the exit status and the final world.\<close>

definition project_path :: string where
  "project_path = ''PaykitDemo.xcodeproj/project.pbxproj''"

definition main :: "(nat \<Rightarrow> uuid) \<Rightarrow> world \<Rightarrow> error + (nat \<times> world)" where
  "main rng w =
     (case add_test_target rng project_path w of
        Inl e \<Rightarrow> Inl e
      | Inr (ok, w') \<Rightarrow>
          (if ok then Inr (0, print ''Successfully added test target'' w')
           else Inr (1, print ''Failed to add test target'' w')))"

subsection \<open>Notions the properties are stated with\<close>

text \<open>
  The content after a list of insertions, each a position and a text, made one after the
  other: what \<open>content[:pos] + new + content[pos:]\<close> does, repeated.
\<close>

fun splice_all :: "(nat \<times> string) list \<Rightarrow> string \<Rightarrow> string" where
  "splice_all [] c = c"
| "splice_all ((p, new) # es) c = splice_all es (take p c @ new @ drop p c)"

text \<open>The number of offsets of \<open>s\<close> at which \<open>pat\<close> occurs.\<close>

fun occurrences :: "string \<Rightarrow> string \<Rightarrow> nat" where
  "occurrences pat [] = 0"
| "occurrences pat (x # xs) = (if prefix pat (x # xs) then 1 else 0) + occurrences pat xs"

text \<open>The shape of an identifier: 24 upper-case hexadecimal digits.\<close>

definition hex_id :: "string \<Rightarrow> bool" where
  "hex_id s \<longleftrightarrow> length s = 24 \<and> list_all is_upper_hex s"

text \<open>
  A device for counting in a long text one character at a time: \<open>r\<close> is the run of
  characters just read, last one first, and \<open>s\<close> the text still to read. The text read
  so far and to come holds \<open>n\<close> occurrences of the identifier \<open>pat\<close> and, unless empty,
  ends in a character that is no hexadecimal digit.
\<close>

definition counts :: "string \<Rightarrow> string \<Rightarrow> string \<Rightarrow> nat \<Rightarrow> bool" where
  "counts pat r s n \<longleftrightarrow>
     (hex_id pat \<longrightarrow>
        occurrences pat (rev r @ s) = n \<and>
        (rev r @ s = [] \<or> \<not> is_upper_hex (last (rev r @ s))))"

subsection \<open>A sample run\<close>

text \<open>
  A sequence of \<open>uuid4()\<close> results under which the identifiers drawn are
  \<open>000000000000000000000001\<close>, \<open>000000000000000000000002\<close>, and so on: the concrete
  instances below use it. \<open>sample_world path text\<close> is the world before a run that
  finds the one file \<open>path\<close>, reads \<open>text\<close> from it, and has printed nothing yet.
\<close>

definition sample_world :: "string \<Rightarrow> string \<Rightarrow> world" where
  "sample_world path text = \<lparr>files = [path \<mapsto> text], stdout = []\<rparr>"

definition example_rng :: "nat \<Rightarrow> uuid" where
  "example_rng k =
     (if k < 9
      then [0x100000000, 0x200000000, 0x300000000, 0x400000000, 0x500000000,
            0x600000000, 0x700000000, 0x800000000, 0x900000000] ! k
      else 0)"

section \<open>Properties\<close>

subsection \<open>Literal search\<close>

lemma find_str_None_iff: "find_str pat s = None \<longleftrightarrow> \<not> sublist pat s"
  by (induction s) (auto simp: sublist_Cons_right)

lemma re_search_None_iff: "re_search pat s = None \<longleftrightarrow> \<not> sublist pat s"
  by (simp add: re_search_def find_str_None_iff)

lemma find_str_Some_prefix:
  "find_str pat s = Some k \<Longrightarrow> k \<le> length s \<and> prefix pat (drop k s)"
proof (induction s arbitrary: k)
  case Nil
  then show ?case by (simp split: if_splits)
next
  case (Cons x xs)
  show ?case
  proof (cases "prefix pat (x # xs)")
    case True
    with Cons.prems show ?thesis by simp
  next
    case False
    with Cons.prems obtain j where "find_str pat xs = Some j" and "k = Suc j"
      by auto
    with Cons.IH [of j] show ?thesis by simp
  qed
qed

lemma find_str_first:
  assumes "pat \<noteq> []" and "\<not> sublist pat (pre @ butlast pat)"
  shows "find_str pat (pre @ pat @ post) = Some (length pre)"
  using assms(2)
proof (induction pre)
  case Nil
  from assms(1) obtain x xs where "pat = x # xs" by (cases pat) auto
  then show ?case by simp
next
  case (Cons a pre)
  have no_pre: "\<not> prefix pat (a # pre @ pat @ post)"
  proof
    assume p: "prefix pat (a # pre @ pat @ post)"
    have "prefix (a # pre @ butlast pat) (a # pre @ pat @ post)"
      by (metis append_butlast_last_id assms(1) append.assoc prefixI prefix_Cons same_prefix_prefix)
    moreover have "length pat \<le> length (a # pre @ butlast pat)"
      by simp
    ultimately have "prefix pat (a # pre @ butlast pat)"
      using p prefix_length_prefix by blast
    then have "sublist pat ((a # pre) @ butlast pat)"
      by (simp add: prefix_imp_sublist)
    with Cons.prems show False by simp
  qed
  have "\<not> sublist pat (pre @ butlast pat)"
    using Cons.prems by (auto simp: sublist_Cons_right)
  with Cons.IH have "find_str pat (pre @ pat @ post) = Some (length pre)" .
  with no_pre show ?case by simp
qed

text \<open>
  A marker that occurs has a first occurrence: the properties below that speak of
  \<open>pre @ marker @ post\<close> with no earlier occurrence cover every content holding the
  marker.
\<close>

lemma find_str_Some_first:
  assumes "pat \<noteq> []"
  shows "find_str pat s = Some k \<Longrightarrow> \<not> sublist pat (take k s @ butlast pat)"
proof (induction s arbitrary: k)
  case Nil
  with assms show ?case by simp
next
  case (Cons x xs)
  have short: "\<not> sublist pat (butlast pat)"
  proof
    assume "sublist pat (butlast pat)"
    then have "length pat \<le> length (butlast pat)" by (rule sublist_length_le)
    with assms show False
      by (cases pat) (simp_all del: butlast.simps)
  qed
  show ?case
  proof (cases "prefix pat (x # xs)")
    case True
    with Cons.prems have "k = 0" by simp
    with short show ?thesis by simp
  next
    case False
    with Cons.prems obtain j where j: "find_str pat xs = Some j" and k: "k = Suc j"
      by auto
    from find_str_Some_prefix [OF j] obtain rest where "drop j xs = pat @ rest"
      by (auto simp: prefix_def)
    then have "xs = take j xs @ butlast pat @ [last pat] @ rest"
      using assms by (metis append_butlast_last_id append_take_drop_id append.assoc)
    then have "prefix (x # take j xs @ butlast pat) (x # xs)"
      by (metis Cons_prefix_Cons append.assoc prefixI)
    then have "\<not> prefix pat (x # take j xs @ butlast pat)"
      using False prefix_order.order_trans by blast
    with Cons.IH [OF j] k show ?thesis
      by (simp add: sublist_Cons_right)
  qed
qed

lemma first_occurrence_exists:
  fixes pat c :: string
  assumes "sublist pat c" and "pat \<noteq> []"
  shows "\<exists>pre post. c = pre @ pat @ post \<and> \<not> sublist pat (pre @ butlast pat)"
proof -
  from assms(1) obtain k where k: "find_str pat c = Some k"
    using find_str_None_iff [of pat c] by auto
  from find_str_Some_prefix [OF k] obtain post where "drop k c = pat @ post"
    by (auto simp: prefix_def)
  then have "c = take k c @ pat @ post"
    by (metis append_take_drop_id)
  with find_str_Some_first [OF assms(2) k] show ?thesis by blast
qed

lemma insert_at_None [simp]: "insert_at None new c = c"
  by (simp add: insert_at_def)

lemma insert_at_Some [simp]: "insert_at (Some p) new c = take p c @ new @ drop p c"
  by (simp add: insert_at_def)

lemma insert_at_start:
  assumes "pat \<noteq> []" and "\<not> sublist pat (pre @ butlast pat)"
  shows "insert_at (match_start (re_search pat (pre @ pat @ post))) new (pre @ pat @ post)
         = pre @ new @ pat @ post"
  using find_str_first [OF assms, of post]
  by (simp add: re_search_def match_start_def)

lemma insert_at_end:
  assumes "pat \<noteq> []" and "\<not> sublist pat (pre @ butlast pat)"
  shows "insert_at (match_end (re_search pat (pre @ pat @ post))) new (pre @ pat @ post)
         = pre @ pat @ new @ post"
  using find_str_first [OF assms, of post]
  by (simp add: re_search_def match_end_def)

lemma insert_at_absent_start:
  "\<not> sublist pat c \<Longrightarrow> insert_at (match_start (re_search pat c)) new c = c"
  by (simp add: match_start_def flip: re_search_None_iff)

lemma insert_at_absent_end:
  "\<not> sublist pat c \<Longrightarrow> insert_at (match_end (re_search pat c)) new c = c"
  by (simp add: match_end_def flip: re_search_None_iff)

lemma subseq_insert_at: "subseq c (insert_at pos new c)"
proof (cases pos)
  case None
  then show ?thesis by simp
next
  case (Some p)
  have "subseq (take p c @ drop p c) (take p c @ new @ drop p c)"
    by (intro list_emb_append_mono subseq_order.order_refl list_emb_append2) 
  then show ?thesis using Some by simp
qed

subsection \<open>The pattern with a character class\<close>

lemma backtrack_None_iff:
  "backtrack lit r n = None \<longleftrightarrow> (\<forall>k. 0 < k \<and> k \<le> n \<longrightarrow> \<not> prefix lit (drop k r))"
proof (induction n)
  case 0
  then show ?case by simp
next
  case (Suc n)
  show ?case
  proof (cases "prefix lit (drop (Suc n) r)")
    case True
    then show ?thesis by auto
  next
    case False
    then show ?thesis
      using Suc.IH by (auto simp: le_Suc_eq)
  qed
qed

lemma backtrack_Some:
  "backtrack lit r n = Some k \<Longrightarrow> 0 < k \<and> k \<le> n \<and> prefix lit (drop k r)"
  by (induction n) (auto split: if_splits)

lemma match_children_Some:
  assumes "match_children pre s = Some n"
  shows "\<exists>m b. s = pre @ m @ children_lit @ b \<and> m \<noteq> [] \<and> CHR ''}'' \<notin> set m
           \<and> n = length (pre @ m @ children_lit)"
proof -
  let ?P = "\<lambda>c. c \<noteq> CHR ''}''"
  from assms have pre: "prefix pre s"
    by (auto simp: match_children_def split: if_splits)
  then obtain r where s: "s = pre @ r" by (auto simp: prefix_def)
  from assms pre s obtain k where
    k: "backtrack children_lit r (length (takeWhile ?P r)) = Some k"
    and n: "n = length pre + k + length children_lit"
    by (auto simp: match_children_def Let_def)
  from backtrack_Some [OF k] have k0: "0 < k" and kn: "k \<le> length (takeWhile ?P r)"
    and pl: "prefix children_lit (drop k r)" by auto
  from pl obtain b where b: "drop k r = children_lit @ b" by (auto simp: prefix_def)
  let ?m = "take k r"
  have r: "r = ?m @ children_lit @ b" using b by (metis append_take_drop_id)
  have "length (takeWhile ?P r) \<le> length r" by (rule length_takeWhile_le)
  with kn have klen: "k \<le> length r" by simp
  have "?m = take k (takeWhile ?P r @ dropWhile ?P r)"
    by (simp only: takeWhile_dropWhile_id)
  also have "\<dots> = take k (takeWhile ?P r)"
    using kn by (simp del: takeWhile_dropWhile_id)
  finally have "?m = take k (takeWhile ?P r)" .
  then have "set ?m \<subseteq> set (takeWhile ?P r)"
    by (metis set_take_subset)
  then have nobrace: "CHR ''}'' \<notin> set ?m"
    by (auto dest: set_takeWhileD)
  have "?m \<noteq> []" using k0 klen by (cases r) auto
  moreover have "n = length (pre @ ?m @ children_lit)"
    using n klen by simp
  ultimately show ?thesis using s r nobrace by (metis append.assoc)
qed

lemma match_children_present:
  assumes "m \<noteq> []" and "CHR ''}'' \<notin> set m"
  shows "match_children pre (pre @ m @ children_lit @ b) \<noteq> None"
proof -
  let ?P = "\<lambda>c. c \<noteq> CHR ''}''"
  let ?r = "m @ children_lit @ b"
  have "takeWhile ?P ?r = m @ takeWhile ?P (children_lit @ b)"
    using assms(2) by (intro takeWhile_append2) auto
  then have "length m \<le> length (takeWhile ?P ?r)" by simp
  moreover have "0 < length m" using assms(1) by simp
  moreover have "prefix children_lit (drop (length m) ?r)" by simp
  ultimately have "backtrack children_lit ?r (length (takeWhile ?P ?r)) \<noteq> None"
    unfolding backtrack_None_iff by blast
  then show ?thesis
    by (auto simp: match_children_def Let_def)
qed

lemma match_children_None_iff:
  "match_children pre s = None \<longleftrightarrow>
     \<not> (\<exists>m b. s = pre @ m @ children_lit @ b \<and> m \<noteq> [] \<and> CHR ''}'' \<notin> set m)"
proof (cases "match_children pre s")
  case None
  have "s \<noteq> pre @ m @ children_lit @ b" if "m \<noteq> []" "CHR ''}'' \<notin> set m" for m b
    using match_children_present [OF that, of pre b] None by auto
  with None show ?thesis by blast
next
  case (Some n)
  from match_children_Some [OF Some] Some show ?thesis by auto
qed

lemma re_search_children_None_iff:
  "re_search_children pre s = None \<longleftrightarrow> \<not> children_pattern_occurs pre s"
proof (induction s)
  case Nil
  have "children_lit \<noteq> []" by (simp add: children_lit_def)
  then show ?case
    by (auto simp: children_pattern_occurs_def match_children_None_iff)
next
  case (Cons x xs)
  have "children_pattern_occurs pre (x # xs) \<longleftrightarrow>
          (\<exists>m b. x # xs = pre @ m @ children_lit @ b \<and> m \<noteq> [] \<and> CHR ''}'' \<notin> set m)
          \<or> children_pattern_occurs pre xs" (is "?L \<longleftrightarrow> ?A \<or> ?B")
  proof
    assume ?L
    then obtain a m b where e: "x # xs = a @ pre @ m @ children_lit @ b"
      and m: "m \<noteq> []" "CHR ''}'' \<notin> set m"
      by (auto simp: children_pattern_occurs_def)
    show "?A \<or> ?B"
    proof (cases a)
      case Nil
      with e m show ?thesis by auto
    next
      case (Cons y ys)
      with e have "xs = ys @ pre @ m @ children_lit @ b" by simp
      with m show ?thesis unfolding children_pattern_occurs_def by blast
    qed
  next
    assume "?A \<or> ?B"
    then show ?L
    proof
      assume ?A
      then show ?L unfolding children_pattern_occurs_def by (metis append_Nil)
    next
      assume ?B
      then obtain a m b where "xs = a @ pre @ m @ children_lit @ b"
        and "m \<noteq> []" "CHR ''}'' \<notin> set m"
        by (auto simp: children_pattern_occurs_def)
      then have "x # xs = (x # a) @ pre @ m @ children_lit @ b \<and> m \<noteq> [] \<and> CHR ''}'' \<notin> set m"
        by simp
      then show ?L unfolding children_pattern_occurs_def by blast
    qed
  qed
  then show ?case
    using Cons.IH match_children_None_iff [of pre "x # xs"]
    by (auto split: option.splits)
qed

lemma re_search_children_end:
  "re_search_children pre s = Some (st, e) \<Longrightarrow>
     e \<le> length s \<and> (\<exists>y. take e s = y @ children_lit)"
proof (induction s arbitrary: st e)
  case Nil
  then obtain n where "match_children pre [] = Some n" by auto
  from match_children_Some [OF this] show ?case by auto
next
  case (Cons x xs)
  show ?case
  proof (cases "match_children pre (x # xs)")
    case (Some n)
    with Cons.prems have e: "e = n" by simp
    from match_children_Some [OF Some] obtain m b where
      "x # xs = pre @ m @ children_lit @ b" "n = length (pre @ m @ children_lit)"
      by blast
    then have "n \<le> length (x # xs) \<and> take n (x # xs) = (pre @ m) @ children_lit"
      by (metis append.assoc append_eq_conv_conj length_append le_add1)
    with e show ?thesis by blast
  next
    case None
    with Cons.prems obtain st' e' where r: "re_search_children pre xs = Some (st', e')"
      and "e = Suc e'" by auto
    with Cons.IH [OF r] show ?thesis by auto
  qed
qed

subsection \<open>Identifiers\<close>

lemma upper_hex_digit: "d < 16 \<Longrightarrow> is_upper_hex (upper_char (hex_digit d))"
proof -
  have "\<forall>d \<in> {..<16}. is_upper_hex (upper_char (hex_digit d))"
    by (simp add: lessThan_nat_numeral lessThan_Suc hex_digit_def upper_char_def is_upper_hex_def)
  then show "d < 16 \<Longrightarrow> is_upper_hex (upper_char (hex_digit d))"
    by simp
qed

lemma length_uuid_hex: "length (uuid_hex u) = 32"
  by (simp add: uuid_hex_def)

lemma uuid_hex_chars: "c \<in> set (uuid_hex u) \<Longrightarrow> is_upper_hex (upper_char c)"
  by (auto simp: uuid_hex_def intro: upper_hex_digit)

lemma length_generate_id: "length (generate_id u) = 24"
  by (simp add: generate_id_def upper_def length_uuid_hex)

lemma generate_id_hex: "c \<in> set (generate_id u) \<Longrightarrow> is_upper_hex c"
proof -
  assume "c \<in> set (generate_id u)"
  then obtain c' where "c' \<in> set (take 24 (uuid_hex u))" and "c = upper_char c'"
    by (auto simp: generate_id_def upper_def)
  then show ?thesis
    using uuid_hex_chars [of c' u] by (auto dest: in_set_takeD)
qed

text \<open>
  C9. Every call to \<open>generate_id\<close> returns a string of exactly 24 characters, each of
  which is an upper-case hexadecimal digit (\<open>0\<close>-\<open>9\<close> or \<open>A\<close>-\<open>F\<close>).
\<close>

theorem generate_id_format:
  "length (generate_id u) = 24 \<and> (\<forall>c \<in> set (generate_id u). c \<in> set ''0123456789ABCDEF'')"
  using length_generate_id [of u] generate_id_hex [of _ u]
  unfolding is_upper_hex_def by blast

theorem generate_id_format_witness:
  "generate_id 0x0123456789abcdef0123456789abcdef = ''0123456789ABCDEF01234567'' \<and>
   length (generate_id 0x0123456789abcdef0123456789abcdef) = 24 \<and>
   CHR ''E'' \<in> set (generate_id 0x0123456789abcdef0123456789abcdef)"
proof -
  have e: "generate_id 0x0123456789abcdef0123456789abcdef = ''0123456789ABCDEF01234567''"
    by (simp add: generate_id_def uuid_hex_def hex_digit_def upper_char_def upper_def upt_rec)
  have "CHR ''E'' \<in> set (generate_id 0x0123456789abcdef0123456789abcdef)"
    by (simp add: e)
  with e generate_id_format [of "0x0123456789abcdef0123456789abcdef"] show ?thesis
    by simp
qed

subsection \<open>The guard and the script\<close>

lemma print_simps [simp]:
  "files (print l w) = files w" "stdout (print l w) = stdout w @ [l]"
  by (simp_all add: print_def)

lemma write_file_simps [simp]:
  "files (write_file p c w) = (files w)(p \<mapsto> c)" "stdout (write_file p c w) = stdout w"
  by (simp_all add: write_file_def)

lemma add_test_target_abort:
  assumes "files w path = Some content" and "\<not> sublist main_target_pat content"
  shows "add_test_target rng path w = Inr (False, print ''Error: Could not find main target'' w)"
proof -
  from assms(2) have "re_search main_target_pat content = None"
    by (simp add: re_search_None_iff)
  with assms(1) show ?thesis
    by (simp add: add_test_target_def Let_def)
qed

lemma add_test_target_success:
  assumes "files w path = Some content" and "sublist main_target_pat content"
  shows "add_test_target rng path w =
           Inr (True, print (''Test target ID: '' @ test_target_id (generate_ids rng))
                        (print ''Added PaykitDemoTests target to project''
                           (write_file path
                              (edit_content (generate_ids rng) (generate_id (rng 8)) content) w)))"
proof -
  from assms(2) obtain m where "re_search main_target_pat content = Some m"
    using re_search_None_iff [of main_target_pat content] by auto
  with assms(1) show ?thesis
    by (simp add: add_test_target_def Let_def)
qed

text \<open>
  C1. If the main-target anchor \<open>5224F5F42EED89A600A4DEB4 /* PaykitDemo */\<close> does not
  occur in the project file's content, \<open>add_test_target\<close> prints an error, returns
  \<open>False\<close> and does not write the file: the only change to the world is the printed
  line, and the files are what they were.
\<close>

theorem abort_when_main_target_missing:
  assumes "files w path = Some content" and "\<not> sublist main_target_pat content"
  shows "add_test_target rng path w = Inr (False, print ''Error: Could not find main target'' w)
         \<and> files (print ''Error: Could not find main target'' w) = files w"
  using add_test_target_abort [OF assms] by simp

lemma not_sublist_eval: "find_str pat s = None \<Longrightarrow> \<not> sublist pat s"
  by (simp add: find_str_None_iff)

lemma generate_id_0: "generate_id 0 = ''000000000000000000000000''"
  by (simp add: generate_id_def uuid_hex_def hex_digit_def upper_char_def upper_def upt_rec)

theorem abort_when_main_target_missing_witness:
  "add_test_target (\<lambda>k. 0) ''p'' \<lparr>files = [''p'' \<mapsto> ''targets = (''], stdout = []\<rparr>
     = Inr (False, \<lparr>files = [''p'' \<mapsto> ''targets = (''],
                     stdout = [''Error: Could not find main target'']\<rparr>)"
proof -
  have "\<not> sublist main_target_pat ''targets = (''"
    by (rule not_sublist_eval) (simp add: main_target_pat_def)
  from abort_when_main_target_missing [of "\<lparr>files = [''p'' \<mapsto> ''targets = (''], stdout = []\<rparr>"
      "''p''" "''targets = (''", OF _ this]
  show ?thesis by (simp add: print_def)
qed

text \<open>
  C8. Run as a script, it prints \<open>Successfully added test target\<close> and exits with status 0
  when \<open>add_test_target\<close> returns \<open>True\<close>, prints \<open>Failed to add test target\<close> and exits
  with status 1 when it returns \<open>False\<close>, and handles no other failure: an exception of
  \<open>add_test_target\<close> leaves the script as it was raised.
\<close>

theorem main_exit_status:
  "(add_test_target rng project_path w = Inr (True, w') \<longrightarrow>
      main rng w = Inr (0, print ''Successfully added test target'' w'))
   \<and> (add_test_target rng project_path w = Inr (False, w') \<longrightarrow>
      main rng w = Inr (1, print ''Failed to add test target'' w'))
   \<and> (add_test_target rng project_path w = Inl e \<longrightarrow> main rng w = Inl e)"
  by (simp add: main_def)

subsection \<open>Edits without their anchor\<close>

lemma add_file_reference_absent:
  "\<not> sublist file_ref_begin c \<Longrightarrow> add_file_reference i c = c"
  by (simp add: add_file_reference_def insert_at_absent_end)

lemma add_group_absent: "\<not> sublist group_begin c \<Longrightarrow> add_group i c = c"
  by (simp add: add_group_def flip: re_search_None_iff)



lemma add_product_ref_absent:
  "\<not> children_pattern_occurs products_group_pre c \<Longrightarrow> add_product_ref i c = c"
  by (simp add: add_product_ref_def match_end_def flip: re_search_children_None_iff)

lemma add_sources_phase_absent:
  "\<not> sublist sources_phase_end_pat c \<Longrightarrow> add_sources_phase i c = c"
  by (simp add: add_sources_phase_def insert_at_absent_start)

lemma add_frameworks_phase_absent:
  "\<not> sublist frameworks_phase_end_pat c \<Longrightarrow> add_frameworks_phase i c = c"
  by (simp add: add_frameworks_phase_def insert_at_absent_start)

lemma add_native_target_absent:
  "\<not> sublist native_target_end_pat c \<Longrightarrow> add_native_target i dep c = c"
  by (simp add: add_native_target_def insert_at_absent_start)

lemma add_target_ref_absent: "\<not> sublist targets_pat c \<Longrightarrow> add_target_ref i c = c"
  by (simp add: add_target_ref_def insert_at_absent_end)

lemma add_build_configs_absent:
  "\<not> sublist config_list_end_pat c \<Longrightarrow> add_build_configs i c = c"
  by (simp add: add_build_configs_def insert_at_absent_start)

lemma add_target_attrs_absent:
  "\<not> sublist target_attrs_pat c \<Longrightarrow> add_target_attrs i c = c"
  by (simp add: add_target_attrs_def insert_at_absent_end)

lemma edit_content_unfold:
  "edit_content i dep c =
     add_target_attrs i (add_build_configs i (add_target_ref i (add_native_target i dep
       (add_frameworks_phase i (add_sources_phase i (add_product_ref i (add_group i
         (add_file_reference i c))))))))"
  by (simp add: edit_content_def Let_def)


lemma not_children_pattern_eval:
  "re_search_children pre s = None \<Longrightarrow> \<not> children_pattern_occurs pre s"
  by (simp add: re_search_children_None_iff)

lemma main_target_only:
  "\<not> sublist file_ref_begin main_target_pat" 
  "\<not> sublist group_begin main_target_pat"
  "\<not> children_pattern_occurs products_group_pre main_target_pat"
  "\<not> sublist sources_phase_end_pat main_target_pat"
  "\<not> sublist frameworks_phase_end_pat main_target_pat"
  "\<not> sublist native_target_end_pat main_target_pat"
  "\<not> sublist targets_pat main_target_pat"
  "\<not> sublist config_list_end_pat main_target_pat"
  "\<not> sublist target_attrs_pat main_target_pat"
          apply (rule not_sublist_eval, simp add: main_target_pat_def file_ref_begin_def)
         apply (rule not_sublist_eval, simp add: main_target_pat_def group_begin_def)
        apply (rule not_children_pattern_eval, simp add: main_target_pat_def products_group_pre_def match_children_def)
       apply (rule not_sublist_eval, simp add: main_target_pat_def sources_phase_end_pat_def)
      apply (rule not_sublist_eval, simp add: main_target_pat_def frameworks_phase_end_pat_def)
     apply (rule not_sublist_eval, simp add: main_target_pat_def native_target_end_pat_def)
    apply (rule not_sublist_eval, simp add: main_target_pat_def targets_pat_def)
   apply (rule not_sublist_eval, simp add: main_target_pat_def config_list_end_pat_def)
  apply (rule not_sublist_eval, simp add: main_target_pat_def target_attrs_pat_def)
  done

lemma edit_main_target_only: "edit_content i dep main_target_pat = main_target_pat"
  by (simp add: edit_content_unfold main_target_only add_file_reference_absent add_group_absent
      add_product_ref_absent add_sources_phase_absent
      add_frameworks_phase_absent add_native_target_absent add_target_ref_absent
      add_build_configs_absent add_target_attrs_absent)


theorem main_exit_status_witness:
  "main (\<lambda>k. 0) \<lparr>files = [project_path \<mapsto> main_target_pat], stdout = []\<rparr>
     = Inr (0, \<lparr>files = [project_path \<mapsto> main_target_pat],
                 stdout = [''Added PaykitDemoTests target to project'',
                           ''Test target ID: 000000000000000000000000'',
                           ''Successfully added test target'']\<rparr>)
   \<and> main (\<lambda>k. 0) \<lparr>files = [project_path \<mapsto> ''targets = (''], stdout = []\<rparr>
     = Inr (1, \<lparr>files = [project_path \<mapsto> ''targets = (''],
                 stdout = [''Error: Could not find main target'',
                           ''Failed to add test target'']\<rparr>)
   \<and> main (\<lambda>k. 0) \<lparr>files = Map.empty, stdout = []\<rparr> = Inl FileNotFoundError"
proof -
  let ?w1 = "\<lparr>files = [project_path \<mapsto> main_target_pat], stdout = []\<rparr>"
  let ?w2 = "\<lparr>files = [project_path \<mapsto> ''targets = (''], stdout = []\<rparr>"
  let ?w3 = "\<lparr>files = Map.empty, stdout = []\<rparr>"
  have a1: "add_test_target (\<lambda>k. 0) project_path ?w1
      = Inr (True, \<lparr>files = [project_path \<mapsto> main_target_pat],
                 stdout = [''Added PaykitDemoTests target to project'',
                           ''Test target ID: 000000000000000000000000'']\<rparr>)"
    by (subst add_test_target_success [where content = main_target_pat])
      (simp_all add: edit_main_target_only generate_ids_def generate_id_0 print_def write_file_def)
  have "\<not> sublist main_target_pat ''targets = (''"
    by (rule not_sublist_eval) (simp add: main_target_pat_def)
  then have a2: "add_test_target (\<lambda>k. 0) project_path ?w2
      = Inr (False, \<lparr>files = [project_path \<mapsto> ''targets = (''],
                 stdout = [''Error: Could not find main target'']\<rparr>)"
    by (subst add_test_target_abort [where content = "''targets = (''"])
      (simp_all add: print_def)
  have a3: "add_test_target (\<lambda>k. 0) project_path ?w3 = Inl FileNotFoundError"
    by (simp add: add_test_target_def)
  from main_exit_status [of "\<lambda>k. 0" ?w1] a1
    main_exit_status [of "\<lambda>k. 0" ?w2] a2 main_exit_status [of "\<lambda>k. 0" ?w3] a3
  show ?thesis by (simp add: print_def)
qed

subsection \<open>Edits at their anchor\<close>

lemma pats_nonempty [simp]:
  "file_ref_begin \<noteq> []" "group_begin \<noteq> []" "group_end_pat \<noteq> []"
  "sources_phase_end_pat \<noteq> []" "frameworks_phase_end_pat \<noteq> []"
  "native_target_end_pat \<noteq> []" "targets_pat \<noteq> []" "config_list_end_pat \<noteq> []"
  "target_attrs_pat \<noteq> []" "main_target_pat \<noteq> []"
  by (simp_all add: file_ref_begin_def group_begin_def group_end_pat_def
      sources_phase_end_pat_def frameworks_phase_end_pat_def native_target_end_pat_def
      targets_pat_def config_list_end_pat_def target_attrs_pat_def main_target_pat_def)

lemma generate_ids_simps [simp]:
  "test_target_id (generate_ids rng) = generate_id (rng 0)"
  "test_product_id (generate_ids rng) = generate_id (rng 1)"
  "test_sources_phase_id (generate_ids rng) = generate_id (rng 2)"
  "test_frameworks_phase_id (generate_ids rng) = generate_id (rng 3)"
  "test_build_config_list_id (generate_ids rng) = generate_id (rng 4)"
  "test_debug_config_id (generate_ids rng) = generate_id (rng 5)"
  "test_release_config_id (generate_ids rng) = generate_id (rng 6)"
  "test_group_id (generate_ids rng) = generate_id (rng 7)"
  by (simp_all add: generate_ids_def)

lemma add_test_target_writes:
  assumes "files w path = Some content" and "sublist main_target_pat content"
  shows "\<exists>w'. add_test_target rng path w = Inr (True, w')
          \<and> files w' path = Some (edit_content (generate_ids rng) (generate_id (rng 8)) content)"
  using add_test_target_success [OF assms] by simp

text \<open>
  C4, as amended. When \<open>/* Begin PBXFileReference section */\<close> occurs in the content, the first edit
  inserts, immediately after the end of its first occurrence, one line: the
  PBXFileReference of \<open>PaykitDemoTests.xctest\<close> under the generated product identifier
  (the second identifier drawn), with \<open>explicitFileType = wrapper.cfbundle\<close> and
  \<open>sourceTree = BUILT_PRODUCTS_DIR\<close>. The content is \<open>pre @ file_ref_begin @ post\<close> with no
  earlier occurrence of the marker. When the content holds the main-target anchor too,
  \<open>add_test_target\<close> passes the guard and writes what the later edits make of that result.
\<close>

theorem file_reference_inserted:
  fixes rng :: "nat \<Rightarrow> uuid" and pre post :: string
  defines "i \<equiv> generate_ids rng"
  defines "content \<equiv> pre @ file_ref_begin @ post"
  defines \<open>line \<equiv> t2 @ generate_id (rng 1) @ '' /* PaykitDemoTests.xctest */ = {isa = PBXFileReference; explicitFileType = wrapper.cfbundle; includeInIndex = 0; path = PaykitDemoTests.xctest; sourceTree = BUILT_PRODUCTS_DIR; };'' @ nl\<close>
  assumes first: "\<not> sublist file_ref_begin (pre @ butlast file_ref_begin)"
  shows "add_file_reference i content = pre @ file_ref_begin @ line @ post
    \<and> (files w path = Some content \<and> sublist main_target_pat content \<longrightarrow>
         (\<exists>w'. add_test_target rng path w = Inr (True, w') \<and>
            files w' path =
              Some (add_target_attrs i (add_build_configs i (add_target_ref i
                     (add_native_target i (generate_id (rng 8))
                       (add_frameworks_phase i (add_sources_phase i (add_product_ref i
                         (add_group i (pre @ file_ref_begin @ line @ post)))))))))))"
proof -
  have step: "add_file_reference i content = pre @ file_ref_begin @ line @ post"
    unfolding add_file_reference_def content_def
    by (simp add: insert_at_end [OF _ first] test_file_ref_def i_def line_def)
  show ?thesis
    using step add_test_target_writes [of w path content rng]
    by (auto simp: edit_content_unfold i_def)
qed

text \<open>
  C5, as amended. When \<open>/* End PBXSourcesBuildPhase section */\<close> is present in the content the
  sources edit searches, a PBXSourcesBuildPhase block is inserted immediately before its
  first occurrence; when \<open>/* End PBXFrameworksBuildPhase section */\<close> is present in the
  result, a PBXFrameworksBuildPhase block is inserted immediately before its first
  occurrence. Each block has an empty \<open>files\<close> list and its own generated identifier
  (the third and the fourth drawn). When the file's content holds the main-target anchor
  and \<open>c\<close> is what the three earlier edits leave of it, \<open>add_test_target\<close> passes the guard
  and writes what the later edits make of the result.
\<close>

theorem build_phases_inserted:
  fixes rng :: "nat \<Rightarrow> uuid" and pre post pre' post' :: string
  defines "i \<equiv> generate_ids rng"
  defines "c \<equiv> pre @ sources_phase_end_pat @ post"
  defines \<open>sources_block \<equiv>
     t2 @ generate_id (rng 2) @ '' /* Sources */ = {'' @ nl @
     t3 @ ''isa = PBXSourcesBuildPhase;'' @ nl @
     t3 @ ''buildActionMask = 2147483647;'' @ nl @
     t3 @ ''files = ('' @ nl @
     t3 @ '');'' @ nl @
     t3 @ ''runOnlyForDeploymentPostprocessing = 0;'' @ nl @
     t2 @ ''};'' @ nl\<close>
  defines \<open>frameworks_block \<equiv>
     t2 @ generate_id (rng 3) @ '' /* Frameworks */ = {'' @ nl @
     t3 @ ''isa = PBXFrameworksBuildPhase;'' @ nl @
     t3 @ ''buildActionMask = 2147483647;'' @ nl @
     t3 @ ''files = ('' @ nl @
     t3 @ '');'' @ nl @
     t3 @ ''runOnlyForDeploymentPostprocessing = 0;'' @ nl @
     t2 @ ''};'' @ nl\<close>
  assumes first: "\<not> sublist sources_phase_end_pat (pre @ butlast sources_phase_end_pat)"
    and split': "pre @ sources_block @ sources_phase_end_pat @ post
                   = pre' @ frameworks_phase_end_pat @ post'"
    and first': "\<not> sublist frameworks_phase_end_pat (pre' @ butlast frameworks_phase_end_pat)"
  shows "add_sources_phase i c = pre @ sources_block @ sources_phase_end_pat @ post
    \<and> add_frameworks_phase i (add_sources_phase i c)
        = pre' @ frameworks_block @ frameworks_phase_end_pat @ post'
    \<and> (files w path = Some content \<and> sublist main_target_pat content
        \<and> add_product_ref i (add_group i (add_file_reference i content)) = c \<longrightarrow>
         (\<exists>w'. add_test_target rng path w = Inr (True, w') \<and>
            files w' path =
              Some (add_target_attrs i (add_build_configs i (add_target_ref i
                     (add_native_target i (generate_id (rng 8))
                       (pre' @ frameworks_block @ frameworks_phase_end_pat @ post')))))))"
proof -
  have s1: "add_sources_phase i c = pre @ sources_block @ sources_phase_end_pat @ post"
    unfolding add_sources_phase_def c_def
    by (simp add: insert_at_start [OF _ first] test_sources_phase_def i_def sources_block_def)
  have s2: "add_frameworks_phase i (add_sources_phase i c)
              = pre' @ frameworks_block @ frameworks_phase_end_pat @ post'"
    unfolding s1 split' unfolding add_frameworks_phase_def
    by (simp add: insert_at_start [OF _ first'] test_frameworks_phase_def i_def
        frameworks_block_def)
  show ?thesis
    using s1 s2 add_test_target_writes [of w path content rng]
    by (auto simp: edit_content_unfold i_def)
qed

text \<open>
  C6, as amended. When \<open>/* End PBXNativeTarget section */\<close> is present in the content the edit
  searches, a PBXNativeTarget block named \<open>PaykitDemoTests\<close> is inserted immediately before
  its first occurrence. Its \<open>buildConfigurationList\<close> is the generated configuration-list
  identifier (the fifth drawn), its \<open>buildPhases\<close> are the generated Sources and Frameworks
  identifiers (the third and the fourth) in that order and nothing else, and its
  \<open>productReference\<close> is the generated product identifier (the second). When the file's
  content holds the main-target anchor and \<open>c\<close> is what the five earlier edits leave of
  it, \<open>add_test_target\<close> passes the guard and writes what the later edits make of the
  result.
\<close>

theorem native_target_inserted:
  fixes rng :: "nat \<Rightarrow> uuid" and pre post :: string
  defines "i \<equiv> generate_ids rng"
  defines "c \<equiv> pre @ native_target_end_pat @ post"
  defines \<open>block \<equiv>
     t2 @ generate_id (rng 0) @ '' /* PaykitDemoTests */ = {'' @ nl @
     t3 @ ''isa = PBXNativeTarget;'' @ nl @
     t3 @ ''buildConfigurationList = '' @ generate_id (rng 4) @ '' /* Build configuration list for PBXNativeTarget "PaykitDemoTests" */;'' @ nl @
     t3 @ ''buildPhases = ('' @ nl @
     t4 @ generate_id (rng 2) @ '' /* Sources */,'' @ nl @
     t4 @ generate_id (rng 3) @ '' /* Frameworks */,'' @ nl @
     t3 @ '');'' @ nl @
     t3 @ ''buildRules = ('' @ nl @
     t3 @ '');'' @ nl @
     t3 @ ''dependencies = ('' @ nl @
     t4 @ generate_id (rng 8) @ '' /* PBXTargetDependency */,'' @ nl @
     t3 @ '');'' @ nl @
     t3 @ ''name = PaykitDemoTests;'' @ nl @
     t3 @ ''packageProductDependencies = ('' @ nl @
     t3 @ '');'' @ nl @
     t3 @ ''productName = PaykitDemoTests;'' @ nl @
     t3 @ ''productReference = '' @ generate_id (rng 1) @ '' /* PaykitDemoTests.xctest */;'' @ nl @
     t3 @ ''productType = "com.apple.product-type.bundle.unit-test";'' @ nl @
     t2 @ ''};'' @ nl\<close>
  assumes first: "\<not> sublist native_target_end_pat (pre @ butlast native_target_end_pat)"
  shows "add_native_target i (generate_id (rng 8)) c = pre @ block @ native_target_end_pat @ post
    \<and> (files w path = Some content \<and> sublist main_target_pat content
        \<and> add_frameworks_phase i (add_sources_phase i (add_product_ref i (add_group i
             (add_file_reference i content)))) = c \<longrightarrow>
         (\<exists>w'. add_test_target rng path w = Inr (True, w') \<and>
            files w' path =
              Some (add_target_attrs i (add_build_configs i (add_target_ref i
                     (pre @ block @ native_target_end_pat @ post))))))"
proof -
  have step: "add_native_target i (generate_id (rng 8)) c
                = pre @ block @ native_target_end_pat @ post"
    unfolding add_native_target_def c_def
    by (simp add: insert_at_start [OF _ first] test_target_def i_def block_def)
  show ?thesis
    using step add_test_target_writes [of w path content rng]
    by (auto simp: edit_content_unfold i_def)
qed

text \<open>
  C7, as amended. When \<open>/* End XCConfigurationList section */\<close> is present in the content the edit
  searches, three blocks are inserted immediately before its first occurrence: an
  XCBuildConfiguration named \<open>Debug\<close>, an XCBuildConfiguration named \<open>Release\<close>, and an
  XCConfigurationList whose \<open>buildConfigurations\<close> are those two identifiers, Debug first,
  and nothing else, and whose \<open>defaultConfigurationName\<close> is \<open>Release\<close>. When the file's
  content holds the main-target anchor and \<open>c\<close> is what the seven earlier edits leave of
  it, \<open>add_test_target\<close> passes the guard and writes what the last edit makes of the
  result.
\<close>

theorem build_configurations_inserted:
  fixes rng :: "nat \<Rightarrow> uuid" and pre post :: string
  defines "i \<equiv> generate_ids rng"
  defines "c \<equiv> pre @ config_list_end_pat @ post"
  defines \<open>debug_block \<equiv>
     t2 @ generate_id (rng 5) @ '' /* Debug */ = {'' @ nl @
     t3 @ ''isa = XCBuildConfiguration;'' @ nl @
     t3 @ ''buildSettings = {'' @ nl @
     debug_build_settings @
     t3 @ ''};'' @ nl @
     t3 @ ''name = Debug;'' @ nl @
     t2 @ ''};'' @ nl\<close>
  defines \<open>release_block \<equiv>
     t2 @ generate_id (rng 6) @ '' /* Release */ = {'' @ nl @
     t3 @ ''isa = XCBuildConfiguration;'' @ nl @
     t3 @ ''buildSettings = {'' @ nl @
     release_build_settings @
     t3 @ ''};'' @ nl @
     t3 @ ''name = Release;'' @ nl @
     t2 @ ''};'' @ nl\<close>
  defines \<open>list_block \<equiv>
     t2 @ generate_id (rng 4) @ '' /* Build configuration list for PBXNativeTarget "PaykitDemoTests" */ = {'' @ nl @
     t3 @ ''isa = XCConfigurationList;'' @ nl @
     t3 @ ''buildConfigurations = ('' @ nl @
     t4 @ generate_id (rng 5) @ '' /* Debug */,'' @ nl @
     t4 @ generate_id (rng 6) @ '' /* Release */,'' @ nl @
     t3 @ '');'' @ nl @
     t3 @ ''defaultConfigurationIsVisible = 0;'' @ nl @
     t3 @ ''defaultConfigurationName = Release;'' @ nl @
     t2 @ ''};'' @ nl\<close>
  assumes first: "\<not> sublist config_list_end_pat (pre @ butlast config_list_end_pat)"
  shows "add_build_configs i c
           = pre @ debug_block @ release_block @ list_block @ config_list_end_pat @ post
    \<and> (files w path = Some content \<and> sublist main_target_pat content
        \<and> add_target_ref i (add_native_target i (generate_id (rng 8))
            (add_frameworks_phase i (add_sources_phase i (add_product_ref i (add_group i
              (add_file_reference i content)))))) = c \<longrightarrow>
         (\<exists>w'. add_test_target rng path w = Inr (True, w') \<and>
            files w' path =
              Some (add_target_attrs i
                     (pre @ debug_block @ release_block @ list_block
                        @ config_list_end_pat @ post))))"
proof -
  have step: "add_build_configs i c
                = pre @ debug_block @ release_block @ list_block @ config_list_end_pat @ post"
    unfolding add_build_configs_def c_def
    by (simp add: insert_at_start [OF _ first] test_debug_config_def i_def debug_block_def
        release_block_def list_block_def)
  show ?thesis
    using step add_test_target_writes [of w path content rng]
    by (auto simp: edit_content_unfold i_def)
qed

subsection \<open>Evaluating a search that finds nothing\<close>

text \<open>
  The simplifier walks the whole remaining text at every offset. These rules decide the
  same question one character at a time.
\<close>

lemma nf_nil: "find_str (p # ps) [] = None"
  by simp

lemma nf_ne: "x \<noteq> p \<Longrightarrow> find_str (p # ps) xs = None \<Longrightarrow> find_str (p # ps) (x # xs) = None"
  by simp

lemma nf_eq:
  "\<not> prefix ps xs \<Longrightarrow> find_str (p # ps) xs = None \<Longrightarrow> find_str (p # ps) (x # xs) = None"
  by simp

lemma np_nil: "\<not> prefix (p # ps) []"
  by simp

lemma np_ne: "x \<noteq> p \<Longrightarrow> \<not> prefix (p # ps) (x # xs)"
  by auto

lemma np_eq: "\<not> prefix ps xs \<Longrightarrow> \<not> prefix (p # ps) (x # xs)"
  by simp

lemma rc_nil: "re_search_children (p # ps) [] = None"
  by (simp add: match_children_def)

lemma rc_step:
  "\<not> prefix pre (x # xs) \<Longrightarrow> re_search_children pre xs = None
     \<Longrightarrow> re_search_children pre (x # xs) = None"
  by (simp add: match_children_def)

lemma example_ids:
  "generate_id (example_rng 0) = ''000000000000000000000001''"
  "generate_id (example_rng 1) = ''000000000000000000000002''"
  "generate_id (example_rng 2) = ''000000000000000000000003''"
  "generate_id (example_rng 3) = ''000000000000000000000004''"
  "generate_id (example_rng 4) = ''000000000000000000000005''"
  "generate_id (example_rng 5) = ''000000000000000000000006''"
  "generate_id (example_rng 6) = ''000000000000000000000007''"
  "generate_id (example_rng 7) = ''000000000000000000000008''"
  "generate_id (example_rng 8) = ''000000000000000000000009''"
  by (simp_all add: example_rng_def generate_id_def uuid_hex_def hex_digit_def upper_char_def
      upper_def upt_rec)

lemmas pat_defs = main_target_pat_def file_ref_begin_def group_begin_def main_group_pre_def
  group_end_pat_def products_group_pre_def sources_phase_end_pat_def
  frameworks_phase_end_pat_def native_target_end_pat_def targets_pat_def
  config_list_end_pat_def target_attrs_pat_def children_lit_def

theorem file_reference_inserted_witness:
  \<open>add_file_reference (generate_ids example_rng) (main_target_pat @ file_ref_begin @ nl)
     = main_target_pat @ file_ref_begin @ t2 @ ''000000000000000000000002'' @ '' /* PaykitDemoTests.xctest */ = {isa = PBXFileReference; explicitFileType = wrapper.cfbundle; includeInIndex = 0; path = PaykitDemoTests.xctest; sourceTree = BUILT_PRODUCTS_DIR; };'' @ nl @ nl
   \<and> (\<exists>w'. add_test_target example_rng ''p''
               \<lparr>files = [''p'' \<mapsto> main_target_pat @ file_ref_begin @ nl], stdout = []\<rparr>
            = Inr (True, w')
         \<and> files w' ''p'' = Some (main_target_pat @ file_ref_begin @ t2 @ ''000000000000000000000002'' @ '' /* PaykitDemoTests.xctest */ = {isa = PBXFileReference; explicitFileType = wrapper.cfbundle; includeInIndex = 0; path = PaykitDemoTests.xctest; sourceTree = BUILT_PRODUCTS_DIR; };'' @ nl @ nl))\<close>
proof -
  let ?i = "generate_ids example_rng"
  let ?w = "\<lparr>files = [''p'' \<mapsto> main_target_pat @ file_ref_begin @ nl], stdout = []\<rparr>"
  let ?out = \<open>main_target_pat @ file_ref_begin @ t2 @ ''000000000000000000000002'' @ '' /* PaykitDemoTests.xctest */ = {isa = PBXFileReference; explicitFileType = wrapper.cfbundle; includeInIndex = 0; path = PaykitDemoTests.xctest; sourceTree = BUILT_PRODUCTS_DIR; };'' @ nl @ nl\<close>
  have first: "\<not> sublist file_ref_begin (main_target_pat @ butlast file_ref_begin)"
    apply (rule not_sublist_eval)
    apply (simp add: pat_defs del: find_str.simps)
    apply ((rule nf_ne, (simp; fail)) | (rule nf_eq, ((rule np_ne, (simp; fail)) | rule np_eq | rule np_nil)+) | rule nf_nil)+
    done
  have fl: "files ?w ''p'' = Some (main_target_pat @ file_ref_begin @ nl)"
    by simp
  have main: "sublist main_target_pat (main_target_pat @ file_ref_begin @ nl)"
    by simp
  have g1: "add_group ?i ?out = ?out"
    apply (rule add_group_absent, rule not_sublist_eval)
    apply (simp only: pat_defs append_Cons append_Nil)
    apply ((rule nf_ne, (simp; fail)) | (rule nf_eq, ((rule np_ne, (simp; fail)) | rule np_eq | rule np_nil)+) | rule nf_nil)+
    done
  have g2: "add_product_ref ?i ?out = ?out"
    apply (rule add_product_ref_absent, rule not_children_pattern_eval)
    apply (simp only: pat_defs append_Cons append_Nil)
    apply ((rule rc_step, ((rule np_ne, (simp; fail)) | rule np_eq | rule np_nil)+) | rule rc_nil)+
    done
  have g3: "add_sources_phase ?i ?out = ?out"
    apply (rule add_sources_phase_absent, rule not_sublist_eval)
    apply (simp only: pat_defs append_Cons append_Nil)
    apply ((rule nf_ne, (simp; fail)) | (rule nf_eq, ((rule np_ne, (simp; fail)) | rule np_eq | rule np_nil)+) | rule nf_nil)+
    done
  have g4: "add_frameworks_phase ?i ?out = ?out"
    apply (rule add_frameworks_phase_absent, rule not_sublist_eval)
    apply (simp only: pat_defs append_Cons append_Nil)
    apply ((rule nf_ne, (simp; fail)) | (rule nf_eq, ((rule np_ne, (simp; fail)) | rule np_eq | rule np_nil)+) | rule nf_nil)+
    done
  have g5: "add_native_target ?i ''000000000000000000000009'' ?out = ?out"
    apply (rule add_native_target_absent, rule not_sublist_eval)
    apply (simp only: pat_defs append_Cons append_Nil)
    apply ((rule nf_ne, (simp; fail)) | (rule nf_eq, ((rule np_ne, (simp; fail)) | rule np_eq | rule np_nil)+) | rule nf_nil)+
    done
  have g6: "add_target_ref ?i ?out = ?out"
    apply (rule add_target_ref_absent, rule not_sublist_eval)
    apply (simp only: pat_defs append_Cons append_Nil)
    apply ((rule nf_ne, (simp; fail)) | (rule nf_eq, ((rule np_ne, (simp; fail)) | rule np_eq | rule np_nil)+) | rule nf_nil)+
    done
  have g7: "add_build_configs ?i ?out = ?out"
    apply (rule add_build_configs_absent, rule not_sublist_eval)
    apply (simp only: pat_defs append_Cons append_Nil)
    apply ((rule nf_ne, (simp; fail)) | (rule nf_eq, ((rule np_ne, (simp; fail)) | rule np_eq | rule np_nil)+) | rule nf_nil)+
    done
  have g8: "add_target_attrs ?i ?out = ?out"
    apply (rule add_target_attrs_absent, rule not_sublist_eval)
    apply (simp only: pat_defs append_Cons append_Nil)
    apply ((rule nf_ne, (simp; fail)) | (rule nf_eq, ((rule np_ne, (simp; fail)) | rule np_eq | rule np_nil)+) | rule nf_nil)+
    done
  note th = file_reference_inserted [where rng = example_rng and pre = main_target_pat
      and post = nl and w = ?w and path = "''p''", OF first,
      unfolded example_ids append_assoc]
  note s1 = th [THEN conjunct1]
  note ex = th [THEN conjunct2, rule_format, OF conjI [OF fl main],
      unfolded g1 g2 g3 g4 g5 g6 g7 g8]
  show ?thesis
    by (rule conjI [OF s1 ex])
qed

lemmas block_defs = debug_build_settings_def release_build_settings_def

theorem build_phases_inserted_witness:
  \<open>add_sources_phase (generate_ids example_rng)
       (main_target_pat @ nl @ sources_phase_end_pat @ nl @ frameworks_phase_end_pat @ nl)
     = main_target_pat @ nl @
       t2 @ ''000000000000000000000003'' @ '' /* Sources */ = {'' @ nl @
       t3 @ ''isa = PBXSourcesBuildPhase;'' @ nl @
       t3 @ ''buildActionMask = 2147483647;'' @ nl @
       t3 @ ''files = ('' @ nl @
       t3 @ '');'' @ nl @
       t3 @ ''runOnlyForDeploymentPostprocessing = 0;'' @ nl @
       t2 @ ''};'' @ nl @
       sources_phase_end_pat @ nl @ frameworks_phase_end_pat @ nl
   \<and> (\<exists>w'. add_test_target example_rng ''p''
               \<lparr>files = [''p'' \<mapsto> main_target_pat @ nl @ sources_phase_end_pat @ nl
                                    @ frameworks_phase_end_pat @ nl],
                stdout = []\<rparr>
            = Inr (True, w')
         \<and> files w' ''p'' =
             Some (main_target_pat @ nl @
       t2 @ ''000000000000000000000003'' @ '' /* Sources */ = {'' @ nl @
       t3 @ ''isa = PBXSourcesBuildPhase;'' @ nl @
       t3 @ ''buildActionMask = 2147483647;'' @ nl @
       t3 @ ''files = ('' @ nl @
       t3 @ '');'' @ nl @
       t3 @ ''runOnlyForDeploymentPostprocessing = 0;'' @ nl @
       t2 @ ''};'' @ nl @
       sources_phase_end_pat @ nl @
       t2 @ ''000000000000000000000004'' @ '' /* Frameworks */ = {'' @ nl @
       t3 @ ''isa = PBXFrameworksBuildPhase;'' @ nl @
       t3 @ ''buildActionMask = 2147483647;'' @ nl @
       t3 @ ''files = ('' @ nl @
       t3 @ '');'' @ nl @
       t3 @ ''runOnlyForDeploymentPostprocessing = 0;'' @ nl @
       t2 @ ''};'' @ nl @
       frameworks_phase_end_pat @ nl))\<close>
proof -
  let ?i = "generate_ids example_rng"
  let ?c = "main_target_pat @ nl @ sources_phase_end_pat @ nl @ frameworks_phase_end_pat @ nl"
  let ?w = "\<lparr>files = [''p'' \<mapsto> ?c], stdout = []\<rparr>"
  let ?pre' = \<open>main_target_pat @ nl @
       t2 @ ''000000000000000000000003'' @ '' /* Sources */ = {'' @ nl @
       t3 @ ''isa = PBXSourcesBuildPhase;'' @ nl @
       t3 @ ''buildActionMask = 2147483647;'' @ nl @
       t3 @ ''files = ('' @ nl @
       t3 @ '');'' @ nl @
       t3 @ ''runOnlyForDeploymentPostprocessing = 0;'' @ nl @
       t2 @ ''};'' @ nl @
       sources_phase_end_pat @ nl\<close>
  let ?out = \<open>main_target_pat @ nl @
       t2 @ ''000000000000000000000003'' @ '' /* Sources */ = {'' @ nl @
       t3 @ ''isa = PBXSourcesBuildPhase;'' @ nl @
       t3 @ ''buildActionMask = 2147483647;'' @ nl @
       t3 @ ''files = ('' @ nl @
       t3 @ '');'' @ nl @
       t3 @ ''runOnlyForDeploymentPostprocessing = 0;'' @ nl @
       t2 @ ''};'' @ nl @
       sources_phase_end_pat @ nl @
       t2 @ ''000000000000000000000004'' @ '' /* Frameworks */ = {'' @ nl @
       t3 @ ''isa = PBXFrameworksBuildPhase;'' @ nl @
       t3 @ ''buildActionMask = 2147483647;'' @ nl @
       t3 @ ''files = ('' @ nl @
       t3 @ '');'' @ nl @
       t3 @ ''runOnlyForDeploymentPostprocessing = 0;'' @ nl @
       t2 @ ''};'' @ nl @
       frameworks_phase_end_pat @ nl\<close>
  have first: "\<not> sublist sources_phase_end_pat
                  ((main_target_pat @ nl) @ butlast sources_phase_end_pat)"
    apply (rule not_sublist_eval)
    apply (simp add: pat_defs del: find_str.simps)
    apply (((rule nf_ne, (simp; fail)) | (rule nf_eq, ((rule np_ne, (simp; fail)) | rule np_eq | rule np_nil)+) | rule nf_nil)+)
    done
  have first': "\<not> sublist frameworks_phase_end_pat (?pre' @ butlast frameworks_phase_end_pat)"
    apply (rule not_sublist_eval)
    apply (simp add: pat_defs del: find_str.simps)
    apply (((rule nf_ne, (simp; fail)) | (rule nf_eq, ((rule np_ne, (simp; fail)) | rule np_eq | rule np_nil)+) | rule nf_nil)+)
    done
  have fl: "files ?w ''p'' = Some ?c"
    by simp
  have main: "sublist main_target_pat ?c"
    by simp
  have e1: "add_file_reference ?i ?c = ?c"
    apply (rule add_file_reference_absent, rule not_sublist_eval)
    apply (simp only: pat_defs block_defs append_Cons append_Nil)
    apply (((rule nf_ne, (simp; fail)) | (rule nf_eq, ((rule np_ne, (simp; fail)) | rule np_eq | rule np_nil)+) | rule nf_nil)+)
    done
  have e2: "add_group ?i ?c = ?c"
    apply (rule add_group_absent, rule not_sublist_eval)
    apply (simp only: pat_defs block_defs append_Cons append_Nil)
    apply (((rule nf_ne, (simp; fail)) | (rule nf_eq, ((rule np_ne, (simp; fail)) | rule np_eq | rule np_nil)+) | rule nf_nil)+)
    done
  have e3: "add_product_ref ?i ?c = ?c"
    apply (rule add_product_ref_absent, rule not_children_pattern_eval)
    apply (simp only: pat_defs block_defs append_Cons append_Nil)
    apply (((rule rc_step, ((rule np_ne, (simp; fail)) | rule np_eq | rule np_nil)+) | rule rc_nil)+)
    done
  have l1: "add_native_target ?i ''000000000000000000000009'' ?out = ?out"
    apply (rule add_native_target_absent, rule not_sublist_eval)
    apply (simp only: pat_defs block_defs append_Cons append_Nil)
    apply (((rule nf_ne, (simp; fail)) | (rule nf_eq, ((rule np_ne, (simp; fail)) | rule np_eq | rule np_nil)+) | rule nf_nil)+)
    done
  have l2: "add_target_ref ?i ?out = ?out"
    apply (rule add_target_ref_absent, rule not_sublist_eval)
    apply (simp only: pat_defs block_defs append_Cons append_Nil)
    apply (((rule nf_ne, (simp; fail)) | (rule nf_eq, ((rule np_ne, (simp; fail)) | rule np_eq | rule np_nil)+) | rule nf_nil)+)
    done
  have l3: "add_build_configs ?i ?out = ?out"
    apply (rule add_build_configs_absent, rule not_sublist_eval)
    apply (simp only: pat_defs block_defs append_Cons append_Nil)
    apply (((rule nf_ne, (simp; fail)) | (rule nf_eq, ((rule np_ne, (simp; fail)) | rule np_eq | rule np_nil)+) | rule nf_nil)+)
    done
  have l4: "add_target_attrs ?i ?out = ?out"
    apply (rule add_target_attrs_absent, rule not_sublist_eval)
    apply (simp only: pat_defs block_defs append_Cons append_Nil)
    apply (((rule nf_ne, (simp; fail)) | (rule nf_eq, ((rule np_ne, (simp; fail)) | rule np_eq | rule np_nil)+) | rule nf_nil)+)
    done
  have earlier: "add_product_ref ?i (add_group ?i (add_file_reference ?i ?c)) = ?c"
    by (simp only: e1 e2 e3)
  have split': "(main_target_pat @ nl) @
       (t2 @ generate_id (example_rng 2) @ '' /* Sources */ = {'' @ nl @
       t3 @ ''isa = PBXSourcesBuildPhase;'' @ nl @
       t3 @ ''buildActionMask = 2147483647;'' @ nl @
       t3 @ ''files = ('' @ nl @
       t3 @ '');'' @ nl @
       t3 @ ''runOnlyForDeploymentPostprocessing = 0;'' @ nl @
       t2 @ ''};'' @ nl) @ sources_phase_end_pat @ nl @ frameworks_phase_end_pat @ nl
      = ?pre' @ frameworks_phase_end_pat @ nl"
    by (simp only: append_assoc example_ids)
  note th = build_phases_inserted [where rng = example_rng and pre = "main_target_pat @ nl"
      and post = "nl @ frameworks_phase_end_pat @ nl" and pre' = ?pre' and post' = nl
      and w = ?w and path = "''p''" and content = ?c, OF first split' first',
      unfolded example_ids append_assoc]
  note s1 = th [THEN conjunct1]
  note ex = th [THEN conjunct2, THEN conjunct2, rule_format,
      OF conjI [OF fl conjI [OF main earlier]], unfolded l1 l2 l3 l4]
  show ?thesis
    by (rule conjI [OF s1 ex])
qed

theorem native_target_inserted_witness:
  \<open>add_native_target (generate_ids example_rng) ''000000000000000000000009''
       (main_target_pat @ nl @ native_target_end_pat @ nl)
     = main_target_pat @ nl @
       t2 @ ''000000000000000000000001'' @ '' /* PaykitDemoTests */ = {'' @ nl @
       t3 @ ''isa = PBXNativeTarget;'' @ nl @
       t3 @ ''buildConfigurationList = '' @ ''000000000000000000000005'' @ '' /* Build configuration list for PBXNativeTarget "PaykitDemoTests" */;'' @ nl @
       t3 @ ''buildPhases = ('' @ nl @
       t4 @ ''000000000000000000000003'' @ '' /* Sources */,'' @ nl @
       t4 @ ''000000000000000000000004'' @ '' /* Frameworks */,'' @ nl @
       t3 @ '');'' @ nl @
       t3 @ ''buildRules = ('' @ nl @
       t3 @ '');'' @ nl @
       t3 @ ''dependencies = ('' @ nl @
       t4 @ ''000000000000000000000009'' @ '' /* PBXTargetDependency */,'' @ nl @
       t3 @ '');'' @ nl @
       t3 @ ''name = PaykitDemoTests;'' @ nl @
       t3 @ ''packageProductDependencies = ('' @ nl @
       t3 @ '');'' @ nl @
       t3 @ ''productName = PaykitDemoTests;'' @ nl @
       t3 @ ''productReference = '' @ ''000000000000000000000002'' @ '' /* PaykitDemoTests.xctest */;'' @ nl @
       t3 @ ''productType = "com.apple.product-type.bundle.unit-test";'' @ nl @
       t2 @ ''};'' @ nl @
       native_target_end_pat @ nl
   \<and> (\<exists>w'. add_test_target example_rng ''p''
               \<lparr>files = [''p'' \<mapsto> main_target_pat @ nl @ native_target_end_pat @ nl],
                stdout = []\<rparr>
            = Inr (True, w')
         \<and> files w' ''p'' =
             Some (main_target_pat @ nl @
       t2 @ ''000000000000000000000001'' @ '' /* PaykitDemoTests */ = {'' @ nl @
       t3 @ ''isa = PBXNativeTarget;'' @ nl @
       t3 @ ''buildConfigurationList = '' @ ''000000000000000000000005'' @ '' /* Build configuration list for PBXNativeTarget "PaykitDemoTests" */;'' @ nl @
       t3 @ ''buildPhases = ('' @ nl @
       t4 @ ''000000000000000000000003'' @ '' /* Sources */,'' @ nl @
       t4 @ ''000000000000000000000004'' @ '' /* Frameworks */,'' @ nl @
       t3 @ '');'' @ nl @
       t3 @ ''buildRules = ('' @ nl @
       t3 @ '');'' @ nl @
       t3 @ ''dependencies = ('' @ nl @
       t4 @ ''000000000000000000000009'' @ '' /* PBXTargetDependency */,'' @ nl @
       t3 @ '');'' @ nl @
       t3 @ ''name = PaykitDemoTests;'' @ nl @
       t3 @ ''packageProductDependencies = ('' @ nl @
       t3 @ '');'' @ nl @
       t3 @ ''productName = PaykitDemoTests;'' @ nl @
       t3 @ ''productReference = '' @ ''000000000000000000000002'' @ '' /* PaykitDemoTests.xctest */;'' @ nl @
       t3 @ ''productType = "com.apple.product-type.bundle.unit-test";'' @ nl @
       t2 @ ''};'' @ nl @
       native_target_end_pat @ nl))\<close>
proof -
  let ?i = "generate_ids example_rng"
  let ?c = "main_target_pat @ nl @ native_target_end_pat @ nl"
  let ?w = "\<lparr>files = [''p'' \<mapsto> ?c], stdout = []\<rparr>"
  let ?out = \<open>main_target_pat @ nl @
       t2 @ ''000000000000000000000001'' @ '' /* PaykitDemoTests */ = {'' @ nl @
       t3 @ ''isa = PBXNativeTarget;'' @ nl @
       t3 @ ''buildConfigurationList = '' @ ''000000000000000000000005'' @ '' /* Build configuration list for PBXNativeTarget "PaykitDemoTests" */;'' @ nl @
       t3 @ ''buildPhases = ('' @ nl @
       t4 @ ''000000000000000000000003'' @ '' /* Sources */,'' @ nl @
       t4 @ ''000000000000000000000004'' @ '' /* Frameworks */,'' @ nl @
       t3 @ '');'' @ nl @
       t3 @ ''buildRules = ('' @ nl @
       t3 @ '');'' @ nl @
       t3 @ ''dependencies = ('' @ nl @
       t4 @ ''000000000000000000000009'' @ '' /* PBXTargetDependency */,'' @ nl @
       t3 @ '');'' @ nl @
       t3 @ ''name = PaykitDemoTests;'' @ nl @
       t3 @ ''packageProductDependencies = ('' @ nl @
       t3 @ '');'' @ nl @
       t3 @ ''productName = PaykitDemoTests;'' @ nl @
       t3 @ ''productReference = '' @ ''000000000000000000000002'' @ '' /* PaykitDemoTests.xctest */;'' @ nl @
       t3 @ ''productType = "com.apple.product-type.bundle.unit-test";'' @ nl @
       t2 @ ''};'' @ nl @
       native_target_end_pat @ nl\<close>
  have first: "\<not> sublist native_target_end_pat
                  ((main_target_pat @ nl) @ butlast native_target_end_pat)"
    apply (rule not_sublist_eval)
    apply (simp add: pat_defs del: find_str.simps)
    apply (((rule nf_ne, (simp; fail)) | (rule nf_eq, ((rule np_ne, (simp; fail)) | rule np_eq | rule np_nil)+) | rule nf_nil)+)
    done
  have fl: "files ?w ''p'' = Some ?c"
    by simp
  have main: "sublist main_target_pat ?c"
    by simp
  have e1: "add_file_reference ?i ?c = ?c"
    apply (rule add_file_reference_absent, rule not_sublist_eval)
    apply (simp only: pat_defs block_defs append_Cons append_Nil)
    apply (((rule nf_ne, (simp; fail)) | (rule nf_eq, ((rule np_ne, (simp; fail)) | rule np_eq | rule np_nil)+) | rule nf_nil)+)
    done
  have e2: "add_group ?i ?c = ?c"
    apply (rule add_group_absent, rule not_sublist_eval)
    apply (simp only: pat_defs block_defs append_Cons append_Nil)
    apply (((rule nf_ne, (simp; fail)) | (rule nf_eq, ((rule np_ne, (simp; fail)) | rule np_eq | rule np_nil)+) | rule nf_nil)+)
    done
  have e3: "add_product_ref ?i ?c = ?c"
    apply (rule add_product_ref_absent, rule not_children_pattern_eval)
    apply (simp only: pat_defs block_defs append_Cons append_Nil)
    apply (((rule rc_step, ((rule np_ne, (simp; fail)) | rule np_eq | rule np_nil)+) | rule rc_nil)+)
    done
  have e4: "add_sources_phase ?i ?c = ?c"
    apply (rule add_sources_phase_absent, rule not_sublist_eval)
    apply (simp only: pat_defs block_defs append_Cons append_Nil)
    apply (((rule nf_ne, (simp; fail)) | (rule nf_eq, ((rule np_ne, (simp; fail)) | rule np_eq | rule np_nil)+) | rule nf_nil)+)
    done
  have e5: "add_frameworks_phase ?i ?c = ?c"
    apply (rule add_frameworks_phase_absent, rule not_sublist_eval)
    apply (simp only: pat_defs block_defs append_Cons append_Nil)
    apply (((rule nf_ne, (simp; fail)) | (rule nf_eq, ((rule np_ne, (simp; fail)) | rule np_eq | rule np_nil)+) | rule nf_nil)+)
    done
  have l1: "add_target_ref ?i ?out = ?out"
    apply (rule add_target_ref_absent, rule not_sublist_eval)
    apply (simp only: pat_defs block_defs append_Cons append_Nil)
    apply (((rule nf_ne, (simp; fail)) | (rule nf_eq, ((rule np_ne, (simp; fail)) | rule np_eq | rule np_nil)+) | rule nf_nil)+)
    done
  have l2: "add_build_configs ?i ?out = ?out"
    apply (rule add_build_configs_absent, rule not_sublist_eval)
    apply (simp only: pat_defs block_defs append_Cons append_Nil)
    apply (((rule nf_ne, (simp; fail)) | (rule nf_eq, ((rule np_ne, (simp; fail)) | rule np_eq | rule np_nil)+) | rule nf_nil)+)
    done
  have l3: "add_target_attrs ?i ?out = ?out"
    apply (rule add_target_attrs_absent, rule not_sublist_eval)
    apply (simp only: pat_defs block_defs append_Cons append_Nil)
    apply (((rule nf_ne, (simp; fail)) | (rule nf_eq, ((rule np_ne, (simp; fail)) | rule np_eq | rule np_nil)+) | rule nf_nil)+)
    done
  have earlier: "add_frameworks_phase ?i (add_sources_phase ?i (add_product_ref ?i
                   (add_group ?i (add_file_reference ?i ?c)))) = ?c"
    by (simp only: e1 e2 e3 e4 e5)
  note th = native_target_inserted [where rng = example_rng and pre = "main_target_pat @ nl"
      and post = nl and w = ?w and path = "''p''" and content = ?c, OF first,
      unfolded append_assoc]
  note s1 = th [THEN conjunct1, unfolded example_ids]
  note ex = th [THEN conjunct2, rule_format, OF conjI [OF fl conjI [OF main earlier]],
      unfolded example_ids l1 l2 l3]
  show ?thesis
    by (rule conjI [OF s1 ex])
qed

theorem build_configurations_inserted_witness:
  \<open>add_build_configs (generate_ids example_rng)
       (main_target_pat @ nl @ config_list_end_pat @ nl)
     = main_target_pat @ nl @
       t2 @ ''000000000000000000000006'' @ '' /* Debug */ = {'' @ nl @
       t3 @ ''isa = XCBuildConfiguration;'' @ nl @
       t3 @ ''buildSettings = {'' @ nl @
       debug_build_settings @
       t3 @ ''};'' @ nl @
       t3 @ ''name = Debug;'' @ nl @
       t2 @ ''};'' @ nl @
       t2 @ ''000000000000000000000007'' @ '' /* Release */ = {'' @ nl @
       t3 @ ''isa = XCBuildConfiguration;'' @ nl @
       t3 @ ''buildSettings = {'' @ nl @
       release_build_settings @
       t3 @ ''};'' @ nl @
       t3 @ ''name = Release;'' @ nl @
       t2 @ ''};'' @ nl @
       t2 @ ''000000000000000000000005'' @ '' /* Build configuration list for PBXNativeTarget "PaykitDemoTests" */ = {'' @ nl @
       t3 @ ''isa = XCConfigurationList;'' @ nl @
       t3 @ ''buildConfigurations = ('' @ nl @
       t4 @ ''000000000000000000000006'' @ '' /* Debug */,'' @ nl @
       t4 @ ''000000000000000000000007'' @ '' /* Release */,'' @ nl @
       t3 @ '');'' @ nl @
       t3 @ ''defaultConfigurationIsVisible = 0;'' @ nl @
       t3 @ ''defaultConfigurationName = Release;'' @ nl @
       t2 @ ''};'' @ nl @
       config_list_end_pat @ nl
   \<and> (\<exists>w'. add_test_target example_rng ''p''
               \<lparr>files = [''p'' \<mapsto> main_target_pat @ nl @ config_list_end_pat @ nl],
                stdout = []\<rparr>
            = Inr (True, w')
         \<and> files w' ''p'' =
             Some (main_target_pat @ nl @
       t2 @ ''000000000000000000000006'' @ '' /* Debug */ = {'' @ nl @
       t3 @ ''isa = XCBuildConfiguration;'' @ nl @
       t3 @ ''buildSettings = {'' @ nl @
       debug_build_settings @
       t3 @ ''};'' @ nl @
       t3 @ ''name = Debug;'' @ nl @
       t2 @ ''};'' @ nl @
       t2 @ ''000000000000000000000007'' @ '' /* Release */ = {'' @ nl @
       t3 @ ''isa = XCBuildConfiguration;'' @ nl @
       t3 @ ''buildSettings = {'' @ nl @
       release_build_settings @
       t3 @ ''};'' @ nl @
       t3 @ ''name = Release;'' @ nl @
       t2 @ ''};'' @ nl @
       t2 @ ''000000000000000000000005'' @ '' /* Build configuration list for PBXNativeTarget "PaykitDemoTests" */ = {'' @ nl @
       t3 @ ''isa = XCConfigurationList;'' @ nl @
       t3 @ ''buildConfigurations = ('' @ nl @
       t4 @ ''000000000000000000000006'' @ '' /* Debug */,'' @ nl @
       t4 @ ''000000000000000000000007'' @ '' /* Release */,'' @ nl @
       t3 @ '');'' @ nl @
       t3 @ ''defaultConfigurationIsVisible = 0;'' @ nl @
       t3 @ ''defaultConfigurationName = Release;'' @ nl @
       t2 @ ''};'' @ nl @
       config_list_end_pat @ nl))\<close>
proof -
  let ?i = "generate_ids example_rng"
  let ?c = "main_target_pat @ nl @ config_list_end_pat @ nl"
  let ?w = "\<lparr>files = [''p'' \<mapsto> ?c], stdout = []\<rparr>"
  let ?out = \<open>main_target_pat @ nl @
       t2 @ ''000000000000000000000006'' @ '' /* Debug */ = {'' @ nl @
       t3 @ ''isa = XCBuildConfiguration;'' @ nl @
       t3 @ ''buildSettings = {'' @ nl @
       debug_build_settings @
       t3 @ ''};'' @ nl @
       t3 @ ''name = Debug;'' @ nl @
       t2 @ ''};'' @ nl @
       t2 @ ''000000000000000000000007'' @ '' /* Release */ = {'' @ nl @
       t3 @ ''isa = XCBuildConfiguration;'' @ nl @
       t3 @ ''buildSettings = {'' @ nl @
       release_build_settings @
       t3 @ ''};'' @ nl @
       t3 @ ''name = Release;'' @ nl @
       t2 @ ''};'' @ nl @
       t2 @ ''000000000000000000000005'' @ '' /* Build configuration list for PBXNativeTarget "PaykitDemoTests" */ = {'' @ nl @
       t3 @ ''isa = XCConfigurationList;'' @ nl @
       t3 @ ''buildConfigurations = ('' @ nl @
       t4 @ ''000000000000000000000006'' @ '' /* Debug */,'' @ nl @
       t4 @ ''000000000000000000000007'' @ '' /* Release */,'' @ nl @
       t3 @ '');'' @ nl @
       t3 @ ''defaultConfigurationIsVisible = 0;'' @ nl @
       t3 @ ''defaultConfigurationName = Release;'' @ nl @
       t2 @ ''};'' @ nl @
       config_list_end_pat @ nl\<close>
  have first: "\<not> sublist config_list_end_pat
                  ((main_target_pat @ nl) @ butlast config_list_end_pat)"
    apply (rule not_sublist_eval)
    apply (simp add: pat_defs del: find_str.simps)
    apply (((rule nf_ne, (simp; fail)) | (rule nf_eq, ((rule np_ne, (simp; fail)) | rule np_eq | rule np_nil)+) | rule nf_nil)+)
    done
  have fl: "files ?w ''p'' = Some ?c"
    by simp
  have main: "sublist main_target_pat ?c"
    by simp
  have e1: "add_file_reference ?i ?c = ?c"
    apply (rule add_file_reference_absent, rule not_sublist_eval)
    apply (simp only: pat_defs block_defs append_Cons append_Nil)
    apply (((rule nf_ne, (simp; fail)) | (rule nf_eq, ((rule np_ne, (simp; fail)) | rule np_eq | rule np_nil)+) | rule nf_nil)+)
    done
  have e2: "add_group ?i ?c = ?c"
    apply (rule add_group_absent, rule not_sublist_eval)
    apply (simp only: pat_defs block_defs append_Cons append_Nil)
    apply (((rule nf_ne, (simp; fail)) | (rule nf_eq, ((rule np_ne, (simp; fail)) | rule np_eq | rule np_nil)+) | rule nf_nil)+)
    done
  have e3: "add_product_ref ?i ?c = ?c"
    apply (rule add_product_ref_absent, rule not_children_pattern_eval)
    apply (simp only: pat_defs block_defs append_Cons append_Nil)
    apply (((rule rc_step, ((rule np_ne, (simp; fail)) | rule np_eq | rule np_nil)+) | rule rc_nil)+)
    done
  have e4: "add_sources_phase ?i ?c = ?c"
    apply (rule add_sources_phase_absent, rule not_sublist_eval)
    apply (simp only: pat_defs block_defs append_Cons append_Nil)
    apply (((rule nf_ne, (simp; fail)) | (rule nf_eq, ((rule np_ne, (simp; fail)) | rule np_eq | rule np_nil)+) | rule nf_nil)+)
    done
  have e5: "add_frameworks_phase ?i ?c = ?c"
    apply (rule add_frameworks_phase_absent, rule not_sublist_eval)
    apply (simp only: pat_defs block_defs append_Cons append_Nil)
    apply (((rule nf_ne, (simp; fail)) | (rule nf_eq, ((rule np_ne, (simp; fail)) | rule np_eq | rule np_nil)+) | rule nf_nil)+)
    done
  have e6: "add_native_target ?i (generate_id (example_rng 8)) ?c = ?c"
    apply (rule add_native_target_absent, rule not_sublist_eval)
    apply (simp only: pat_defs block_defs append_Cons append_Nil)
    apply (((rule nf_ne, (simp; fail)) | (rule nf_eq, ((rule np_ne, (simp; fail)) | rule np_eq | rule np_nil)+) | rule nf_nil)+)
    done
  have e7: "add_target_ref ?i ?c = ?c"
    apply (rule add_target_ref_absent, rule not_sublist_eval)
    apply (simp only: pat_defs block_defs append_Cons append_Nil)
    apply (((rule nf_ne, (simp; fail)) | (rule nf_eq, ((rule np_ne, (simp; fail)) | rule np_eq | rule np_nil)+) | rule nf_nil)+)
    done
  have l1: "add_target_attrs ?i ?out = ?out"
    apply (rule add_target_attrs_absent, rule not_sublist_eval)
    apply (simp only: pat_defs block_defs append_Cons append_Nil)
    apply (((rule nf_ne, (simp; fail)) | (rule nf_eq, ((rule np_ne, (simp; fail)) | rule np_eq | rule np_nil)+) | rule nf_nil)+)
    done
  have earlier: "add_target_ref ?i (add_native_target ?i (generate_id (example_rng 8))
                   (add_frameworks_phase ?i (add_sources_phase ?i (add_product_ref ?i
                      (add_group ?i (add_file_reference ?i ?c)))))) = ?c"
    by (simp only: e1 e2 e3 e4 e5 e6 e7)
  note th = build_configurations_inserted [where rng = example_rng
      and pre = "main_target_pat @ nl" and post = nl and w = ?w and path = "''p''"
      and content = ?c, OF first, unfolded append_assoc]
  note s1 = th [THEN conjunct1, unfolded example_ids]
  note ex = th [THEN conjunct2, rule_format, OF conjI [OF fl conjI [OF main earlier]],
      unfolded example_ids l1]
  show ?thesis
    by (rule conjI [OF s1 ex])
qed

subsection \<open>Insertions\<close>

lemma splice_all_append: "splice_all (es @ fs) c = splice_all fs (splice_all es c)"
  by (induction es c rule: splice_all.induct) auto

lemma subseq_splice_all: "subseq c (splice_all es c)"
proof (induction es c rule: splice_all.induct)
  case (1 c)
  then show ?case by simp
next
  case (2 p new es c)
  have "subseq c (insert_at (Some p) new c)" by (rule subseq_insert_at)
  with 2 show ?case
    using subseq_order.order_trans by fastforce
qed

lemma length_splice_all:
  "length (splice_all es c) = length c + sum_list (map (length \<circ> snd) es)"
proof (induction es c rule: splice_all.induct)
  case (1 c)
  then show ?case by simp
next
  case (2 p new es c)
  have "length (take p c @ new @ drop p c) = length c + length new"
    by simp
  with 2 show ?case by simp
qed

lemma insert_at_splice:
  "\<exists>es. insert_at pos new c = splice_all es c \<and> subseq (map snd es) [new]"
proof (cases pos)
  case None
  then have "insert_at pos new c = splice_all [] c \<and> subseq (map snd []) [new]"
    by simp
  then show ?thesis by blast
next
  case (Some p)
  then have "insert_at pos new c = splice_all [(p, new)] c \<and> subseq (map snd [(p, new)]) [new]"
    by simp
  then show ?thesis by blast
qed

lemma splice_compose:
  assumes "\<exists>es. c1 = splice_all es c \<and> subseq (map snd es) bs"
    and "\<exists>es. c2 = splice_all es c1 \<and> subseq (map snd es) bs'"
  shows "\<exists>es. c2 = splice_all es c \<and> subseq (map snd es) (bs @ bs')"
proof -
  from assms obtain es fs where "c1 = splice_all es c" "subseq (map snd es) bs"
    "c2 = splice_all fs c1" "subseq (map snd fs) bs'"
    by blast
  then have "c2 = splice_all (es @ fs) c \<and> subseq (map snd (es @ fs)) (bs @ bs')"
    by (simp add: splice_all_append list_emb_append_mono)
  then show ?thesis by blast
qed

lemma add_group_splice:
  "\<exists>es. add_group i c = splice_all es c
        \<and> subseq (map snd es) [test_group_ref i, test_group_def i]"
proof (cases "re_search group_begin c")
  case None
  then have "add_group i c = splice_all [] c \<and> subseq (map snd []) [test_group_ref i, test_group_def i]"
    by (simp add: add_group_def)
  then show ?thesis by blast
next
  case (Some m)
  then have eq: "add_group i c = add_group_def i (add_group_ref i c)"
    by (simp add: add_group_def)
  have a: "\<exists>es. add_group_ref i c = splice_all es c
             \<and> subseq (map snd es) [test_group_ref i]"
    unfolding add_group_ref_def by (rule insert_at_splice)
  have b: "\<exists>es. add_group_def i (add_group_ref i c) = splice_all es (add_group_ref i c)
             \<and> subseq (map snd es) [test_group_def i]"
    unfolding add_group_def_def by (rule insert_at_splice)
  from splice_compose [OF a b] eq show ?thesis
    by simp
qed

lemma edit_content_splice:
  "\<exists>es. edit_content i dep c = splice_all es c
        \<and> subseq (map snd es)
             [test_file_ref i, test_group_ref i, test_group_def i, test_product_ref i,
              test_sources_phase i, test_frameworks_phase i, test_target i dep,
              test_target_ref i, test_debug_config i, test_target_attrs i]"
proof -
  let ?c1 = "add_file_reference i c"
  let ?c2 = "add_group i ?c1"
  let ?c3 = "add_product_ref i ?c2"
  let ?c4 = "add_sources_phase i ?c3"
  let ?c5 = "add_frameworks_phase i ?c4"
  let ?c6 = "add_native_target i dep ?c5"
  let ?c7 = "add_target_ref i ?c6"
  let ?c8 = "add_build_configs i ?c7"
  let ?c9 = "add_target_attrs i ?c8"
  have s1: "\<exists>es. ?c1 = splice_all es c \<and> subseq (map snd es) [test_file_ref i]"
    unfolding add_file_reference_def by (rule insert_at_splice)
  have s2: "\<exists>es. ?c2 = splice_all es ?c1
              \<and> subseq (map snd es) [test_group_ref i, test_group_def i]"
    by (rule add_group_splice)
  have s3: "\<exists>es. ?c3 = splice_all es ?c2 \<and> subseq (map snd es) [test_product_ref i]"
    unfolding add_product_ref_def by (rule insert_at_splice)
  have s4: "\<exists>es. ?c4 = splice_all es ?c3 \<and> subseq (map snd es) [test_sources_phase i]"
    unfolding add_sources_phase_def by (rule insert_at_splice)
  have s5: "\<exists>es. ?c5 = splice_all es ?c4 \<and> subseq (map snd es) [test_frameworks_phase i]"
    unfolding add_frameworks_phase_def by (rule insert_at_splice)
  have s6: "\<exists>es. ?c6 = splice_all es ?c5 \<and> subseq (map snd es) [test_target i dep]"
    unfolding add_native_target_def by (rule insert_at_splice)
  have s7: "\<exists>es. ?c7 = splice_all es ?c6 \<and> subseq (map snd es) [test_target_ref i]"
    unfolding add_target_ref_def by (rule insert_at_splice)
  have s8: "\<exists>es. ?c8 = splice_all es ?c7 \<and> subseq (map snd es) [test_debug_config i]"
    unfolding add_build_configs_def by (rule insert_at_splice)
  have s9: "\<exists>es. ?c9 = splice_all es ?c8 \<and> subseq (map snd es) [test_target_attrs i]"
    unfolding add_target_attrs_def by (rule insert_at_splice)
  note a = splice_compose [OF s1 s2]
  note b = splice_compose [OF a s3]
  note c = splice_compose [OF b s4]
  note d = splice_compose [OF c s5]
  note e = splice_compose [OF d s6]
  note f = splice_compose [OF e s7]
  note g = splice_compose [OF f s8]
  note h = splice_compose [OF g s9]
  from h show ?thesis
    by (simp add: edit_content_unfold)
qed

text \<open>
  What \<open>add_test_target\<close> leaves in the file is the text it read with some of the ten
  texts spliced in, in the order of the source.
\<close>

lemma insertion_only_text:
  assumes "files w path = Some content"
  shows "\<exists>ok w' es.
           add_test_target rng path w = Inr (ok, w')
         \<and> files w' path = Some (splice_all es content)
         \<and> subseq (map snd es)
              [test_file_ref (generate_ids rng), test_group_ref (generate_ids rng),
               test_group_def (generate_ids rng), test_product_ref (generate_ids rng),
               test_sources_phase (generate_ids rng), test_frameworks_phase (generate_ids rng),
               test_target (generate_ids rng) (generate_id (rng 8)),
               test_target_ref (generate_ids rng), test_debug_config (generate_ids rng),
               test_target_attrs (generate_ids rng)]
         \<and> subseq content (splice_all es content)
         \<and> length (splice_all es content)
             = length content + sum_list (map (length \<circ> snd) es)"
proof (cases "sublist main_target_pat content")
  case False
  from add_test_target_abort [OF assms False, of rng]
  have "add_test_target rng path w
          = Inr (False, print ''Error: Could not find main target'' w)
        \<and> files (print ''Error: Could not find main target'' w) path
            = Some (splice_all [] content)"
    using assms by simp
  moreover have "subseq (map snd ([] :: (nat \<times> string) list)) bs" for bs :: "string list"
    by simp
  ultimately show ?thesis
    using subseq_splice_all length_splice_all by blast
next
  case True
  from add_test_target_writes [OF assms True, of rng] obtain w' where
    w': "add_test_target rng path w = Inr (True, w')"
      "files w' path = Some (edit_content (generate_ids rng) (generate_id (rng 8)) content)"
    by blast
  from edit_content_splice [of "generate_ids rng" "generate_id (rng 8)" content]
  obtain es where es: "edit_content (generate_ids rng) (generate_id (rng 8)) content
                         = splice_all es content"
    "subseq (map snd es)
       [test_file_ref (generate_ids rng), test_group_ref (generate_ids rng),
        test_group_def (generate_ids rng), test_product_ref (generate_ids rng),
        test_sources_phase (generate_ids rng), test_frameworks_phase (generate_ids rng),
        test_target (generate_ids rng) (generate_id (rng 8)),
        test_target_ref (generate_ids rng), test_debug_config (generate_ids rng),
        test_target_attrs (generate_ids rng)]"
    by blast
  from w' es show ?thesis
    using subseq_splice_all length_splice_all by metis
qed

lemma sample_edit:
  \<open>edit_content (generate_ids example_rng) (generate_id (example_rng 8))
     (main_target_pat @ nl @ targets_pat)
   = main_target_pat @ nl @ targets_pat @
     t4 @ ''000000000000000000000001'' @ '' /* PaykitDemoTests */,'' @ nl\<close>
proof -
  let ?i = "generate_ids example_rng"
  let ?c = "main_target_pat @ nl @ targets_pat"
  let ?out = \<open>main_target_pat @ nl @ targets_pat @
                t4 @ ''000000000000000000000001'' @ '' /* PaykitDemoTests */,'' @ nl\<close>
  have first: "\<not> sublist targets_pat ((main_target_pat @ nl) @ butlast targets_pat)"
    apply (rule not_sublist_eval)
    apply (simp add: pat_defs del: find_str.simps)
    apply (((rule nf_ne, (simp; fail)) | (rule nf_eq, ((rule np_ne, (simp; fail)) | rule np_eq | rule np_nil)+) | rule nf_nil)+)
    done
  have e1: "add_file_reference ?i ?c = ?c"
    apply (rule add_file_reference_absent, rule not_sublist_eval)
    apply (simp only: pat_defs block_defs append_Cons append_Nil)
    apply (((rule nf_ne, (simp; fail)) | (rule nf_eq, ((rule np_ne, (simp; fail)) | rule np_eq | rule np_nil)+) | rule nf_nil)+)
    done
  have e2: "add_group ?i ?c = ?c"
    apply (rule add_group_absent, rule not_sublist_eval)
    apply (simp only: pat_defs block_defs append_Cons append_Nil)
    apply (((rule nf_ne, (simp; fail)) | (rule nf_eq, ((rule np_ne, (simp; fail)) | rule np_eq | rule np_nil)+) | rule nf_nil)+)
    done
  have e3: "add_product_ref ?i ?c = ?c"
    apply (rule add_product_ref_absent, rule not_children_pattern_eval)
    apply (simp only: pat_defs block_defs append_Cons append_Nil)
    apply (((rule rc_step, ((rule np_ne, (simp; fail)) | rule np_eq | rule np_nil)+) | rule rc_nil)+)
    done
  have e4: "add_sources_phase ?i ?c = ?c"
    apply (rule add_sources_phase_absent, rule not_sublist_eval)
    apply (simp only: pat_defs block_defs append_Cons append_Nil)
    apply (((rule nf_ne, (simp; fail)) | (rule nf_eq, ((rule np_ne, (simp; fail)) | rule np_eq | rule np_nil)+) | rule nf_nil)+)
    done
  have e5: "add_frameworks_phase ?i ?c = ?c"
    apply (rule add_frameworks_phase_absent, rule not_sublist_eval)
    apply (simp only: pat_defs block_defs append_Cons append_Nil)
    apply (((rule nf_ne, (simp; fail)) | (rule nf_eq, ((rule np_ne, (simp; fail)) | rule np_eq | rule np_nil)+) | rule nf_nil)+)
    done
  have e6: "add_native_target ?i (generate_id (example_rng 8)) ?c = ?c"
    apply (rule add_native_target_absent, rule not_sublist_eval)
    apply (simp only: pat_defs block_defs append_Cons append_Nil)
    apply (((rule nf_ne, (simp; fail)) | (rule nf_eq, ((rule np_ne, (simp; fail)) | rule np_eq | rule np_nil)+) | rule nf_nil)+)
    done
  have e7: "add_target_ref ?i ?c = ?out"
    using insert_at_end [OF _ first, of "[]" "test_target_ref ?i"]
    by (simp add: add_target_ref_def test_target_ref_def example_ids)
  have l1: "add_build_configs ?i ?out = ?out"
    apply (rule add_build_configs_absent, rule not_sublist_eval)
    apply (simp only: pat_defs block_defs append_Cons append_Nil)
    apply (((rule nf_ne, (simp; fail)) | (rule nf_eq, ((rule np_ne, (simp; fail)) | rule np_eq | rule np_nil)+) | rule nf_nil)+)
    done
  have l2: "add_target_attrs ?i ?out = ?out"
    apply (rule add_target_attrs_absent, rule not_sublist_eval)
    apply (simp only: pat_defs block_defs append_Cons append_Nil)
    apply (((rule nf_ne, (simp; fail)) | (rule nf_eq, ((rule np_ne, (simp; fail)) | rule np_eq | rule np_nil)+) | rule nf_nil)+)
    done
  show ?thesis
    by (simp only: edit_content_unfold e1 e2 e3 e4 e5 e6 e7 l1 l2)
qed

subsection \<open>Counting occurrences\<close>

lemma occurrences_0_iff: "pat \<noteq> [] \<Longrightarrow> occurrences pat s = 0 \<longleftrightarrow> \<not> sublist pat s"
  by (induction s) (auto simp: sublist_Cons_right)

lemma occurrences_short: "length s < length pat \<Longrightarrow> occurrences pat s = 0"
proof (induction s)
  case Nil
  then show ?case by simp
next
  case (Cons x xs)
  then have "\<not> prefix pat (x # xs)"
    using prefix_length_le by fastforce
  with Cons show ?case by simp
qed

lemma occurrences_same_length:
  assumes "length s = length pat" and "pat \<noteq> []"
  shows "occurrences pat s = (if s = pat then 1 else 0)"
proof -
  from assms obtain x xs where s: "s = x # xs" by (cases s) auto
  have "prefix pat s \<longleftrightarrow> s = pat"
    using assms(1) by (auto simp: prefix_def)
  moreover have "occurrences pat xs = 0"
    using assms(1) s by (intro occurrences_short) simp
  ultimately show ?thesis using s by simp
qed

lemma occurrences_sep:
  assumes "pat \<noteq> []" and "c \<notin> set pat"
  shows "occurrences pat (u @ c # v) = occurrences pat u + occurrences pat v"
proof (induction u)
  case Nil
  have "\<not> prefix pat (c # v)"
    using assms by (cases pat) auto
  then show ?case by simp
next
  case (Cons x u)
  have "prefix pat (x # u @ c # v) \<longleftrightarrow> prefix pat (x # u)"
  proof
    assume "prefix pat (x # u @ c # v)"
    then have "prefix pat ((x # u) @ c # v)" by simp
    then consider "prefix pat (x # u)"
      | us where "pat = (x # u) @ us" "prefix us (c # v)"
      unfolding prefix_append by blast
    then show "prefix pat (x # u)"
    proof cases
      case 1
      then show ?thesis .
    next
      case 2
      show ?thesis
      proof (cases us)
        case Nil
        with 2 show ?thesis by simp
      next
        case (Cons y ys)
        with 2 have "c \<in> set pat" by auto
        with assms show ?thesis by simp
      qed
    qed
  next
    assume "prefix pat (x # u)"
    then have "prefix pat ((x # u) @ c # v)"
      using prefix_prefix by blast
    then show "prefix pat (x # u @ c # v)" by simp
  qed
  with Cons show ?case by simp
qed

lemma occurrences_cut_left:
  assumes "pat \<noteq> []" and "u \<noteq> []" and "last u \<notin> set pat"
  shows "occurrences pat (u @ v) = occurrences pat u + occurrences pat v"
proof -
  from assms(2) have u: "u = butlast u @ [last u]" by simp
  have "occurrences pat (butlast u @ last u # v)
          = occurrences pat (butlast u) + occurrences pat v"
    by (rule occurrences_sep [OF assms(1,3)])
  moreover have "occurrences pat (butlast u @ last u # []) = occurrences pat (butlast u) + 0"
    using occurrences_sep [OF assms(1,3), of "butlast u" "[]"] by simp
  ultimately show ?thesis
    using u by (metis add.right_neutral append.assoc append_Cons append_Nil)
qed

lemma occurrences_cut_right:
  assumes "pat \<noteq> []" and "v \<noteq> []" and "hd v \<notin> set pat"
  shows "occurrences pat (u @ v) = occurrences pat u + occurrences pat v"
proof -
  from assms(2) obtain c v' where v: "v = c # v'" by (cases v) auto
  with assms(3) have c: "c \<notin> set pat" by simp
  have "occurrences pat (c # v') = occurrences pat v'"
    using occurrences_sep [OF assms(1) c, of "[]" v'] by simp
  with occurrences_sep [OF assms(1) c, of u v'] v show ?thesis by simp
qed

lemma occurrences_insert:
  assumes pat: "pat \<noteq> []"
    and blk: "blk \<noteq> []" "hd blk \<notin> set pat" "last blk \<notin> set pat"
    and cut: "(u \<noteq> [] \<and> last u \<notin> set pat) \<or> (v \<noteq> [] \<and> hd v \<notin> set pat) \<or> u = [] \<or> v = []"
  shows "occurrences pat (u @ blk @ v) = occurrences pat (u @ v) + occurrences pat blk"
proof -
  have "occurrences pat (u @ blk @ v) = occurrences pat u + occurrences pat (blk @ v)"
    using occurrences_cut_right [OF pat, of "blk @ v" u] blk by simp
  also have "occurrences pat (blk @ v) = occurrences pat blk + occurrences pat v"
    using occurrences_cut_left [OF pat blk(1,3)] .
  finally have l: "occurrences pat (u @ blk @ v)
                     = occurrences pat u + occurrences pat blk + occurrences pat v"
    by simp
  have "occurrences pat (u @ v) = occurrences pat u + occurrences pat v"
    using cut occurrences_cut_left [OF pat, of u v] occurrences_cut_right [OF pat, of v u]
    by auto
  with l show ?thesis by simp
qed

lemma hex_id_nonempty: "hex_id pat \<Longrightarrow> pat \<noteq> []"
  by (auto simp: hex_id_def)

lemma hex_id_notin: "hex_id pat \<Longrightarrow> \<not> is_upper_hex c \<Longrightarrow> c \<notin> set pat"
  by (auto simp: hex_id_def list_all_iff)

lemma hex_id_generate_id: "hex_id (generate_id u)"
  using generate_id_hex [of _ u] by (simp add: hex_id_def length_generate_id list_all_iff)

text \<open>The rules that read a text one character, or one identifier, at a time.\<close>

lemma c_nil: "counts pat [] [] 0"
  by (simp add: counts_def)

lemma c_hex: "counts pat (h # r) v n \<Longrightarrow> counts pat r (h # v) n"
  by (simp add: counts_def)

lemma c_sep:
  assumes "\<not> is_upper_hex c" and "length r < 24" and "counts pat [] v n"
  shows "counts pat r (c # v) n"
  unfolding counts_def
proof (intro impI conjI)
  assume h: "hex_id pat"
  then have "length (rev r) < length pat"
    using assms(2) by (simp add: hex_id_def)
  then have "occurrences pat (rev r) = 0"
    by (rule occurrences_short)
  moreover have "occurrences pat v = n"
    using assms(3) h by (simp add: counts_def)
  ultimately show "occurrences pat (rev r @ c # v) = n"
    using occurrences_sep [OF hex_id_nonempty [OF h] hex_id_notin [OF h assms(1)], of "rev r" v]
    by simp
  show "rev r @ c # v = [] \<or> \<not> is_upper_hex (last (rev r @ c # v))"
    using assms(1,3) h by (auto simp: counts_def)
qed

lemma c_lit:
  assumes "\<not> is_upper_hex c" and "length r = 24" and "rev r \<noteq> pat" and "counts pat [] v n"
  shows "counts pat r (c # v) n"
  unfolding counts_def
proof (intro impI conjI)
  assume h: "hex_id pat"
  then have "length (rev r) = length pat"
    using assms(2) by (simp add: hex_id_def)
  then have "occurrences pat (rev r) = 0"
    using occurrences_same_length [OF _ hex_id_nonempty [OF h], of "rev r"] assms(3) by simp
  moreover have "occurrences pat v = n"
    using assms(4) h by (simp add: counts_def)
  ultimately show "occurrences pat (rev r @ c # v) = n"
    using occurrences_sep [OF hex_id_nonempty [OF h] hex_id_notin [OF h assms(1)], of "rev r" v]
    by simp
  show "rev r @ c # v = [] \<or> \<not> is_upper_hex (last (rev r @ c # v))"
    using assms(1,4) h by (auto simp: counts_def)
qed

lemma c_id:
  assumes "hex_id a" and "\<not> is_upper_hex c" and "counts pat [] v n"
  shows "counts pat [] (a @ c # v) ((if a = pat then 1 else 0) + n)"
  unfolding counts_def
proof (intro impI conjI)
  assume h: "hex_id pat"
  then have "length a = length pat"
    using assms(1) by (simp add: hex_id_def)
  then have "occurrences pat a = (if a = pat then 1 else 0)"
    by (rule occurrences_same_length [OF _ hex_id_nonempty [OF h]])
  moreover have "occurrences pat v = n"
    using assms(3) h by (simp add: counts_def)
  ultimately show "occurrences pat (rev [] @ a @ c # v) = (if a = pat then 1 else 0) + n"
    using occurrences_sep [OF hex_id_nonempty [OF h] hex_id_notin [OF h assms(2)], of a v]
    by simp
  show "rev [] @ a @ c # v = [] \<or> \<not> is_upper_hex (last (rev [] @ a @ c # v))"
    using assms(2,3) h by (auto simp: counts_def)
qed

lemma c_id_ne:
  "hex_id a \<Longrightarrow> a \<noteq> pat \<Longrightarrow> \<not> is_upper_hex c \<Longrightarrow> counts pat [] v n
     \<Longrightarrow> counts pat [] (a @ c # v) n"
  using c_id [of a c pat v n] by simp

lemma c_id_eq:
  "hex_id pat \<Longrightarrow> \<not> is_upper_hex c \<Longrightarrow> counts pat [] v n
     \<Longrightarrow> counts pat [] (pat @ c # v) (Suc n)"
  using c_id [of pat c pat v n] by simp

lemma countsD:
  "counts pat [] s n \<Longrightarrow> hex_id pat \<Longrightarrow>
     occurrences pat s = n \<and> (s = [] \<or> \<not> is_upper_hex (last s))"
  by (simp add: counts_def)

lemma counts_test_file_ref:
  assumes "hex_id (test_product_id i)" "test_product_id i \<noteq> pat"
  shows "counts pat [] (test_file_ref i) 0"
  using assms unfolding test_file_ref_def
  apply (simp only: append_Cons append_Nil)
  apply ((rule c_sep, (simp add: is_upper_hex_def; fail), (simp; fail)) | (rule c_id_eq, (simp; fail), (simp add: is_upper_hex_def; fail)) | (rule c_id_ne, (simp; fail), (simp; fail), (simp add: is_upper_hex_def; fail)) | (rule c_lit, (simp add: is_upper_hex_def; fail), (simp; fail), (simp; fail)) | rule c_hex | rule c_nil)+
  done

lemma counts_test_group_ref:
  assumes "hex_id (test_group_id i)" "test_group_id i \<noteq> pat"
  shows "counts pat [] (test_group_ref i) 0"
  using assms unfolding test_group_ref_def
  apply (simp only: append_Cons append_Nil)
  apply ((rule c_sep, (simp add: is_upper_hex_def; fail), (simp; fail)) | (rule c_id_eq, (simp; fail), (simp add: is_upper_hex_def; fail)) | (rule c_id_ne, (simp; fail), (simp; fail), (simp add: is_upper_hex_def; fail)) | (rule c_lit, (simp add: is_upper_hex_def; fail), (simp; fail), (simp; fail)) | rule c_hex | rule c_nil)+
  done

lemma counts_test_group_def:
  assumes "hex_id (test_group_id i)" "test_group_id i \<noteq> pat"
  shows "counts pat [] (test_group_def i) 0"
  using assms unfolding test_group_def_def
  apply (simp only: append_Cons append_Nil)
  apply ((rule c_sep, (simp add: is_upper_hex_def; fail), (simp; fail)) | (rule c_id_eq, (simp; fail), (simp add: is_upper_hex_def; fail)) | (rule c_id_ne, (simp; fail), (simp; fail), (simp add: is_upper_hex_def; fail)) | (rule c_lit, (simp add: is_upper_hex_def; fail), (simp; fail), (simp; fail)) | rule c_hex | rule c_nil)+
  done

lemma counts_test_product_ref:
  assumes "hex_id (test_product_id i)" "test_product_id i \<noteq> pat"
  shows "counts pat [] (test_product_ref i) 0"
  using assms unfolding test_product_ref_def
  apply (simp only: append_Cons append_Nil)
  apply ((rule c_sep, (simp add: is_upper_hex_def; fail), (simp; fail)) | (rule c_id_eq, (simp; fail), (simp add: is_upper_hex_def; fail)) | (rule c_id_ne, (simp; fail), (simp; fail), (simp add: is_upper_hex_def; fail)) | (rule c_lit, (simp add: is_upper_hex_def; fail), (simp; fail), (simp; fail)) | rule c_hex | rule c_nil)+
  done

lemma counts_test_sources_phase:
  assumes "hex_id (test_sources_phase_id i)" "test_sources_phase_id i \<noteq> pat"
  shows "counts pat [] (test_sources_phase i) 0"
  using assms unfolding test_sources_phase_def
  apply (simp only: append_Cons append_Nil)
  apply ((rule c_sep, (simp add: is_upper_hex_def; fail), (simp; fail)) | (rule c_id_eq, (simp; fail), (simp add: is_upper_hex_def; fail)) | (rule c_id_ne, (simp; fail), (simp; fail), (simp add: is_upper_hex_def; fail)) | (rule c_lit, (simp add: is_upper_hex_def; fail), (simp; fail), (simp; fail)) | rule c_hex | rule c_nil)+
  done

lemma counts_test_frameworks_phase:
  assumes "hex_id (test_frameworks_phase_id i)" "test_frameworks_phase_id i \<noteq> pat"
  shows "counts pat [] (test_frameworks_phase i) 0"
  using assms unfolding test_frameworks_phase_def
  apply (simp only: append_Cons append_Nil)
  apply ((rule c_sep, (simp add: is_upper_hex_def; fail), (simp; fail)) | (rule c_id_eq, (simp; fail), (simp add: is_upper_hex_def; fail)) | (rule c_id_ne, (simp; fail), (simp; fail), (simp add: is_upper_hex_def; fail)) | (rule c_lit, (simp add: is_upper_hex_def; fail), (simp; fail), (simp; fail)) | rule c_hex | rule c_nil)+
  done

lemma counts_test_target:
  assumes "hex_id pat"
    and "hex_id (test_target_id i)" "test_target_id i \<noteq> pat"
    and "hex_id (test_build_config_list_id i)" "test_build_config_list_id i \<noteq> pat"
    and "hex_id (test_sources_phase_id i)" "test_sources_phase_id i \<noteq> pat"
    and "hex_id (test_frameworks_phase_id i)" "test_frameworks_phase_id i \<noteq> pat"
    and "hex_id (test_product_id i)" "test_product_id i \<noteq> pat"
  shows "counts pat [] (test_target i pat) (Suc 0)"
  using assms unfolding test_target_def
  apply (simp only: append_Cons append_Nil)
  apply ((rule c_sep, (simp add: is_upper_hex_def; fail), (simp; fail)) | (rule c_id_eq, (simp; fail), (simp add: is_upper_hex_def; fail)) | (rule c_id_ne, (simp; fail), (simp; fail), (simp add: is_upper_hex_def; fail)) | (rule c_lit, (simp add: is_upper_hex_def; fail), (simp; fail), (simp; fail)) | rule c_hex | rule c_nil)+
  done

lemma counts_test_target_ref:
  assumes "hex_id (test_target_id i)" "test_target_id i \<noteq> pat"
  shows "counts pat [] (test_target_ref i) 0"
  using assms unfolding test_target_ref_def
  apply (simp only: append_Cons append_Nil)
  apply ((rule c_sep, (simp add: is_upper_hex_def; fail), (simp; fail)) | (rule c_id_eq, (simp; fail), (simp add: is_upper_hex_def; fail)) | (rule c_id_ne, (simp; fail), (simp; fail), (simp add: is_upper_hex_def; fail)) | (rule c_lit, (simp add: is_upper_hex_def; fail), (simp; fail), (simp; fail)) | rule c_hex | rule c_nil)+
  done

lemma counts_test_debug_config:
  assumes "hex_id (test_debug_config_id i)" "test_debug_config_id i \<noteq> pat"
    and "hex_id (test_release_config_id i)" "test_release_config_id i \<noteq> pat"
    and "hex_id (test_build_config_list_id i)" "test_build_config_list_id i \<noteq> pat"
  shows "counts pat [] (test_debug_config i) 0"
  using assms unfolding test_debug_config_def debug_build_settings_def release_build_settings_def
  apply (simp only: append_Cons append_Nil)
  apply ((rule c_sep, (simp add: is_upper_hex_def; fail), (simp; fail)) | (rule c_id_eq, (simp; fail), (simp add: is_upper_hex_def; fail)) | (rule c_id_ne, (simp; fail), (simp; fail), (simp add: is_upper_hex_def; fail)) | (rule c_lit, (simp add: is_upper_hex_def; fail), (simp; fail), (simp; fail)) | rule c_hex | rule c_nil)+
  done

lemma counts_test_target_attrs:
  assumes "hex_id (test_target_id i)" "test_target_id i \<noteq> pat"
    and "''5224F5F42EED89A600A4DEB4'' \<noteq> pat"
  shows "counts pat [] (test_target_attrs i) 0"
  using assms unfolding test_target_attrs_def
  apply (simp only: append_Cons append_Nil)
  apply ((rule c_sep, (simp add: is_upper_hex_def; fail), (simp; fail)) | (rule c_id_eq, (simp; fail), (simp add: is_upper_hex_def; fail)) | (rule c_id_ne, (simp; fail), (simp; fail), (simp add: is_upper_hex_def; fail)) | (rule c_lit, (simp add: is_upper_hex_def; fail), (simp; fail), (simp; fail)) | rule c_hex | rule c_nil)+
  done

lemma re_search_start:
  assumes "re_search marker c = Some (s, e)" and "marker \<noteq> []"
  shows "drop s c \<noteq> [] \<and> hd (drop s c) = hd marker"
proof -
  from assms(1) have "find_str marker c = Some s"
    by (auto simp: re_search_def)
  from find_str_Some_prefix [OF this] have "prefix marker (drop s c)" by simp
  then obtain rest where "drop s c = marker @ rest" by (auto simp: prefix_def)
  with assms(2) show ?thesis by simp
qed

lemma re_search_end:
  assumes "re_search marker c = Some (s, e)" and "marker \<noteq> []"
  shows "take e c \<noteq> [] \<and> last (take e c) = last marker"
proof -
  from assms(1) have f: "find_str marker c = Some s" and e: "e = s + length marker"
    by (auto simp: re_search_def)
  from find_str_Some_prefix [OF f] have s: "s \<le> length c" and "prefix marker (drop s c)"
    by simp_all
  then obtain rest where r: "drop s c = marker @ rest" by (auto simp: prefix_def)
  have "c = take s c @ marker @ rest"
    using r by (metis append_take_drop_id)
  then have "take e c = take (s + length marker) (take s c @ marker @ rest)"
    using e by simp
  also have "\<dots> = take s c @ marker"
    using s by simp
  finally show ?thesis using assms(2) by simp
qed

lemma re_search_children_last:
  assumes "re_search_children pre c = Some (s, e)"
  shows "take e c \<noteq> [] \<and> last (take e c) = CHR ''(''"
proof -
  from re_search_children_end [OF assms] obtain y where "take e c = y @ children_lit"
    by blast
  then show ?thesis by (simp add: children_lit_def)
qed

lemma occurrences_insert_at:
  assumes h: "hex_id pat"
    and blk: "counts pat [] blk n" "blk \<noteq> []" "\<not> is_upper_hex (hd blk)"
    and pos: "\<And>p. pos = Some p \<Longrightarrow>
                (take p c \<noteq> [] \<and> \<not> is_upper_hex (last (take p c)))
                \<or> (drop p c \<noteq> [] \<and> \<not> is_upper_hex (hd (drop p c)))"
  shows "occurrences pat (insert_at pos blk c)
           = occurrences pat c + (case pos of None \<Rightarrow> 0 | Some p \<Rightarrow> n)"
proof (cases pos)
  case None
  then show ?thesis by simp
next
  case (Some p)
  from countsD [OF blk(1) h] blk(2) have n: "occurrences pat blk = n"
    and l: "\<not> is_upper_hex (last blk)" by auto
  have "occurrences pat (take p c @ blk @ drop p c)
          = occurrences pat (take p c @ drop p c) + occurrences pat blk"
  proof (rule occurrences_insert)
    show "pat \<noteq> []" by (rule hex_id_nonempty [OF h])
    show "blk \<noteq> []" by (rule blk(2))
    show "hd blk \<notin> set pat" by (rule hex_id_notin [OF h blk(3)])
    show "last blk \<notin> set pat" by (rule hex_id_notin [OF h l])
    show "(take p c \<noteq> [] \<and> last (take p c) \<notin> set pat)
          \<or> (drop p c \<noteq> [] \<and> hd (drop p c) \<notin> set pat) \<or> take p c = [] \<or> drop p c = []"
      using pos [OF Some] hex_id_notin [OF h] by blast
  qed
  with Some n show ?thesis by simp
qed

lemma occurrences_insert_at_start:
  assumes h: "hex_id pat"
    and blk: "counts pat [] blk n" "blk \<noteq> []" "\<not> is_upper_hex (hd blk)"
    and marker: "marker \<noteq> []" "\<not> is_upper_hex (hd marker)"
  shows "occurrences pat (insert_at (match_start (re_search marker c)) blk c)
           = occurrences pat c + (if sublist marker c then n else 0)"
proof -
  have "occurrences pat (insert_at (match_start (re_search marker c)) blk c)
          = occurrences pat c
            + (case match_start (re_search marker c) of None \<Rightarrow> 0 | Some p \<Rightarrow> n)"
  proof (rule occurrences_insert_at [OF h blk])
    fix p
    assume "match_start (re_search marker c) = Some p"
    then obtain e where "re_search marker c = Some (p, e)"
      by (auto simp: match_start_def)
    from re_search_start [OF this marker(1)] marker(2)
    show "(take p c \<noteq> [] \<and> \<not> is_upper_hex (last (take p c)))
          \<or> (drop p c \<noteq> [] \<and> \<not> is_upper_hex (hd (drop p c)))"
      by simp
  qed
  moreover have "match_start (re_search marker c) = None \<longleftrightarrow> \<not> sublist marker c"
    by (simp add: match_start_def re_search_None_iff)
  ultimately show ?thesis
    by (cases "match_start (re_search marker c)") auto
qed

lemma occurrences_insert_at_end:
  assumes h: "hex_id pat"
    and blk: "counts pat [] blk n" "blk \<noteq> []" "\<not> is_upper_hex (hd blk)"
    and marker: "marker \<noteq> []" "\<not> is_upper_hex (last marker)"
  shows "occurrences pat (insert_at (match_end (re_search marker c)) blk c)
           = occurrences pat c + (if sublist marker c then n else 0)"
proof -
  have "occurrences pat (insert_at (match_end (re_search marker c)) blk c)
          = occurrences pat c
            + (case match_end (re_search marker c) of None \<Rightarrow> 0 | Some p \<Rightarrow> n)"
  proof (rule occurrences_insert_at [OF h blk])
    fix p
    assume "match_end (re_search marker c) = Some p"
    then obtain s where "re_search marker c = Some (s, p)"
      by (auto simp: match_end_def)
    from re_search_end [OF this marker(1)] marker(2)
    show "(take p c \<noteq> [] \<and> \<not> is_upper_hex (last (take p c)))
          \<or> (drop p c \<noteq> [] \<and> \<not> is_upper_hex (hd (drop p c)))"
      by simp
  qed
  moreover have "match_end (re_search marker c) = None \<longleftrightarrow> \<not> sublist marker c"
    by (simp add: match_end_def re_search_None_iff)
  ultimately show ?thesis
    by (cases "match_end (re_search marker c)") auto
qed

lemma occurrences_insert_at_children:
  assumes h: "hex_id pat"
    and blk: "counts pat [] blk n" "blk \<noteq> []" "\<not> is_upper_hex (hd blk)"
  shows "occurrences pat (insert_at (match_end (re_search_children pre c)) blk c)
           = occurrences pat c + (if children_pattern_occurs pre c then n else 0)"
proof -
  have "occurrences pat (insert_at (match_end (re_search_children pre c)) blk c)
          = occurrences pat c
            + (case match_end (re_search_children pre c) of None \<Rightarrow> 0 | Some p \<Rightarrow> n)"
  proof (rule occurrences_insert_at [OF h blk])
    fix p
    assume "match_end (re_search_children pre c) = Some p"
    then obtain s where "re_search_children pre c = Some (s, p)"
      by (auto simp: match_end_def)
    from re_search_children_last [OF this]
    show "(take p c \<noteq> [] \<and> \<not> is_upper_hex (last (take p c)))
          \<or> (drop p c \<noteq> [] \<and> \<not> is_upper_hex (hd (drop p c)))"
      by (simp add: is_upper_hex_def)
  qed
  moreover have "match_end (re_search_children pre c) = None
                   \<longleftrightarrow> \<not> children_pattern_occurs pre c"
    by (simp add: match_end_def re_search_children_None_iff)
  ultimately show ?thesis
    by (cases "match_end (re_search_children pre c)") auto
qed

lemma starts_with_tab: "(tab # xs) @ ys \<noteq> [] \<and> \<not> is_upper_hex (hd ((tab # xs) @ ys))"
  by (simp add: is_upper_hex_def)

lemma block_starts:
  "test_file_ref i \<noteq> [] \<and> \<not> is_upper_hex (hd (test_file_ref i))"
  "test_group_ref i \<noteq> [] \<and> \<not> is_upper_hex (hd (test_group_ref i))"
  "test_group_def i \<noteq> [] \<and> \<not> is_upper_hex (hd (test_group_def i))"
  "test_product_ref i \<noteq> [] \<and> \<not> is_upper_hex (hd (test_product_ref i))"
  "test_sources_phase i \<noteq> [] \<and> \<not> is_upper_hex (hd (test_sources_phase i))"
  "test_frameworks_phase i \<noteq> [] \<and> \<not> is_upper_hex (hd (test_frameworks_phase i))"
  "test_target i dep \<noteq> [] \<and> \<not> is_upper_hex (hd (test_target i dep))"
  "test_target_ref i \<noteq> [] \<and> \<not> is_upper_hex (hd (test_target_ref i))"
  "test_debug_config i \<noteq> [] \<and> \<not> is_upper_hex (hd (test_debug_config i))"
  "test_target_attrs i \<noteq> [] \<and> \<not> is_upper_hex (hd (test_target_attrs i))"
  unfolding test_file_ref_def test_group_ref_def test_group_def_def test_product_ref_def
    test_sources_phase_def test_frameworks_phase_def test_target_def test_target_ref_def
    test_debug_config_def test_target_attrs_def
  by (rule starts_with_tab)+

lemma marker_ends:
  "\<not> is_upper_hex (last file_ref_begin)" "\<not> is_upper_hex (hd group_end_pat)"
  "\<not> is_upper_hex (hd sources_phase_end_pat)" "\<not> is_upper_hex (hd frameworks_phase_end_pat)"
  "\<not> is_upper_hex (hd native_target_end_pat)" "\<not> is_upper_hex (last targets_pat)"
  "\<not> is_upper_hex (hd config_list_end_pat)" "\<not> is_upper_hex (last target_attrs_pat)"
  by (simp_all add: pat_defs is_upper_hex_def)

lemma occurrences_edit_content:
  assumes h: "hex_id pat"
    and ids: "list_all (\<lambda>a. hex_id a \<and> a \<noteq> pat)
                [test_target_id i, test_product_id i, test_sources_phase_id i,
                 test_frameworks_phase_id i, test_build_config_list_id i,
                 test_debug_config_id i, test_release_config_id i, test_group_id i]"
    and main: "''5224F5F42EED89A600A4DEB4'' \<noteq> pat"
  shows "occurrences pat (edit_content i pat c)
           = occurrences pat c
             + (if sublist native_target_end_pat
                     (add_frameworks_phase i (add_sources_phase i (add_product_ref i
                        (add_group i (add_file_reference i c)))))
                then 1 else 0)"
proof -
  from ids have id:
    "hex_id (test_target_id i)" "test_target_id i \<noteq> pat"
    "hex_id (test_product_id i)" "test_product_id i \<noteq> pat"
    "hex_id (test_sources_phase_id i)" "test_sources_phase_id i \<noteq> pat"
    "hex_id (test_frameworks_phase_id i)" "test_frameworks_phase_id i \<noteq> pat"
    "hex_id (test_build_config_list_id i)" "test_build_config_list_id i \<noteq> pat"
    "hex_id (test_debug_config_id i)" "test_debug_config_id i \<noteq> pat"
    "hex_id (test_release_config_id i)" "test_release_config_id i \<noteq> pat"
    "hex_id (test_group_id i)" "test_group_id i \<noteq> pat"
    by simp_all
  have s1: "occurrences pat (add_file_reference i c) = occurrences pat c" for c
    unfolding add_file_reference_def
    using occurrences_insert_at_end [OF h counts_test_file_ref [OF id(3,4)]
        block_starts(1) [THEN conjunct1] block_starts(1) [THEN conjunct2]
        pats_nonempty(1) marker_ends(1)]
    by simp
  have s2a: "occurrences pat (add_group_ref i c) = occurrences pat c" for c
    unfolding add_group_ref_def
    using occurrences_insert_at_children [OF h counts_test_group_ref [OF id(15,16)]
        block_starts(2) [THEN conjunct1] block_starts(2) [THEN conjunct2]]
    by simp
  have s2b: "occurrences pat (add_group_def i c) = occurrences pat c" for c
    unfolding add_group_def_def
    using occurrences_insert_at_start [OF h counts_test_group_def [OF id(15,16)]
        block_starts(3) [THEN conjunct1] block_starts(3) [THEN conjunct2]
        pats_nonempty(3) marker_ends(2)]
    by simp
  have s2: "occurrences pat (add_group i c) = occurrences pat c" for c
    by (simp add: add_group_def s2a s2b split: option.split)
  have s3: "occurrences pat (add_product_ref i c) = occurrences pat c" for c
    unfolding add_product_ref_def
    using occurrences_insert_at_children [OF h counts_test_product_ref [OF id(3,4)]
        block_starts(4) [THEN conjunct1] block_starts(4) [THEN conjunct2]]
    by simp
  have s4: "occurrences pat (add_sources_phase i c) = occurrences pat c" for c
    unfolding add_sources_phase_def
    using occurrences_insert_at_start [OF h counts_test_sources_phase [OF id(5,6)]
        block_starts(5) [THEN conjunct1] block_starts(5) [THEN conjunct2]
        pats_nonempty(4) marker_ends(3)]
    by simp
  have s5: "occurrences pat (add_frameworks_phase i c) = occurrences pat c" for c
    unfolding add_frameworks_phase_def
    using occurrences_insert_at_start [OF h counts_test_frameworks_phase [OF id(7,8)]
        block_starts(6) [THEN conjunct1] block_starts(6) [THEN conjunct2]
        pats_nonempty(5) marker_ends(4)]
    by simp
  have s6: "occurrences pat (add_native_target i pat c)
              = occurrences pat c + (if sublist native_target_end_pat c then 1 else 0)" for c
    unfolding add_native_target_def
    using occurrences_insert_at_start [OF h
        counts_test_target [OF h id(1,2) id(9,10) id(5,6) id(7,8) id(3,4)]
        block_starts(7) [THEN conjunct1] block_starts(7) [THEN conjunct2]
        pats_nonempty(6) marker_ends(5)]
    by simp
  have s7: "occurrences pat (add_target_ref i c) = occurrences pat c" for c
    unfolding add_target_ref_def
    using occurrences_insert_at_end [OF h counts_test_target_ref [OF id(1,2)]
        block_starts(8) [THEN conjunct1] block_starts(8) [THEN conjunct2]
        pats_nonempty(7) marker_ends(6)]
    by simp
  have s8: "occurrences pat (add_build_configs i c) = occurrences pat c" for c
    unfolding add_build_configs_def
    using occurrences_insert_at_start [OF h
        counts_test_debug_config [OF id(11,12) id(13,14) id(9,10)]
        block_starts(9) [THEN conjunct1] block_starts(9) [THEN conjunct2]
        pats_nonempty(8) marker_ends(7)]
    by simp
  have s9: "occurrences pat (add_target_attrs i c) = occurrences pat c" for c
    unfolding add_target_attrs_def
    using occurrences_insert_at_end [OF h counts_test_target_attrs [OF id(1,2) main]
        block_starts(10) [THEN conjunct1] block_starts(10) [THEN conjunct2]
        pats_nonempty(9) marker_ends(8)]
    by simp
  show ?thesis
    by (simp only: edit_content_unfold s9 s8 s7 s6 s5 s4 s3 s2 s1)
qed

lemma sub_skip: "sublist xs ys \<Longrightarrow> sublist xs (zs @ ys)"
  by (metis sublist_append_leftI sublist_order.order_trans)

lemma sub_here: "prefix x y \<Longrightarrow> sublist (a @ b @ x) (a @ b @ y)"
  by (simp add: prefix_imp_sublist)

lemma prefix_self_append: "prefix xs (xs @ ys)"
  by simp

lemma dependencies_in_test_target:
  "sublist (t3 @ ''dependencies = ('' @ nl @ t4 @ dep @ '' /* PBXTargetDependency */,'' @ nl
              @ t3 @ '');'' @ nl)
     (test_target i dep)"
  unfolding test_target_def
  apply (rule sub_here | rule sub_skip)+
  apply (simp only: same_prefix_prefix)
  apply (rule prefix_self_append)
  done

lemma main_target_id_not_fresh:
  assumes "sublist main_target_pat content" and "\<not> sublist pat content"
  shows "''5224F5F42EED89A600A4DEB4'' \<noteq> pat"
proof
  assume e: "''5224F5F42EED89A600A4DEB4'' = pat"
  have "main_target_pat = ''5224F5F42EED89A600A4DEB4'' @ '' /* PaykitDemo */''"
    by (simp add: main_target_pat_def)
  moreover have "sublist ''5224F5F42EED89A600A4DEB4''
                   (''5224F5F42EED89A600A4DEB4'' @ '' /* PaykitDemo */'')"
    by (rule sublist_append_rightI)
  ultimately have "sublist ''5224F5F42EED89A600A4DEB4'' main_target_pat"
    by (simp only:)
  with e have "sublist pat main_target_pat"
    by simp
  with assms(1) have "sublist pat content"
    using sublist_order.order_trans by blast
  with assms(2) show False by simp
qed

text \<open>
  C10. The inserted native-target block lists in its \<open>dependencies\<close> an identifier of its
  own, drawn by the ninth \<open>generate_id()\<close> call. Let it be fresh: absent from the file as
  it was read and different from the eight identifiers drawn before it. Then, when the
  block is inserted, that identifier occurs exactly once in the content written: once in
  the native-target block, in its \<open>dependencies\<close> list, and in no other inserted text. So
  no object with that identifier exists in the file and the reference dangles.
\<close>

theorem dependency_id_dangling:
  fixes rng :: "nat \<Rightarrow> uuid" and content :: string
  defines "i \<equiv> generate_ids rng"
  defines "dep \<equiv> generate_id (rng 8)"
  assumes fl: "files w path = Some content"
    and main: "sublist main_target_pat content"
    and anchor: "sublist native_target_end_pat
                   (add_frameworks_phase i (add_sources_phase i (add_product_ref i
                      (add_group i (add_file_reference i content)))))"
    and fresh: "\<not> sublist dep content"
    and distinct: "dep \<notin> set [test_target_id i, test_product_id i, test_sources_phase_id i,
                     test_frameworks_phase_id i, test_build_config_list_id i,
                     test_debug_config_id i, test_release_config_id i, test_group_id i]"
  shows "\<exists>w' out.
           add_test_target rng path w = Inr (True, w')
         \<and> files w' path = Some out
         \<and> occurrences dep out = 1
         \<and> occurrences dep (test_target i dep) = 1
         \<and> sublist (t3 @ ''dependencies = ('' @ nl @
                     t4 @ dep @ '' /* PBXTargetDependency */,'' @ nl @
                     t3 @ '');'' @ nl)
              (test_target i dep)
         \<and> list_all (\<lambda>b. occurrences dep b = 0)
              [test_file_ref i, test_group_ref i, test_group_def i, test_product_ref i,
               test_sources_phase i, test_frameworks_phase i, test_target_ref i,
               test_debug_config i, test_target_attrs i]"
proof -
  have h: "hex_id dep"
    unfolding dep_def by (rule hex_id_generate_id)
  have hx: "hex_id (generate_id (rng k))" for k
    by (rule hex_id_generate_id)
  from distinct have ne:
    "test_target_id i \<noteq> dep" "test_product_id i \<noteq> dep" "test_sources_phase_id i \<noteq> dep"
    "test_frameworks_phase_id i \<noteq> dep" "test_build_config_list_id i \<noteq> dep"
    "test_debug_config_id i \<noteq> dep" "test_release_config_id i \<noteq> dep"
    "test_group_id i \<noteq> dep"
    by auto
  have hid:
    "hex_id (test_target_id i)" "hex_id (test_product_id i)" "hex_id (test_sources_phase_id i)"
    "hex_id (test_frameworks_phase_id i)" "hex_id (test_build_config_list_id i)"
    "hex_id (test_debug_config_id i)" "hex_id (test_release_config_id i)"
    "hex_id (test_group_id i)"
    unfolding i_def by (simp_all add: hx)
  have ids: "list_all (\<lambda>a. hex_id a \<and> a \<noteq> dep)
               [test_target_id i, test_product_id i, test_sources_phase_id i,
                test_frameworks_phase_id i, test_build_config_list_id i,
                test_debug_config_id i, test_release_config_id i, test_group_id i]"
    using ne hid by simp
  have m: "''5224F5F42EED89A600A4DEB4'' \<noteq> dep"
    by (rule main_target_id_not_fresh [OF main fresh])
  have zero: "occurrences dep content = 0"
    using fresh occurrences_0_iff [OF hex_id_nonempty [OF h]] by simp
  have out: "occurrences dep (edit_content i dep content) = 1"
    using occurrences_edit_content [OF h ids m, of content] anchor zero by simp
  have blk: "occurrences dep (test_target i dep) = 1"
    using countsD [OF counts_test_target [OF h hid(1) ne(1) hid(5) ne(5) hid(3) ne(3)
          hid(4) ne(4) hid(2) ne(2)] h]
    by simp
  have others: "list_all (\<lambda>b. occurrences dep b = 0)
              [test_file_ref i, test_group_ref i, test_group_def i, test_product_ref i,
               test_sources_phase i, test_frameworks_phase i, test_target_ref i,
               test_debug_config i, test_target_attrs i]"
    using countsD [OF counts_test_file_ref [OF hid(2) ne(2)] h]
      countsD [OF counts_test_group_ref [OF hid(8) ne(8)] h]
      countsD [OF counts_test_group_def [OF hid(8) ne(8)] h]
      countsD [OF counts_test_product_ref [OF hid(2) ne(2)] h]
      countsD [OF counts_test_sources_phase [OF hid(3) ne(3)] h]
      countsD [OF counts_test_frameworks_phase [OF hid(4) ne(4)] h]
      countsD [OF counts_test_target_ref [OF hid(1) ne(1)] h]
      countsD [OF counts_test_debug_config [OF hid(6) ne(6) hid(7) ne(7) hid(5) ne(5)] h]
      countsD [OF counts_test_target_attrs [OF hid(1) ne(1) m] h]
    by simp
  from add_test_target_writes [OF fl main, of rng] obtain w' where
    "add_test_target rng path w = Inr (True, w')"
    "files w' path = Some (edit_content i dep content)"
    unfolding i_def dep_def by blast
  with out blk others dependencies_in_test_target [of dep i] show ?thesis
    by blast
qed

theorem dependency_id_dangling_witness:
  \<open>generate_id (example_rng 8) = ''000000000000000000000009''
   \<and> (\<exists>w' out.
         add_test_target example_rng ''p''
           \<lparr>files = [''p'' \<mapsto> main_target_pat @ nl @ native_target_end_pat @ nl],
            stdout = []\<rparr> = Inr (True, w')
       \<and> files w' ''p'' = Some out
       \<and> occurrences (generate_id (example_rng 8)) out = 1
       \<and> occurrences (generate_id (example_rng 8))
            (test_target (generate_ids example_rng) (generate_id (example_rng 8))) = 1
       \<and> sublist (t3 @ ''dependencies = ('' @ nl @
                   t4 @ generate_id (example_rng 8) @ '' /* PBXTargetDependency */,'' @ nl @
                   t3 @ '');'' @ nl)
            (test_target (generate_ids example_rng) (generate_id (example_rng 8)))
       \<and> list_all (\<lambda>b. occurrences (generate_id (example_rng 8)) b = 0)
            [test_file_ref (generate_ids example_rng), test_group_ref (generate_ids example_rng),
             test_group_def (generate_ids example_rng),
             test_product_ref (generate_ids example_rng),
             test_sources_phase (generate_ids example_rng),
             test_frameworks_phase (generate_ids example_rng),
             test_target_ref (generate_ids example_rng),
             test_debug_config (generate_ids example_rng),
             test_target_attrs (generate_ids example_rng)])\<close>
proof -
  let ?i = "generate_ids example_rng"
  let ?c = "main_target_pat @ nl @ native_target_end_pat @ nl"
  let ?w = "\<lparr>files = [''p'' \<mapsto> ?c], stdout = []\<rparr>"
  have fl: "files ?w ''p'' = Some ?c"
    by simp
  have main: "sublist main_target_pat ?c"
    by simp
  have e1: "add_file_reference ?i ?c = ?c"
    apply (rule add_file_reference_absent, rule not_sublist_eval)
    apply (simp only: pat_defs block_defs append_Cons append_Nil)
    apply (((rule nf_ne, (simp; fail)) | (rule nf_eq, ((rule np_ne, (simp; fail)) | rule np_eq | rule np_nil)+) | rule nf_nil)+)
    done
  have e2: "add_group ?i ?c = ?c"
    apply (rule add_group_absent, rule not_sublist_eval)
    apply (simp only: pat_defs block_defs append_Cons append_Nil)
    apply (((rule nf_ne, (simp; fail)) | (rule nf_eq, ((rule np_ne, (simp; fail)) | rule np_eq | rule np_nil)+) | rule nf_nil)+)
    done
  have e3: "add_product_ref ?i ?c = ?c"
    apply (rule add_product_ref_absent, rule not_children_pattern_eval)
    apply (simp only: pat_defs block_defs append_Cons append_Nil)
    apply (((rule rc_step, ((rule np_ne, (simp; fail)) | rule np_eq | rule np_nil)+) | rule rc_nil)+)
    done
  have e4: "add_sources_phase ?i ?c = ?c"
    apply (rule add_sources_phase_absent, rule not_sublist_eval)
    apply (simp only: pat_defs block_defs append_Cons append_Nil)
    apply (((rule nf_ne, (simp; fail)) | (rule nf_eq, ((rule np_ne, (simp; fail)) | rule np_eq | rule np_nil)+) | rule nf_nil)+)
    done
  have e5: "add_frameworks_phase ?i ?c = ?c"
    apply (rule add_frameworks_phase_absent, rule not_sublist_eval)
    apply (simp only: pat_defs block_defs append_Cons append_Nil)
    apply (((rule nf_ne, (simp; fail)) | (rule nf_eq, ((rule np_ne, (simp; fail)) | rule np_eq | rule np_nil)+) | rule nf_nil)+)
    done
  have "sublist native_target_end_pat ?c"
    by (rule sub_skip, rule sub_skip, rule sublist_append_rightI)
  then have anchor: "sublist native_target_end_pat
                       (add_frameworks_phase ?i (add_sources_phase ?i (add_product_ref ?i
                          (add_group ?i (add_file_reference ?i ?c)))))"
    by (simp only: e1 e2 e3 e4 e5)
  have fresh: "\<not> sublist (generate_id (example_rng 8)) ?c"
    unfolding example_ids
    apply (rule not_sublist_eval)
    apply (simp only: pat_defs append_Cons append_Nil)
    apply (((rule nf_ne, (simp; fail)) | (rule nf_eq, ((rule np_ne, (simp; fail)) | rule np_eq | rule np_nil)+) | rule nf_nil)+)
    done
  have distinct: "generate_id (example_rng 8)
                    \<notin> set [test_target_id ?i, test_product_id ?i, test_sources_phase_id ?i,
                            test_frameworks_phase_id ?i, test_build_config_list_id ?i,
                            test_debug_config_id ?i, test_release_config_id ?i,
                            test_group_id ?i]"
    unfolding generate_ids_simps example_ids by simp
  show ?thesis
    by (rule conjI [OF example_ids(9)
          dependency_id_dangling [OF fl main anchor fresh distinct]])
qed

subsection \<open>Reading in text mode\<close>

lemma universal_newlines_id: "CHR 0x0D \<notin> set s \<Longrightarrow> universal_newlines s = s"
  by (induction s rule: universal_newlines.induct) auto

lemma sample_run:
  assumes "edit_content (generate_ids example_rng) (generate_id (example_rng 8)) text = out"
    and "sublist main_target_pat text"
  shows "add_test_target example_rng path (sample_world path text)
           = Inr (True, print ''Test target ID: 000000000000000000000001''
                          (print ''Added PaykitDemoTests target to project''
                             (write_file path out (sample_world path text))))"
proof -
  have "files (sample_world path text) path = Some text"
    by (simp add: sample_world_def)
  from add_test_target_success [OF this assms(2), of example_rng] assms(1) show ?thesis
    by (simp add: example_ids)
qed

lemma sample_abort:
  assumes "\<not> sublist main_target_pat text"
  shows "add_test_target example_rng path (sample_world path text)
           = Inr (False, print ''Error: Could not find main target'' (sample_world path text))
         \<and> files (print ''Error: Could not find main target'' (sample_world path text)) path
             = Some text"
proof -
  have "files (sample_world path text) path = Some text"
    by (simp add: sample_world_def)
  from add_test_target_abort [OF this assms, of example_rng] this show ?thesis
    by simp
qed

text \<open>
  C2, as amended. \<open>add_test_target\<close> only inserts into the text it reads. Of a file whose
  characters are \<open>raw\<close> it reads \<open>universal_newlines raw\<close>; the content of the file
  afterwards is that text with some of the ten texts spliced in, in the order of the
  source, each at a position of the content as it then is, and nothing else changed: the
  text read is a subsequence of it, and its length is the length of the text read plus
  the lengths of the texts inserted. For a file without a carriage return the text read
  is the file's content itself. (When the guard fails nothing is inserted and the file is
  not written.)
\<close>

theorem insertion_only_as_read:
  assumes "files w path = Some (universal_newlines raw)"
  shows "(\<exists>ok w' es.
            add_test_target rng path w = Inr (ok, w')
          \<and> files w' path = Some (splice_all es (universal_newlines raw))
          \<and> subseq (map snd es)
               [test_file_ref (generate_ids rng), test_group_ref (generate_ids rng),
                test_group_def (generate_ids rng), test_product_ref (generate_ids rng),
                test_sources_phase (generate_ids rng), test_frameworks_phase (generate_ids rng),
                test_target (generate_ids rng) (generate_id (rng 8)),
                test_target_ref (generate_ids rng), test_debug_config (generate_ids rng),
                test_target_attrs (generate_ids rng)]
          \<and> subseq (universal_newlines raw) (splice_all es (universal_newlines raw))
          \<and> length (splice_all es (universal_newlines raw))
              = length (universal_newlines raw) + sum_list (map (length \<circ> snd) es))
       \<and> (CHR 0x0D \<notin> set raw \<longrightarrow> universal_newlines raw = raw)"
  using insertion_only_text [OF assms, of rng] universal_newlines_id [of raw]
  by (intro conjI impI)

theorem insertion_only_as_read_witness:
  \<open>(\<exists>ok w' es.
       add_test_target example_rng project_path
         (sample_world project_path (main_target_pat @ nl @ targets_pat)) = Inr (ok, w')
     \<and> files w' project_path
         = Some (splice_all es (universal_newlines (main_target_pat @ nl @ targets_pat)))
     \<and> subseq (map snd es)
          [test_file_ref (generate_ids example_rng), test_group_ref (generate_ids example_rng),
           test_group_def (generate_ids example_rng), test_product_ref (generate_ids example_rng),
           test_sources_phase (generate_ids example_rng),
           test_frameworks_phase (generate_ids example_rng),
           test_target (generate_ids example_rng) (generate_id (example_rng 8)),
           test_target_ref (generate_ids example_rng), test_debug_config (generate_ids example_rng),
           test_target_attrs (generate_ids example_rng)]
     \<and> subseq (universal_newlines (main_target_pat @ nl @ targets_pat))
          (splice_all es (universal_newlines (main_target_pat @ nl @ targets_pat)))
     \<and> length (splice_all es (universal_newlines (main_target_pat @ nl @ targets_pat)))
         = length (universal_newlines (main_target_pat @ nl @ targets_pat))
           + sum_list (map (length \<circ> snd) es))
   \<and> universal_newlines (main_target_pat @ nl @ targets_pat)
       = main_target_pat @ nl @ targets_pat
   \<and> add_test_target example_rng project_path
         (sample_world project_path (main_target_pat @ nl @ targets_pat))
       = Inr (True, print ''Test target ID: 000000000000000000000001''
                      (print ''Added PaykitDemoTests target to project''
                         (write_file project_path
                            (main_target_pat @ nl @ targets_pat @
                             t4 @ ''000000000000000000000001'' @ '' /* PaykitDemoTests */,'' @ nl)
                            (sample_world project_path (main_target_pat @ nl @ targets_pat)))))\<close>
proof -
  let ?raw = "main_target_pat @ nl @ targets_pat"
  have cr: "CHR 0x0D \<notin> set ?raw"
    by (simp add: pat_defs)
  note th = insertion_only_as_read [where raw = ?raw and rng = example_rng
      and w = "sample_world project_path ?raw" and path = project_path]
  have un: "universal_newlines ?raw = ?raw"
    by (rule universal_newlines_id [OF cr])
  have fl: "files (sample_world project_path ?raw) project_path = Some (universal_newlines ?raw)"
    by (simp only: un) (simp add: sample_world_def)
  have main: "sublist main_target_pat ?raw"
    by simp
  show ?thesis
    by (rule conjI [OF th [OF fl, THEN conjunct1]
          conjI [OF th [OF fl, THEN conjunct2, rule_format, OF cr]
            sample_run [OF sample_edit main]]])
qed

text \<open>
  C2 as it was stated fails on a file with a carriage return. The file holds the
  main-target anchor, CR LF, and \<open>targets = (\<close>. The script reads it with LF for CR LF,
  inserts one line after \<open>targets = (\<close> and writes the result: the carriage return of the
  file is not in what is written, and the length is one less than the file's length plus
  the length of the inserted line.
\<close>

theorem insertion_only_counterexample:
  \<open>universal_newlines (main_target_pat @ [CHR 0x0D, CHR 0x0A] @ targets_pat)
     = main_target_pat @ nl @ targets_pat
   \<and> add_test_target example_rng project_path
         (sample_world project_path
            (universal_newlines (main_target_pat @ [CHR 0x0D, CHR 0x0A] @ targets_pat)))
       = Inr (True, print ''Test target ID: 000000000000000000000001''
                      (print ''Added PaykitDemoTests target to project''
                         (write_file project_path
                            (main_target_pat @ nl @ targets_pat @
                             t4 @ ''000000000000000000000001'' @ '' /* PaykitDemoTests */,'' @ nl)
                            (sample_world project_path
                               (universal_newlines
                                  (main_target_pat @ [CHR 0x0D, CHR 0x0A] @ targets_pat))))))
   \<and> \<not> subseq (main_target_pat @ [CHR 0x0D, CHR 0x0A] @ targets_pat)
          (main_target_pat @ nl @ targets_pat @
           t4 @ ''000000000000000000000001'' @ '' /* PaykitDemoTests */,'' @ nl)
   \<and> length (main_target_pat @ nl @ targets_pat @
              t4 @ ''000000000000000000000001'' @ '' /* PaykitDemoTests */,'' @ nl) + 1
       = length (main_target_pat @ [CHR 0x0D, CHR 0x0A] @ targets_pat)
         + length (t4 @ ''000000000000000000000001'' @ '' /* PaykitDemoTests */,'' @ nl)\<close>
proof -
  let ?raw = "main_target_pat @ [CHR 0x0D, CHR 0x0A] @ targets_pat"
  let ?text = "main_target_pat @ nl @ targets_pat"
  let ?out = \<open>main_target_pat @ nl @ targets_pat @
              t4 @ ''000000000000000000000001'' @ '' /* PaykitDemoTests */,'' @ nl\<close>
  have un: "universal_newlines ?raw = ?text"
    by (simp add: pat_defs)
  have main: "sublist main_target_pat ?text"
    by simp
  have run: "add_test_target example_rng project_path
               (sample_world project_path (universal_newlines ?raw))
             = Inr (True, print ''Test target ID: 000000000000000000000001''
                      (print ''Added PaykitDemoTests target to project''
                         (write_file project_path ?out
                            (sample_world project_path (universal_newlines ?raw)))))"
    unfolding un by (rule sample_run [OF sample_edit main])
  have "CHR 0x0D \<in> set ?raw"
    by simp
  moreover have "CHR 0x0D \<notin> set ?out"
    by (simp add: pat_defs)
  ultimately have ns: "\<not> subseq ?raw ?out"
    using list_emb_set [of "(=)" ?raw ?out "CHR 0x0D"] by blast
  have len: "length ?out + 1 = length ?raw
               + length (t4 @ ''000000000000000000000001'' @ '' /* PaykitDemoTests */,'' @ nl)"
    by (simp add: pat_defs)
  show ?thesis
    by (rule conjI [OF un conjI [OF run conjI [OF ns len]]])
qed

subsection \<open>Runs that insert nothing at a marker the file holds\<close>

lemma file_ref_first: "\<not> sublist file_ref_begin (main_target_pat @ butlast file_ref_begin)"
    apply (rule not_sublist_eval)
    apply (simp add: pat_defs del: find_str.simps)
    apply (((rule nf_ne, (simp; fail)) | (rule nf_eq, ((rule np_ne, (simp; fail)) | rule np_eq | rule np_nil)+) | rule nf_nil)+)
    done

lemma split_by_file_reference:
  \<open>add_file_reference (generate_ids example_rng) (main_target_pat @ file_ref_begin @ rest)
     = main_target_pat @ file_ref_begin @ t2 @ ''000000000000000000000002'' @ '' /* PaykitDemoTests.xctest */ = {isa = PBXFileReference; explicitFileType = wrapper.cfbundle; includeInIndex = 0; path = PaykitDemoTests.xctest; sourceTree = BUILT_PRODUCTS_DIR; };'' @ nl @ rest\<close>
  unfolding add_file_reference_def test_file_ref_def generate_ids_simps example_ids
  by (simp only: insert_at_end [OF pats_nonempty(1) file_ref_first] append_assoc)

text \<open>
  C4 as it was stated fails on a file that holds the marker and not the main-target
  anchor: the guard returns \<open>False\<close> before the first edit, and the file keeps its content.
\<close>

theorem file_reference_counterexample:
  \<open>sublist file_ref_begin file_ref_begin
   \<and> add_test_target example_rng project_path (sample_world project_path (file_ref_begin))
       = Inr (False, print ''Error: Could not find main target''
                       (sample_world project_path (file_ref_begin)))
   \<and> files (print ''Error: Could not find main target''
               (sample_world project_path (file_ref_begin))) project_path
       = Some (file_ref_begin)\<close>
proof -
  have "\<not> sublist main_target_pat file_ref_begin"
    apply (rule not_sublist_eval)
    apply (simp only: pat_defs block_defs append_Cons append_Nil)
    apply (((rule nf_ne, (simp; fail)) | (rule nf_eq, ((rule np_ne, (simp; fail)) | rule np_eq | rule np_nil)+) | rule nf_nil)+)
    done
  from sample_abort [OF this, of project_path] show ?thesis
    by (simp only: sublist_order.order_refl simp_thms)
qed

lemma build_phases_guard:
  \<open>sublist sources_phase_end_pat (sources_phase_end_pat @ frameworks_phase_end_pat @ nl)
   \<and> sublist frameworks_phase_end_pat (sources_phase_end_pat @ frameworks_phase_end_pat @ nl)
   \<and> add_test_target example_rng project_path (sample_world project_path (sources_phase_end_pat @ frameworks_phase_end_pat @ nl))
       = Inr (False, print ''Error: Could not find main target''
                       (sample_world project_path (sources_phase_end_pat @ frameworks_phase_end_pat @ nl)))
   \<and> files (print ''Error: Could not find main target''
               (sample_world project_path (sources_phase_end_pat @ frameworks_phase_end_pat @ nl))) project_path
       = Some (sources_phase_end_pat @ frameworks_phase_end_pat @ nl)\<close>
proof -
  have "\<not> sublist main_target_pat (sources_phase_end_pat @ frameworks_phase_end_pat @ nl)"
    apply (rule not_sublist_eval)
    apply (simp only: pat_defs block_defs append_Cons append_Nil)
    apply (((rule nf_ne, (simp; fail)) | (rule nf_eq, ((rule np_ne, (simp; fail)) | rule np_eq | rule np_nil)+) | rule nf_nil)+)
    done
  note a = sample_abort [OF this, of project_path]
  have p0: "sublist sources_phase_end_pat (sources_phase_end_pat @ frameworks_phase_end_pat @ nl)"
    by (rule sublist_append_rightI)
  have p1: "sublist frameworks_phase_end_pat (sources_phase_end_pat @ frameworks_phase_end_pat @ nl)"
    by (rule sub_skip, rule sublist_append_rightI)
  show ?thesis
    by (rule conjI [OF p0 conjI [OF p1 a]])
qed

lemma sources_marker_split:
  \<open>sublist main_target_pat (main_target_pat @ file_ref_begin @ ''* End PBXSourcesBuildPhase section */'' @ frameworks_phase_end_pat @ nl)
   \<and> sublist sources_phase_end_pat (main_target_pat @ file_ref_begin @ ''* End PBXSourcesBuildPhase section */'' @ frameworks_phase_end_pat @ nl)
   \<and> sublist frameworks_phase_end_pat (main_target_pat @ file_ref_begin @ ''* End PBXSourcesBuildPhase section */'' @ frameworks_phase_end_pat @ nl)
   \<and> add_test_target example_rng project_path (sample_world project_path (main_target_pat @ file_ref_begin @ ''* End PBXSourcesBuildPhase section */'' @ frameworks_phase_end_pat @ nl))
       = Inr (True, print ''Test target ID: 000000000000000000000001''
                      (print ''Added PaykitDemoTests target to project''
                         (write_file project_path
                            (main_target_pat @ file_ref_begin @ t2 @ ''000000000000000000000002'' @ '' /* PaykitDemoTests.xctest */ = {isa = PBXFileReference; explicitFileType = wrapper.cfbundle; includeInIndex = 0; path = PaykitDemoTests.xctest; sourceTree = BUILT_PRODUCTS_DIR; };'' @ nl @ ''* End PBXSourcesBuildPhase section */'' @ (t2 @ ''000000000000000000000004'' @ '' /* Frameworks */ = {'' @ nl @
       t3 @ ''isa = PBXFrameworksBuildPhase;'' @ nl @
       t3 @ ''buildActionMask = 2147483647;'' @ nl @
       t3 @ ''files = ('' @ nl @
       t3 @ '');'' @ nl @
       t3 @ ''runOnlyForDeploymentPostprocessing = 0;'' @ nl @
       t2 @ ''};'' @ nl) @ frameworks_phase_end_pat @ nl)
                            (sample_world project_path (main_target_pat @ file_ref_begin @ ''* End PBXSourcesBuildPhase section */'' @ frameworks_phase_end_pat @ nl)))))
   \<and> \<not> sublist ''isa = PBXSourcesBuildPhase'' (main_target_pat @ file_ref_begin @ t2 @ ''000000000000000000000002'' @ '' /* PaykitDemoTests.xctest */ = {isa = PBXFileReference; explicitFileType = wrapper.cfbundle; includeInIndex = 0; path = PaykitDemoTests.xctest; sourceTree = BUILT_PRODUCTS_DIR; };'' @ nl @ ''* End PBXSourcesBuildPhase section */'' @ (t2 @ ''000000000000000000000004'' @ '' /* Frameworks */ = {'' @ nl @
       t3 @ ''isa = PBXFrameworksBuildPhase;'' @ nl @
       t3 @ ''buildActionMask = 2147483647;'' @ nl @
       t3 @ ''files = ('' @ nl @
       t3 @ '');'' @ nl @
       t3 @ ''runOnlyForDeploymentPostprocessing = 0;'' @ nl @
       t2 @ ''};'' @ nl) @ frameworks_phase_end_pat @ nl)\<close>
proof -
  let ?i = "generate_ids example_rng"
  have main: "sublist main_target_pat (main_target_pat @ file_ref_begin @ ''* End PBXSourcesBuildPhase section */'' @ frameworks_phase_end_pat @ nl)"
    by (rule sublist_append_rightI)
  have "main_target_pat @ file_ref_begin @ ''* End PBXSourcesBuildPhase section */'' @ frameworks_phase_end_pat @ nl = main_target_pat @ ''/* Begin PBXFileReference section *'' @ sources_phase_end_pat @ frameworks_phase_end_pat @ nl"
    by (simp add: pat_defs)
  moreover have "sublist sources_phase_end_pat (main_target_pat @ ''/* Begin PBXFileReference section *'' @ sources_phase_end_pat @ frameworks_phase_end_pat @ nl)"
    by (rule sub_skip, rule sub_skip, rule sublist_append_rightI)
  ultimately have p0: "sublist sources_phase_end_pat (main_target_pat @ file_ref_begin @ ''* End PBXSourcesBuildPhase section */'' @ frameworks_phase_end_pat @ nl)"
    by (simp only:)
  have p1: "sublist frameworks_phase_end_pat (main_target_pat @ file_ref_begin @ ''* End PBXSourcesBuildPhase section */'' @ frameworks_phase_end_pat @ nl)"
    by (rule sub_skip, rule sub_skip, rule sub_skip, rule sublist_append_rightI)
  have e0: "add_file_reference ?i (main_target_pat @ file_ref_begin @ ''* End PBXSourcesBuildPhase section */'' @ frameworks_phase_end_pat @ nl) = main_target_pat @ file_ref_begin @ t2 @ ''000000000000000000000002'' @ '' /* PaykitDemoTests.xctest */ = {isa = PBXFileReference; explicitFileType = wrapper.cfbundle; includeInIndex = 0; path = PaykitDemoTests.xctest; sourceTree = BUILT_PRODUCTS_DIR; };'' @ nl @ ''* End PBXSourcesBuildPhase section */'' @ frameworks_phase_end_pat @ nl"
    by (rule split_by_file_reference)
  have e1: "add_group ?i (main_target_pat @ file_ref_begin @ t2 @ ''000000000000000000000002'' @ '' /* PaykitDemoTests.xctest */ = {isa = PBXFileReference; explicitFileType = wrapper.cfbundle; includeInIndex = 0; path = PaykitDemoTests.xctest; sourceTree = BUILT_PRODUCTS_DIR; };'' @ nl @ ''* End PBXSourcesBuildPhase section */'' @ frameworks_phase_end_pat @ nl) = main_target_pat @ file_ref_begin @ t2 @ ''000000000000000000000002'' @ '' /* PaykitDemoTests.xctest */ = {isa = PBXFileReference; explicitFileType = wrapper.cfbundle; includeInIndex = 0; path = PaykitDemoTests.xctest; sourceTree = BUILT_PRODUCTS_DIR; };'' @ nl @ ''* End PBXSourcesBuildPhase section */'' @ frameworks_phase_end_pat @ nl"
    apply (rule add_group_absent, rule not_sublist_eval)
    apply (simp only: pat_defs block_defs append_Cons append_Nil)
    apply (((rule nf_ne, (simp; fail)) | (rule nf_eq, ((rule np_ne, (simp; fail)) | rule np_eq | rule np_nil)+) | rule nf_nil)+)
    done
  have e2: "add_product_ref ?i (main_target_pat @ file_ref_begin @ t2 @ ''000000000000000000000002'' @ '' /* PaykitDemoTests.xctest */ = {isa = PBXFileReference; explicitFileType = wrapper.cfbundle; includeInIndex = 0; path = PaykitDemoTests.xctest; sourceTree = BUILT_PRODUCTS_DIR; };'' @ nl @ ''* End PBXSourcesBuildPhase section */'' @ frameworks_phase_end_pat @ nl) = main_target_pat @ file_ref_begin @ t2 @ ''000000000000000000000002'' @ '' /* PaykitDemoTests.xctest */ = {isa = PBXFileReference; explicitFileType = wrapper.cfbundle; includeInIndex = 0; path = PaykitDemoTests.xctest; sourceTree = BUILT_PRODUCTS_DIR; };'' @ nl @ ''* End PBXSourcesBuildPhase section */'' @ frameworks_phase_end_pat @ nl"
    apply (rule add_product_ref_absent, rule not_children_pattern_eval)
    apply (simp only: pat_defs block_defs append_Cons append_Nil)
    apply (((rule rc_step, ((rule np_ne, (simp; fail)) | rule np_eq | rule np_nil)+) | rule rc_nil)+)
    done
  have e3: "add_sources_phase ?i (main_target_pat @ file_ref_begin @ t2 @ ''000000000000000000000002'' @ '' /* PaykitDemoTests.xctest */ = {isa = PBXFileReference; explicitFileType = wrapper.cfbundle; includeInIndex = 0; path = PaykitDemoTests.xctest; sourceTree = BUILT_PRODUCTS_DIR; };'' @ nl @ ''* End PBXSourcesBuildPhase section */'' @ frameworks_phase_end_pat @ nl) = main_target_pat @ file_ref_begin @ t2 @ ''000000000000000000000002'' @ '' /* PaykitDemoTests.xctest */ = {isa = PBXFileReference; explicitFileType = wrapper.cfbundle; includeInIndex = 0; path = PaykitDemoTests.xctest; sourceTree = BUILT_PRODUCTS_DIR; };'' @ nl @ ''* End PBXSourcesBuildPhase section */'' @ frameworks_phase_end_pat @ nl"
    apply (rule add_sources_phase_absent, rule not_sublist_eval)
    apply (simp only: pat_defs block_defs append_Cons append_Nil)
    apply (((rule nf_ne, (simp; fail)) | (rule nf_eq, ((rule np_ne, (simp; fail)) | rule np_eq | rule np_nil)+) | rule nf_nil)+)
    done
  have first4: "\<not> sublist frameworks_phase_end_pat ((main_target_pat @ file_ref_begin @ t2 @ ''000000000000000000000002'' @ '' /* PaykitDemoTests.xctest */ = {isa = PBXFileReference; explicitFileType = wrapper.cfbundle; includeInIndex = 0; path = PaykitDemoTests.xctest; sourceTree = BUILT_PRODUCTS_DIR; };'' @ nl @ ''* End PBXSourcesBuildPhase section */'') @ butlast frameworks_phase_end_pat)"
    apply (rule not_sublist_eval)
    apply (simp add: pat_defs del: find_str.simps)
    apply (((rule nf_ne, (simp; fail)) | (rule nf_eq, ((rule np_ne, (simp; fail)) | rule np_eq | rule np_nil)+) | rule nf_nil)+)
    done
  have e4: "add_frameworks_phase ?i (main_target_pat @ file_ref_begin @ t2 @ ''000000000000000000000002'' @ '' /* PaykitDemoTests.xctest */ = {isa = PBXFileReference; explicitFileType = wrapper.cfbundle; includeInIndex = 0; path = PaykitDemoTests.xctest; sourceTree = BUILT_PRODUCTS_DIR; };'' @ nl @ ''* End PBXSourcesBuildPhase section */'' @ frameworks_phase_end_pat @ nl) = main_target_pat @ file_ref_begin @ t2 @ ''000000000000000000000002'' @ '' /* PaykitDemoTests.xctest */ = {isa = PBXFileReference; explicitFileType = wrapper.cfbundle; includeInIndex = 0; path = PaykitDemoTests.xctest; sourceTree = BUILT_PRODUCTS_DIR; };'' @ nl @ ''* End PBXSourcesBuildPhase section */'' @ (t2 @ ''000000000000000000000004'' @ '' /* Frameworks */ = {'' @ nl @
       t3 @ ''isa = PBXFrameworksBuildPhase;'' @ nl @
       t3 @ ''buildActionMask = 2147483647;'' @ nl @
       t3 @ ''files = ('' @ nl @
       t3 @ '');'' @ nl @
       t3 @ ''runOnlyForDeploymentPostprocessing = 0;'' @ nl @
       t2 @ ''};'' @ nl) @ frameworks_phase_end_pat @ nl"
    unfolding add_frameworks_phase_def test_frameworks_phase_def generate_ids_simps example_ids
    by (simp only: insert_at_start [OF pats_nonempty(5) first4, unfolded append_assoc] append_assoc)
  have e5: "add_native_target ?i (generate_id (example_rng 8)) (main_target_pat @ file_ref_begin @ t2 @ ''000000000000000000000002'' @ '' /* PaykitDemoTests.xctest */ = {isa = PBXFileReference; explicitFileType = wrapper.cfbundle; includeInIndex = 0; path = PaykitDemoTests.xctest; sourceTree = BUILT_PRODUCTS_DIR; };'' @ nl @ ''* End PBXSourcesBuildPhase section */'' @ (t2 @ ''000000000000000000000004'' @ '' /* Frameworks */ = {'' @ nl @
       t3 @ ''isa = PBXFrameworksBuildPhase;'' @ nl @
       t3 @ ''buildActionMask = 2147483647;'' @ nl @
       t3 @ ''files = ('' @ nl @
       t3 @ '');'' @ nl @
       t3 @ ''runOnlyForDeploymentPostprocessing = 0;'' @ nl @
       t2 @ ''};'' @ nl) @ frameworks_phase_end_pat @ nl) = main_target_pat @ file_ref_begin @ t2 @ ''000000000000000000000002'' @ '' /* PaykitDemoTests.xctest */ = {isa = PBXFileReference; explicitFileType = wrapper.cfbundle; includeInIndex = 0; path = PaykitDemoTests.xctest; sourceTree = BUILT_PRODUCTS_DIR; };'' @ nl @ ''* End PBXSourcesBuildPhase section */'' @ (t2 @ ''000000000000000000000004'' @ '' /* Frameworks */ = {'' @ nl @
       t3 @ ''isa = PBXFrameworksBuildPhase;'' @ nl @
       t3 @ ''buildActionMask = 2147483647;'' @ nl @
       t3 @ ''files = ('' @ nl @
       t3 @ '');'' @ nl @
       t3 @ ''runOnlyForDeploymentPostprocessing = 0;'' @ nl @
       t2 @ ''};'' @ nl) @ frameworks_phase_end_pat @ nl"
    apply (rule add_native_target_absent, rule not_sublist_eval)
    apply (simp only: pat_defs block_defs append_Cons append_Nil)
    apply (((rule nf_ne, (simp; fail)) | (rule nf_eq, ((rule np_ne, (simp; fail)) | rule np_eq | rule np_nil)+) | rule nf_nil)+)
    done
  have e6: "add_target_ref ?i (main_target_pat @ file_ref_begin @ t2 @ ''000000000000000000000002'' @ '' /* PaykitDemoTests.xctest */ = {isa = PBXFileReference; explicitFileType = wrapper.cfbundle; includeInIndex = 0; path = PaykitDemoTests.xctest; sourceTree = BUILT_PRODUCTS_DIR; };'' @ nl @ ''* End PBXSourcesBuildPhase section */'' @ (t2 @ ''000000000000000000000004'' @ '' /* Frameworks */ = {'' @ nl @
       t3 @ ''isa = PBXFrameworksBuildPhase;'' @ nl @
       t3 @ ''buildActionMask = 2147483647;'' @ nl @
       t3 @ ''files = ('' @ nl @
       t3 @ '');'' @ nl @
       t3 @ ''runOnlyForDeploymentPostprocessing = 0;'' @ nl @
       t2 @ ''};'' @ nl) @ frameworks_phase_end_pat @ nl) = main_target_pat @ file_ref_begin @ t2 @ ''000000000000000000000002'' @ '' /* PaykitDemoTests.xctest */ = {isa = PBXFileReference; explicitFileType = wrapper.cfbundle; includeInIndex = 0; path = PaykitDemoTests.xctest; sourceTree = BUILT_PRODUCTS_DIR; };'' @ nl @ ''* End PBXSourcesBuildPhase section */'' @ (t2 @ ''000000000000000000000004'' @ '' /* Frameworks */ = {'' @ nl @
       t3 @ ''isa = PBXFrameworksBuildPhase;'' @ nl @
       t3 @ ''buildActionMask = 2147483647;'' @ nl @
       t3 @ ''files = ('' @ nl @
       t3 @ '');'' @ nl @
       t3 @ ''runOnlyForDeploymentPostprocessing = 0;'' @ nl @
       t2 @ ''};'' @ nl) @ frameworks_phase_end_pat @ nl"
    apply (rule add_target_ref_absent, rule not_sublist_eval)
    apply (simp only: pat_defs block_defs append_Cons append_Nil)
    apply (((rule nf_ne, (simp; fail)) | (rule nf_eq, ((rule np_ne, (simp; fail)) | rule np_eq | rule np_nil)+) | rule nf_nil)+)
    done
  have e7: "add_build_configs ?i (main_target_pat @ file_ref_begin @ t2 @ ''000000000000000000000002'' @ '' /* PaykitDemoTests.xctest */ = {isa = PBXFileReference; explicitFileType = wrapper.cfbundle; includeInIndex = 0; path = PaykitDemoTests.xctest; sourceTree = BUILT_PRODUCTS_DIR; };'' @ nl @ ''* End PBXSourcesBuildPhase section */'' @ (t2 @ ''000000000000000000000004'' @ '' /* Frameworks */ = {'' @ nl @
       t3 @ ''isa = PBXFrameworksBuildPhase;'' @ nl @
       t3 @ ''buildActionMask = 2147483647;'' @ nl @
       t3 @ ''files = ('' @ nl @
       t3 @ '');'' @ nl @
       t3 @ ''runOnlyForDeploymentPostprocessing = 0;'' @ nl @
       t2 @ ''};'' @ nl) @ frameworks_phase_end_pat @ nl) = main_target_pat @ file_ref_begin @ t2 @ ''000000000000000000000002'' @ '' /* PaykitDemoTests.xctest */ = {isa = PBXFileReference; explicitFileType = wrapper.cfbundle; includeInIndex = 0; path = PaykitDemoTests.xctest; sourceTree = BUILT_PRODUCTS_DIR; };'' @ nl @ ''* End PBXSourcesBuildPhase section */'' @ (t2 @ ''000000000000000000000004'' @ '' /* Frameworks */ = {'' @ nl @
       t3 @ ''isa = PBXFrameworksBuildPhase;'' @ nl @
       t3 @ ''buildActionMask = 2147483647;'' @ nl @
       t3 @ ''files = ('' @ nl @
       t3 @ '');'' @ nl @
       t3 @ ''runOnlyForDeploymentPostprocessing = 0;'' @ nl @
       t2 @ ''};'' @ nl) @ frameworks_phase_end_pat @ nl"
    apply (rule add_build_configs_absent, rule not_sublist_eval)
    apply (simp only: pat_defs block_defs append_Cons append_Nil)
    apply (((rule nf_ne, (simp; fail)) | (rule nf_eq, ((rule np_ne, (simp; fail)) | rule np_eq | rule np_nil)+) | rule nf_nil)+)
    done
  have e8: "add_target_attrs ?i (main_target_pat @ file_ref_begin @ t2 @ ''000000000000000000000002'' @ '' /* PaykitDemoTests.xctest */ = {isa = PBXFileReference; explicitFileType = wrapper.cfbundle; includeInIndex = 0; path = PaykitDemoTests.xctest; sourceTree = BUILT_PRODUCTS_DIR; };'' @ nl @ ''* End PBXSourcesBuildPhase section */'' @ (t2 @ ''000000000000000000000004'' @ '' /* Frameworks */ = {'' @ nl @
       t3 @ ''isa = PBXFrameworksBuildPhase;'' @ nl @
       t3 @ ''buildActionMask = 2147483647;'' @ nl @
       t3 @ ''files = ('' @ nl @
       t3 @ '');'' @ nl @
       t3 @ ''runOnlyForDeploymentPostprocessing = 0;'' @ nl @
       t2 @ ''};'' @ nl) @ frameworks_phase_end_pat @ nl) = main_target_pat @ file_ref_begin @ t2 @ ''000000000000000000000002'' @ '' /* PaykitDemoTests.xctest */ = {isa = PBXFileReference; explicitFileType = wrapper.cfbundle; includeInIndex = 0; path = PaykitDemoTests.xctest; sourceTree = BUILT_PRODUCTS_DIR; };'' @ nl @ ''* End PBXSourcesBuildPhase section */'' @ (t2 @ ''000000000000000000000004'' @ '' /* Frameworks */ = {'' @ nl @
       t3 @ ''isa = PBXFrameworksBuildPhase;'' @ nl @
       t3 @ ''buildActionMask = 2147483647;'' @ nl @
       t3 @ ''files = ('' @ nl @
       t3 @ '');'' @ nl @
       t3 @ ''runOnlyForDeploymentPostprocessing = 0;'' @ nl @
       t2 @ ''};'' @ nl) @ frameworks_phase_end_pat @ nl"
    apply (rule add_target_attrs_absent, rule not_sublist_eval)
    apply (simp only: pat_defs block_defs append_Cons append_Nil)
    apply (((rule nf_ne, (simp; fail)) | (rule nf_eq, ((rule np_ne, (simp; fail)) | rule np_eq | rule np_nil)+) | rule nf_nil)+)
    done
  have ed: "edit_content ?i (generate_id (example_rng 8)) (main_target_pat @ file_ref_begin @ ''* End PBXSourcesBuildPhase section */'' @ frameworks_phase_end_pat @ nl) = main_target_pat @ file_ref_begin @ t2 @ ''000000000000000000000002'' @ '' /* PaykitDemoTests.xctest */ = {isa = PBXFileReference; explicitFileType = wrapper.cfbundle; includeInIndex = 0; path = PaykitDemoTests.xctest; sourceTree = BUILT_PRODUCTS_DIR; };'' @ nl @ ''* End PBXSourcesBuildPhase section */'' @ (t2 @ ''000000000000000000000004'' @ '' /* Frameworks */ = {'' @ nl @
       t3 @ ''isa = PBXFrameworksBuildPhase;'' @ nl @
       t3 @ ''buildActionMask = 2147483647;'' @ nl @
       t3 @ ''files = ('' @ nl @
       t3 @ '');'' @ nl @
       t3 @ ''runOnlyForDeploymentPostprocessing = 0;'' @ nl @
       t2 @ ''};'' @ nl) @ frameworks_phase_end_pat @ nl"
    by (simp only: edit_content_unfold e0 e1 e2 e3 e4 e5 e6 e7 e8)
  have none: "\<not> sublist ''isa = PBXSourcesBuildPhase'' (main_target_pat @ file_ref_begin @ t2 @ ''000000000000000000000002'' @ '' /* PaykitDemoTests.xctest */ = {isa = PBXFileReference; explicitFileType = wrapper.cfbundle; includeInIndex = 0; path = PaykitDemoTests.xctest; sourceTree = BUILT_PRODUCTS_DIR; };'' @ nl @ ''* End PBXSourcesBuildPhase section */'' @ (t2 @ ''000000000000000000000004'' @ '' /* Frameworks */ = {'' @ nl @
       t3 @ ''isa = PBXFrameworksBuildPhase;'' @ nl @
       t3 @ ''buildActionMask = 2147483647;'' @ nl @
       t3 @ ''files = ('' @ nl @
       t3 @ '');'' @ nl @
       t3 @ ''runOnlyForDeploymentPostprocessing = 0;'' @ nl @
       t2 @ ''};'' @ nl) @ frameworks_phase_end_pat @ nl)"
    apply (rule not_sublist_eval)
    apply (simp only: pat_defs block_defs append_Cons append_Nil)
    apply (((rule nf_ne, (simp; fail)) | (rule nf_eq, ((rule np_ne, (simp; fail)) | rule np_eq | rule np_nil)+) | rule nf_nil)+)
    done
  show ?thesis
    by (rule conjI [OF main conjI [OF p0 conjI [OF p1 conjI [OF sample_run [OF ed main] none]]]])
qed

lemma frameworks_marker_split:
  \<open>sublist main_target_pat (main_target_pat @ ''/* End PBXFrameworksBuildPhase section *'' @ sources_phase_end_pat @ nl)
   \<and> sublist sources_phase_end_pat (main_target_pat @ ''/* End PBXFrameworksBuildPhase section *'' @ sources_phase_end_pat @ nl)
   \<and> sublist frameworks_phase_end_pat (main_target_pat @ ''/* End PBXFrameworksBuildPhase section *'' @ sources_phase_end_pat @ nl)
   \<and> add_test_target example_rng project_path (sample_world project_path (main_target_pat @ ''/* End PBXFrameworksBuildPhase section *'' @ sources_phase_end_pat @ nl))
       = Inr (True, print ''Test target ID: 000000000000000000000001''
                      (print ''Added PaykitDemoTests target to project''
                         (write_file project_path
                            (main_target_pat @ ''/* End PBXFrameworksBuildPhase section *'' @ (t2 @ ''000000000000000000000003'' @ '' /* Sources */ = {'' @ nl @
       t3 @ ''isa = PBXSourcesBuildPhase;'' @ nl @
       t3 @ ''buildActionMask = 2147483647;'' @ nl @
       t3 @ ''files = ('' @ nl @
       t3 @ '');'' @ nl @
       t3 @ ''runOnlyForDeploymentPostprocessing = 0;'' @ nl @
       t2 @ ''};'' @ nl) @ sources_phase_end_pat @ nl)
                            (sample_world project_path (main_target_pat @ ''/* End PBXFrameworksBuildPhase section *'' @ sources_phase_end_pat @ nl)))))
   \<and> \<not> sublist ''isa = PBXFrameworksBuildPhase'' (main_target_pat @ ''/* End PBXFrameworksBuildPhase section *'' @ (t2 @ ''000000000000000000000003'' @ '' /* Sources */ = {'' @ nl @
       t3 @ ''isa = PBXSourcesBuildPhase;'' @ nl @
       t3 @ ''buildActionMask = 2147483647;'' @ nl @
       t3 @ ''files = ('' @ nl @
       t3 @ '');'' @ nl @
       t3 @ ''runOnlyForDeploymentPostprocessing = 0;'' @ nl @
       t2 @ ''};'' @ nl) @ sources_phase_end_pat @ nl)\<close>
proof -
  let ?i = "generate_ids example_rng"
  have main: "sublist main_target_pat (main_target_pat @ ''/* End PBXFrameworksBuildPhase section *'' @ sources_phase_end_pat @ nl)"
    by (rule sublist_append_rightI)
  have p0: "sublist sources_phase_end_pat (main_target_pat @ ''/* End PBXFrameworksBuildPhase section *'' @ sources_phase_end_pat @ nl)"
    by (rule sub_skip, rule sub_skip, rule sublist_append_rightI)
  have "main_target_pat @ ''/* End PBXFrameworksBuildPhase section *'' @ sources_phase_end_pat @ nl = main_target_pat @ frameworks_phase_end_pat @ ''* End PBXSourcesBuildPhase section */'' @ nl"
    by (simp add: pat_defs)
  moreover have "sublist frameworks_phase_end_pat (main_target_pat @ frameworks_phase_end_pat @ ''* End PBXSourcesBuildPhase section */'' @ nl)"
    by (rule sub_skip, rule sublist_append_rightI)
  ultimately have p1: "sublist frameworks_phase_end_pat (main_target_pat @ ''/* End PBXFrameworksBuildPhase section *'' @ sources_phase_end_pat @ nl)"
    by (simp only:)
  have e0: "add_file_reference ?i (main_target_pat @ ''/* End PBXFrameworksBuildPhase section *'' @ sources_phase_end_pat @ nl) = main_target_pat @ ''/* End PBXFrameworksBuildPhase section *'' @ sources_phase_end_pat @ nl"
    apply (rule add_file_reference_absent, rule not_sublist_eval)
    apply (simp only: pat_defs block_defs append_Cons append_Nil)
    apply (((rule nf_ne, (simp; fail)) | (rule nf_eq, ((rule np_ne, (simp; fail)) | rule np_eq | rule np_nil)+) | rule nf_nil)+)
    done
  have e1: "add_group ?i (main_target_pat @ ''/* End PBXFrameworksBuildPhase section *'' @ sources_phase_end_pat @ nl) = main_target_pat @ ''/* End PBXFrameworksBuildPhase section *'' @ sources_phase_end_pat @ nl"
    apply (rule add_group_absent, rule not_sublist_eval)
    apply (simp only: pat_defs block_defs append_Cons append_Nil)
    apply (((rule nf_ne, (simp; fail)) | (rule nf_eq, ((rule np_ne, (simp; fail)) | rule np_eq | rule np_nil)+) | rule nf_nil)+)
    done
  have e2: "add_product_ref ?i (main_target_pat @ ''/* End PBXFrameworksBuildPhase section *'' @ sources_phase_end_pat @ nl) = main_target_pat @ ''/* End PBXFrameworksBuildPhase section *'' @ sources_phase_end_pat @ nl"
    apply (rule add_product_ref_absent, rule not_children_pattern_eval)
    apply (simp only: pat_defs block_defs append_Cons append_Nil)
    apply (((rule rc_step, ((rule np_ne, (simp; fail)) | rule np_eq | rule np_nil)+) | rule rc_nil)+)
    done
  have first3: "\<not> sublist sources_phase_end_pat ((main_target_pat @ ''/* End PBXFrameworksBuildPhase section *'') @ butlast sources_phase_end_pat)"
    apply (rule not_sublist_eval)
    apply (simp add: pat_defs del: find_str.simps)
    apply (((rule nf_ne, (simp; fail)) | (rule nf_eq, ((rule np_ne, (simp; fail)) | rule np_eq | rule np_nil)+) | rule nf_nil)+)
    done
  have e3: "add_sources_phase ?i (main_target_pat @ ''/* End PBXFrameworksBuildPhase section *'' @ sources_phase_end_pat @ nl) = main_target_pat @ ''/* End PBXFrameworksBuildPhase section *'' @ (t2 @ ''000000000000000000000003'' @ '' /* Sources */ = {'' @ nl @
       t3 @ ''isa = PBXSourcesBuildPhase;'' @ nl @
       t3 @ ''buildActionMask = 2147483647;'' @ nl @
       t3 @ ''files = ('' @ nl @
       t3 @ '');'' @ nl @
       t3 @ ''runOnlyForDeploymentPostprocessing = 0;'' @ nl @
       t2 @ ''};'' @ nl) @ sources_phase_end_pat @ nl"
    unfolding add_sources_phase_def test_sources_phase_def generate_ids_simps example_ids
    by (simp only: insert_at_start [OF pats_nonempty(4) first3, unfolded append_assoc] append_assoc)
  have e4: "add_frameworks_phase ?i (main_target_pat @ ''/* End PBXFrameworksBuildPhase section *'' @ (t2 @ ''000000000000000000000003'' @ '' /* Sources */ = {'' @ nl @
       t3 @ ''isa = PBXSourcesBuildPhase;'' @ nl @
       t3 @ ''buildActionMask = 2147483647;'' @ nl @
       t3 @ ''files = ('' @ nl @
       t3 @ '');'' @ nl @
       t3 @ ''runOnlyForDeploymentPostprocessing = 0;'' @ nl @
       t2 @ ''};'' @ nl) @ sources_phase_end_pat @ nl) = main_target_pat @ ''/* End PBXFrameworksBuildPhase section *'' @ (t2 @ ''000000000000000000000003'' @ '' /* Sources */ = {'' @ nl @
       t3 @ ''isa = PBXSourcesBuildPhase;'' @ nl @
       t3 @ ''buildActionMask = 2147483647;'' @ nl @
       t3 @ ''files = ('' @ nl @
       t3 @ '');'' @ nl @
       t3 @ ''runOnlyForDeploymentPostprocessing = 0;'' @ nl @
       t2 @ ''};'' @ nl) @ sources_phase_end_pat @ nl"
    apply (rule add_frameworks_phase_absent, rule not_sublist_eval)
    apply (simp only: pat_defs block_defs append_Cons append_Nil)
    apply (((rule nf_ne, (simp; fail)) | (rule nf_eq, ((rule np_ne, (simp; fail)) | rule np_eq | rule np_nil)+) | rule nf_nil)+)
    done
  have e5: "add_native_target ?i (generate_id (example_rng 8)) (main_target_pat @ ''/* End PBXFrameworksBuildPhase section *'' @ (t2 @ ''000000000000000000000003'' @ '' /* Sources */ = {'' @ nl @
       t3 @ ''isa = PBXSourcesBuildPhase;'' @ nl @
       t3 @ ''buildActionMask = 2147483647;'' @ nl @
       t3 @ ''files = ('' @ nl @
       t3 @ '');'' @ nl @
       t3 @ ''runOnlyForDeploymentPostprocessing = 0;'' @ nl @
       t2 @ ''};'' @ nl) @ sources_phase_end_pat @ nl) = main_target_pat @ ''/* End PBXFrameworksBuildPhase section *'' @ (t2 @ ''000000000000000000000003'' @ '' /* Sources */ = {'' @ nl @
       t3 @ ''isa = PBXSourcesBuildPhase;'' @ nl @
       t3 @ ''buildActionMask = 2147483647;'' @ nl @
       t3 @ ''files = ('' @ nl @
       t3 @ '');'' @ nl @
       t3 @ ''runOnlyForDeploymentPostprocessing = 0;'' @ nl @
       t2 @ ''};'' @ nl) @ sources_phase_end_pat @ nl"
    apply (rule add_native_target_absent, rule not_sublist_eval)
    apply (simp only: pat_defs block_defs append_Cons append_Nil)
    apply (((rule nf_ne, (simp; fail)) | (rule nf_eq, ((rule np_ne, (simp; fail)) | rule np_eq | rule np_nil)+) | rule nf_nil)+)
    done
  have e6: "add_target_ref ?i (main_target_pat @ ''/* End PBXFrameworksBuildPhase section *'' @ (t2 @ ''000000000000000000000003'' @ '' /* Sources */ = {'' @ nl @
       t3 @ ''isa = PBXSourcesBuildPhase;'' @ nl @
       t3 @ ''buildActionMask = 2147483647;'' @ nl @
       t3 @ ''files = ('' @ nl @
       t3 @ '');'' @ nl @
       t3 @ ''runOnlyForDeploymentPostprocessing = 0;'' @ nl @
       t2 @ ''};'' @ nl) @ sources_phase_end_pat @ nl) = main_target_pat @ ''/* End PBXFrameworksBuildPhase section *'' @ (t2 @ ''000000000000000000000003'' @ '' /* Sources */ = {'' @ nl @
       t3 @ ''isa = PBXSourcesBuildPhase;'' @ nl @
       t3 @ ''buildActionMask = 2147483647;'' @ nl @
       t3 @ ''files = ('' @ nl @
       t3 @ '');'' @ nl @
       t3 @ ''runOnlyForDeploymentPostprocessing = 0;'' @ nl @
       t2 @ ''};'' @ nl) @ sources_phase_end_pat @ nl"
    apply (rule add_target_ref_absent, rule not_sublist_eval)
    apply (simp only: pat_defs block_defs append_Cons append_Nil)
    apply (((rule nf_ne, (simp; fail)) | (rule nf_eq, ((rule np_ne, (simp; fail)) | rule np_eq | rule np_nil)+) | rule nf_nil)+)
    done
  have e7: "add_build_configs ?i (main_target_pat @ ''/* End PBXFrameworksBuildPhase section *'' @ (t2 @ ''000000000000000000000003'' @ '' /* Sources */ = {'' @ nl @
       t3 @ ''isa = PBXSourcesBuildPhase;'' @ nl @
       t3 @ ''buildActionMask = 2147483647;'' @ nl @
       t3 @ ''files = ('' @ nl @
       t3 @ '');'' @ nl @
       t3 @ ''runOnlyForDeploymentPostprocessing = 0;'' @ nl @
       t2 @ ''};'' @ nl) @ sources_phase_end_pat @ nl) = main_target_pat @ ''/* End PBXFrameworksBuildPhase section *'' @ (t2 @ ''000000000000000000000003'' @ '' /* Sources */ = {'' @ nl @
       t3 @ ''isa = PBXSourcesBuildPhase;'' @ nl @
       t3 @ ''buildActionMask = 2147483647;'' @ nl @
       t3 @ ''files = ('' @ nl @
       t3 @ '');'' @ nl @
       t3 @ ''runOnlyForDeploymentPostprocessing = 0;'' @ nl @
       t2 @ ''};'' @ nl) @ sources_phase_end_pat @ nl"
    apply (rule add_build_configs_absent, rule not_sublist_eval)
    apply (simp only: pat_defs block_defs append_Cons append_Nil)
    apply (((rule nf_ne, (simp; fail)) | (rule nf_eq, ((rule np_ne, (simp; fail)) | rule np_eq | rule np_nil)+) | rule nf_nil)+)
    done
  have e8: "add_target_attrs ?i (main_target_pat @ ''/* End PBXFrameworksBuildPhase section *'' @ (t2 @ ''000000000000000000000003'' @ '' /* Sources */ = {'' @ nl @
       t3 @ ''isa = PBXSourcesBuildPhase;'' @ nl @
       t3 @ ''buildActionMask = 2147483647;'' @ nl @
       t3 @ ''files = ('' @ nl @
       t3 @ '');'' @ nl @
       t3 @ ''runOnlyForDeploymentPostprocessing = 0;'' @ nl @
       t2 @ ''};'' @ nl) @ sources_phase_end_pat @ nl) = main_target_pat @ ''/* End PBXFrameworksBuildPhase section *'' @ (t2 @ ''000000000000000000000003'' @ '' /* Sources */ = {'' @ nl @
       t3 @ ''isa = PBXSourcesBuildPhase;'' @ nl @
       t3 @ ''buildActionMask = 2147483647;'' @ nl @
       t3 @ ''files = ('' @ nl @
       t3 @ '');'' @ nl @
       t3 @ ''runOnlyForDeploymentPostprocessing = 0;'' @ nl @
       t2 @ ''};'' @ nl) @ sources_phase_end_pat @ nl"
    apply (rule add_target_attrs_absent, rule not_sublist_eval)
    apply (simp only: pat_defs block_defs append_Cons append_Nil)
    apply (((rule nf_ne, (simp; fail)) | (rule nf_eq, ((rule np_ne, (simp; fail)) | rule np_eq | rule np_nil)+) | rule nf_nil)+)
    done
  have ed: "edit_content ?i (generate_id (example_rng 8)) (main_target_pat @ ''/* End PBXFrameworksBuildPhase section *'' @ sources_phase_end_pat @ nl) = main_target_pat @ ''/* End PBXFrameworksBuildPhase section *'' @ (t2 @ ''000000000000000000000003'' @ '' /* Sources */ = {'' @ nl @
       t3 @ ''isa = PBXSourcesBuildPhase;'' @ nl @
       t3 @ ''buildActionMask = 2147483647;'' @ nl @
       t3 @ ''files = ('' @ nl @
       t3 @ '');'' @ nl @
       t3 @ ''runOnlyForDeploymentPostprocessing = 0;'' @ nl @
       t2 @ ''};'' @ nl) @ sources_phase_end_pat @ nl"
    by (simp only: edit_content_unfold e0 e1 e2 e3 e4 e5 e6 e7 e8)
  have none: "\<not> sublist ''isa = PBXFrameworksBuildPhase'' (main_target_pat @ ''/* End PBXFrameworksBuildPhase section *'' @ (t2 @ ''000000000000000000000003'' @ '' /* Sources */ = {'' @ nl @
       t3 @ ''isa = PBXSourcesBuildPhase;'' @ nl @
       t3 @ ''buildActionMask = 2147483647;'' @ nl @
       t3 @ ''files = ('' @ nl @
       t3 @ '');'' @ nl @
       t3 @ ''runOnlyForDeploymentPostprocessing = 0;'' @ nl @
       t2 @ ''};'' @ nl) @ sources_phase_end_pat @ nl)"
    apply (rule not_sublist_eval)
    apply (simp only: pat_defs block_defs append_Cons append_Nil)
    apply (((rule nf_ne, (simp; fail)) | (rule nf_eq, ((rule np_ne, (simp; fail)) | rule np_eq | rule np_nil)+) | rule nf_nil)+)
    done
  show ?thesis
    by (rule conjI [OF main conjI [OF p0 conjI [OF p1 conjI [OF sample_run [OF ed main] none]]]])
qed

text \<open>
  C5 as it was stated fails on three files that hold both markers. The first lacks the
  main-target anchor: the guard returns \<open>False\<close> and the file keeps its content. In the
  second the sources marker starts at the last character of the file-reference marker:
  the file-reference line, inserted first, splits it, and the run writes a file with no
  PBXSourcesBuildPhase block. In the third the frameworks marker ends at the first
  character of the sources marker: the sources block splits it, and the run writes a
  file with no PBXFrameworksBuildPhase block.
\<close>

theorem build_phases_counterexample:
  \<open>(sublist sources_phase_end_pat (sources_phase_end_pat @ frameworks_phase_end_pat @ nl)
   \<and> sublist frameworks_phase_end_pat (sources_phase_end_pat @ frameworks_phase_end_pat @ nl)
   \<and> add_test_target example_rng project_path (sample_world project_path (sources_phase_end_pat @ frameworks_phase_end_pat @ nl))
       = Inr (False, print ''Error: Could not find main target''
                       (sample_world project_path (sources_phase_end_pat @ frameworks_phase_end_pat @ nl)))
   \<and> files (print ''Error: Could not find main target''
               (sample_world project_path (sources_phase_end_pat @ frameworks_phase_end_pat @ nl))) project_path
       = Some (sources_phase_end_pat @ frameworks_phase_end_pat @ nl))
   \<and> (sublist main_target_pat (main_target_pat @ file_ref_begin @ ''* End PBXSourcesBuildPhase section */'' @ frameworks_phase_end_pat @ nl)
   \<and> sublist sources_phase_end_pat (main_target_pat @ file_ref_begin @ ''* End PBXSourcesBuildPhase section */'' @ frameworks_phase_end_pat @ nl)
   \<and> sublist frameworks_phase_end_pat (main_target_pat @ file_ref_begin @ ''* End PBXSourcesBuildPhase section */'' @ frameworks_phase_end_pat @ nl)
   \<and> add_test_target example_rng project_path (sample_world project_path (main_target_pat @ file_ref_begin @ ''* End PBXSourcesBuildPhase section */'' @ frameworks_phase_end_pat @ nl))
       = Inr (True, print ''Test target ID: 000000000000000000000001''
                      (print ''Added PaykitDemoTests target to project''
                         (write_file project_path
                            (main_target_pat @ file_ref_begin @ t2 @ ''000000000000000000000002'' @ '' /* PaykitDemoTests.xctest */ = {isa = PBXFileReference; explicitFileType = wrapper.cfbundle; includeInIndex = 0; path = PaykitDemoTests.xctest; sourceTree = BUILT_PRODUCTS_DIR; };'' @ nl @ ''* End PBXSourcesBuildPhase section */'' @ (t2 @ ''000000000000000000000004'' @ '' /* Frameworks */ = {'' @ nl @
       t3 @ ''isa = PBXFrameworksBuildPhase;'' @ nl @
       t3 @ ''buildActionMask = 2147483647;'' @ nl @
       t3 @ ''files = ('' @ nl @
       t3 @ '');'' @ nl @
       t3 @ ''runOnlyForDeploymentPostprocessing = 0;'' @ nl @
       t2 @ ''};'' @ nl) @ frameworks_phase_end_pat @ nl)
                            (sample_world project_path (main_target_pat @ file_ref_begin @ ''* End PBXSourcesBuildPhase section */'' @ frameworks_phase_end_pat @ nl)))))
   \<and> \<not> sublist ''isa = PBXSourcesBuildPhase'' (main_target_pat @ file_ref_begin @ t2 @ ''000000000000000000000002'' @ '' /* PaykitDemoTests.xctest */ = {isa = PBXFileReference; explicitFileType = wrapper.cfbundle; includeInIndex = 0; path = PaykitDemoTests.xctest; sourceTree = BUILT_PRODUCTS_DIR; };'' @ nl @ ''* End PBXSourcesBuildPhase section */'' @ (t2 @ ''000000000000000000000004'' @ '' /* Frameworks */ = {'' @ nl @
       t3 @ ''isa = PBXFrameworksBuildPhase;'' @ nl @
       t3 @ ''buildActionMask = 2147483647;'' @ nl @
       t3 @ ''files = ('' @ nl @
       t3 @ '');'' @ nl @
       t3 @ ''runOnlyForDeploymentPostprocessing = 0;'' @ nl @
       t2 @ ''};'' @ nl) @ frameworks_phase_end_pat @ nl))
   \<and> (sublist main_target_pat (main_target_pat @ ''/* End PBXFrameworksBuildPhase section *'' @ sources_phase_end_pat @ nl)
   \<and> sublist sources_phase_end_pat (main_target_pat @ ''/* End PBXFrameworksBuildPhase section *'' @ sources_phase_end_pat @ nl)
   \<and> sublist frameworks_phase_end_pat (main_target_pat @ ''/* End PBXFrameworksBuildPhase section *'' @ sources_phase_end_pat @ nl)
   \<and> add_test_target example_rng project_path (sample_world project_path (main_target_pat @ ''/* End PBXFrameworksBuildPhase section *'' @ sources_phase_end_pat @ nl))
       = Inr (True, print ''Test target ID: 000000000000000000000001''
                      (print ''Added PaykitDemoTests target to project''
                         (write_file project_path
                            (main_target_pat @ ''/* End PBXFrameworksBuildPhase section *'' @ (t2 @ ''000000000000000000000003'' @ '' /* Sources */ = {'' @ nl @
       t3 @ ''isa = PBXSourcesBuildPhase;'' @ nl @
       t3 @ ''buildActionMask = 2147483647;'' @ nl @
       t3 @ ''files = ('' @ nl @
       t3 @ '');'' @ nl @
       t3 @ ''runOnlyForDeploymentPostprocessing = 0;'' @ nl @
       t2 @ ''};'' @ nl) @ sources_phase_end_pat @ nl)
                            (sample_world project_path (main_target_pat @ ''/* End PBXFrameworksBuildPhase section *'' @ sources_phase_end_pat @ nl)))))
   \<and> \<not> sublist ''isa = PBXFrameworksBuildPhase'' (main_target_pat @ ''/* End PBXFrameworksBuildPhase section *'' @ (t2 @ ''000000000000000000000003'' @ '' /* Sources */ = {'' @ nl @
       t3 @ ''isa = PBXSourcesBuildPhase;'' @ nl @
       t3 @ ''buildActionMask = 2147483647;'' @ nl @
       t3 @ ''files = ('' @ nl @
       t3 @ '');'' @ nl @
       t3 @ ''runOnlyForDeploymentPostprocessing = 0;'' @ nl @
       t2 @ ''};'' @ nl) @ sources_phase_end_pat @ nl))\<close>
  by (rule conjI [OF build_phases_guard conjI [OF sources_marker_split frameworks_marker_split]])

lemma native_target_guard:
  \<open>sublist native_target_end_pat (native_target_end_pat @ nl)
   \<and> add_test_target example_rng project_path (sample_world project_path (native_target_end_pat @ nl))
       = Inr (False, print ''Error: Could not find main target''
                       (sample_world project_path (native_target_end_pat @ nl)))
   \<and> files (print ''Error: Could not find main target''
               (sample_world project_path (native_target_end_pat @ nl))) project_path
       = Some (native_target_end_pat @ nl)\<close>
proof -
  have "\<not> sublist main_target_pat (native_target_end_pat @ nl)"
    apply (rule not_sublist_eval)
    apply (simp only: pat_defs block_defs append_Cons append_Nil)
    apply (((rule nf_ne, (simp; fail)) | (rule nf_eq, ((rule np_ne, (simp; fail)) | rule np_eq | rule np_nil)+) | rule nf_nil)+)
    done
  note a = sample_abort [OF this, of project_path]
  have p0: "sublist native_target_end_pat (native_target_end_pat @ nl)"
    by (rule sublist_append_rightI)
  show ?thesis
    by (rule conjI [OF p0 a])
qed

lemma native_marker_split:
  \<open>sublist main_target_pat (main_target_pat @ file_ref_begin @ ''* End PBXNativeTarget section */'' @ nl)
   \<and> sublist native_target_end_pat (main_target_pat @ file_ref_begin @ ''* End PBXNativeTarget section */'' @ nl)
   \<and> add_test_target example_rng project_path (sample_world project_path (main_target_pat @ file_ref_begin @ ''* End PBXNativeTarget section */'' @ nl))
       = Inr (True, print ''Test target ID: 000000000000000000000001''
                      (print ''Added PaykitDemoTests target to project''
                         (write_file project_path
                            (main_target_pat @ file_ref_begin @ t2 @ ''000000000000000000000002'' @ '' /* PaykitDemoTests.xctest */ = {isa = PBXFileReference; explicitFileType = wrapper.cfbundle; includeInIndex = 0; path = PaykitDemoTests.xctest; sourceTree = BUILT_PRODUCTS_DIR; };'' @ nl @ ''* End PBXNativeTarget section */'' @ nl)
                            (sample_world project_path (main_target_pat @ file_ref_begin @ ''* End PBXNativeTarget section */'' @ nl)))))
   \<and> \<not> sublist ''isa = PBXNativeTarget'' (main_target_pat @ file_ref_begin @ t2 @ ''000000000000000000000002'' @ '' /* PaykitDemoTests.xctest */ = {isa = PBXFileReference; explicitFileType = wrapper.cfbundle; includeInIndex = 0; path = PaykitDemoTests.xctest; sourceTree = BUILT_PRODUCTS_DIR; };'' @ nl @ ''* End PBXNativeTarget section */'' @ nl)\<close>
proof -
  let ?i = "generate_ids example_rng"
  have main: "sublist main_target_pat (main_target_pat @ file_ref_begin @ ''* End PBXNativeTarget section */'' @ nl)"
    by (rule sublist_append_rightI)
  have "main_target_pat @ file_ref_begin @ ''* End PBXNativeTarget section */'' @ nl = main_target_pat @ ''/* Begin PBXFileReference section *'' @ native_target_end_pat @ nl"
    by (simp add: pat_defs)
  moreover have "sublist native_target_end_pat (main_target_pat @ ''/* Begin PBXFileReference section *'' @ native_target_end_pat @ nl)"
    by (rule sub_skip, rule sub_skip, rule sublist_append_rightI)
  ultimately have p0: "sublist native_target_end_pat (main_target_pat @ file_ref_begin @ ''* End PBXNativeTarget section */'' @ nl)"
    by (simp only:)
  have e0: "add_file_reference ?i (main_target_pat @ file_ref_begin @ ''* End PBXNativeTarget section */'' @ nl) = main_target_pat @ file_ref_begin @ t2 @ ''000000000000000000000002'' @ '' /* PaykitDemoTests.xctest */ = {isa = PBXFileReference; explicitFileType = wrapper.cfbundle; includeInIndex = 0; path = PaykitDemoTests.xctest; sourceTree = BUILT_PRODUCTS_DIR; };'' @ nl @ ''* End PBXNativeTarget section */'' @ nl"
    by (rule split_by_file_reference)
  have e1: "add_group ?i (main_target_pat @ file_ref_begin @ t2 @ ''000000000000000000000002'' @ '' /* PaykitDemoTests.xctest */ = {isa = PBXFileReference; explicitFileType = wrapper.cfbundle; includeInIndex = 0; path = PaykitDemoTests.xctest; sourceTree = BUILT_PRODUCTS_DIR; };'' @ nl @ ''* End PBXNativeTarget section */'' @ nl) = main_target_pat @ file_ref_begin @ t2 @ ''000000000000000000000002'' @ '' /* PaykitDemoTests.xctest */ = {isa = PBXFileReference; explicitFileType = wrapper.cfbundle; includeInIndex = 0; path = PaykitDemoTests.xctest; sourceTree = BUILT_PRODUCTS_DIR; };'' @ nl @ ''* End PBXNativeTarget section */'' @ nl"
    apply (rule add_group_absent, rule not_sublist_eval)
    apply (simp only: pat_defs block_defs append_Cons append_Nil)
    apply (((rule nf_ne, (simp; fail)) | (rule nf_eq, ((rule np_ne, (simp; fail)) | rule np_eq | rule np_nil)+) | rule nf_nil)+)
    done
  have e2: "add_product_ref ?i (main_target_pat @ file_ref_begin @ t2 @ ''000000000000000000000002'' @ '' /* PaykitDemoTests.xctest */ = {isa = PBXFileReference; explicitFileType = wrapper.cfbundle; includeInIndex = 0; path = PaykitDemoTests.xctest; sourceTree = BUILT_PRODUCTS_DIR; };'' @ nl @ ''* End PBXNativeTarget section */'' @ nl) = main_target_pat @ file_ref_begin @ t2 @ ''000000000000000000000002'' @ '' /* PaykitDemoTests.xctest */ = {isa = PBXFileReference; explicitFileType = wrapper.cfbundle; includeInIndex = 0; path = PaykitDemoTests.xctest; sourceTree = BUILT_PRODUCTS_DIR; };'' @ nl @ ''* End PBXNativeTarget section */'' @ nl"
    apply (rule add_product_ref_absent, rule not_children_pattern_eval)
    apply (simp only: pat_defs block_defs append_Cons append_Nil)
    apply (((rule rc_step, ((rule np_ne, (simp; fail)) | rule np_eq | rule np_nil)+) | rule rc_nil)+)
    done
  have e3: "add_sources_phase ?i (main_target_pat @ file_ref_begin @ t2 @ ''000000000000000000000002'' @ '' /* PaykitDemoTests.xctest */ = {isa = PBXFileReference; explicitFileType = wrapper.cfbundle; includeInIndex = 0; path = PaykitDemoTests.xctest; sourceTree = BUILT_PRODUCTS_DIR; };'' @ nl @ ''* End PBXNativeTarget section */'' @ nl) = main_target_pat @ file_ref_begin @ t2 @ ''000000000000000000000002'' @ '' /* PaykitDemoTests.xctest */ = {isa = PBXFileReference; explicitFileType = wrapper.cfbundle; includeInIndex = 0; path = PaykitDemoTests.xctest; sourceTree = BUILT_PRODUCTS_DIR; };'' @ nl @ ''* End PBXNativeTarget section */'' @ nl"
    apply (rule add_sources_phase_absent, rule not_sublist_eval)
    apply (simp only: pat_defs block_defs append_Cons append_Nil)
    apply (((rule nf_ne, (simp; fail)) | (rule nf_eq, ((rule np_ne, (simp; fail)) | rule np_eq | rule np_nil)+) | rule nf_nil)+)
    done
  have e4: "add_frameworks_phase ?i (main_target_pat @ file_ref_begin @ t2 @ ''000000000000000000000002'' @ '' /* PaykitDemoTests.xctest */ = {isa = PBXFileReference; explicitFileType = wrapper.cfbundle; includeInIndex = 0; path = PaykitDemoTests.xctest; sourceTree = BUILT_PRODUCTS_DIR; };'' @ nl @ ''* End PBXNativeTarget section */'' @ nl) = main_target_pat @ file_ref_begin @ t2 @ ''000000000000000000000002'' @ '' /* PaykitDemoTests.xctest */ = {isa = PBXFileReference; explicitFileType = wrapper.cfbundle; includeInIndex = 0; path = PaykitDemoTests.xctest; sourceTree = BUILT_PRODUCTS_DIR; };'' @ nl @ ''* End PBXNativeTarget section */'' @ nl"
    apply (rule add_frameworks_phase_absent, rule not_sublist_eval)
    apply (simp only: pat_defs block_defs append_Cons append_Nil)
    apply (((rule nf_ne, (simp; fail)) | (rule nf_eq, ((rule np_ne, (simp; fail)) | rule np_eq | rule np_nil)+) | rule nf_nil)+)
    done
  have e5: "add_native_target ?i (generate_id (example_rng 8)) (main_target_pat @ file_ref_begin @ t2 @ ''000000000000000000000002'' @ '' /* PaykitDemoTests.xctest */ = {isa = PBXFileReference; explicitFileType = wrapper.cfbundle; includeInIndex = 0; path = PaykitDemoTests.xctest; sourceTree = BUILT_PRODUCTS_DIR; };'' @ nl @ ''* End PBXNativeTarget section */'' @ nl) = main_target_pat @ file_ref_begin @ t2 @ ''000000000000000000000002'' @ '' /* PaykitDemoTests.xctest */ = {isa = PBXFileReference; explicitFileType = wrapper.cfbundle; includeInIndex = 0; path = PaykitDemoTests.xctest; sourceTree = BUILT_PRODUCTS_DIR; };'' @ nl @ ''* End PBXNativeTarget section */'' @ nl"
    apply (rule add_native_target_absent, rule not_sublist_eval)
    apply (simp only: pat_defs block_defs append_Cons append_Nil)
    apply (((rule nf_ne, (simp; fail)) | (rule nf_eq, ((rule np_ne, (simp; fail)) | rule np_eq | rule np_nil)+) | rule nf_nil)+)
    done
  have e6: "add_target_ref ?i (main_target_pat @ file_ref_begin @ t2 @ ''000000000000000000000002'' @ '' /* PaykitDemoTests.xctest */ = {isa = PBXFileReference; explicitFileType = wrapper.cfbundle; includeInIndex = 0; path = PaykitDemoTests.xctest; sourceTree = BUILT_PRODUCTS_DIR; };'' @ nl @ ''* End PBXNativeTarget section */'' @ nl) = main_target_pat @ file_ref_begin @ t2 @ ''000000000000000000000002'' @ '' /* PaykitDemoTests.xctest */ = {isa = PBXFileReference; explicitFileType = wrapper.cfbundle; includeInIndex = 0; path = PaykitDemoTests.xctest; sourceTree = BUILT_PRODUCTS_DIR; };'' @ nl @ ''* End PBXNativeTarget section */'' @ nl"
    apply (rule add_target_ref_absent, rule not_sublist_eval)
    apply (simp only: pat_defs block_defs append_Cons append_Nil)
    apply (((rule nf_ne, (simp; fail)) | (rule nf_eq, ((rule np_ne, (simp; fail)) | rule np_eq | rule np_nil)+) | rule nf_nil)+)
    done
  have e7: "add_build_configs ?i (main_target_pat @ file_ref_begin @ t2 @ ''000000000000000000000002'' @ '' /* PaykitDemoTests.xctest */ = {isa = PBXFileReference; explicitFileType = wrapper.cfbundle; includeInIndex = 0; path = PaykitDemoTests.xctest; sourceTree = BUILT_PRODUCTS_DIR; };'' @ nl @ ''* End PBXNativeTarget section */'' @ nl) = main_target_pat @ file_ref_begin @ t2 @ ''000000000000000000000002'' @ '' /* PaykitDemoTests.xctest */ = {isa = PBXFileReference; explicitFileType = wrapper.cfbundle; includeInIndex = 0; path = PaykitDemoTests.xctest; sourceTree = BUILT_PRODUCTS_DIR; };'' @ nl @ ''* End PBXNativeTarget section */'' @ nl"
    apply (rule add_build_configs_absent, rule not_sublist_eval)
    apply (simp only: pat_defs block_defs append_Cons append_Nil)
    apply (((rule nf_ne, (simp; fail)) | (rule nf_eq, ((rule np_ne, (simp; fail)) | rule np_eq | rule np_nil)+) | rule nf_nil)+)
    done
  have e8: "add_target_attrs ?i (main_target_pat @ file_ref_begin @ t2 @ ''000000000000000000000002'' @ '' /* PaykitDemoTests.xctest */ = {isa = PBXFileReference; explicitFileType = wrapper.cfbundle; includeInIndex = 0; path = PaykitDemoTests.xctest; sourceTree = BUILT_PRODUCTS_DIR; };'' @ nl @ ''* End PBXNativeTarget section */'' @ nl) = main_target_pat @ file_ref_begin @ t2 @ ''000000000000000000000002'' @ '' /* PaykitDemoTests.xctest */ = {isa = PBXFileReference; explicitFileType = wrapper.cfbundle; includeInIndex = 0; path = PaykitDemoTests.xctest; sourceTree = BUILT_PRODUCTS_DIR; };'' @ nl @ ''* End PBXNativeTarget section */'' @ nl"
    apply (rule add_target_attrs_absent, rule not_sublist_eval)
    apply (simp only: pat_defs block_defs append_Cons append_Nil)
    apply (((rule nf_ne, (simp; fail)) | (rule nf_eq, ((rule np_ne, (simp; fail)) | rule np_eq | rule np_nil)+) | rule nf_nil)+)
    done
  have ed: "edit_content ?i (generate_id (example_rng 8)) (main_target_pat @ file_ref_begin @ ''* End PBXNativeTarget section */'' @ nl) = main_target_pat @ file_ref_begin @ t2 @ ''000000000000000000000002'' @ '' /* PaykitDemoTests.xctest */ = {isa = PBXFileReference; explicitFileType = wrapper.cfbundle; includeInIndex = 0; path = PaykitDemoTests.xctest; sourceTree = BUILT_PRODUCTS_DIR; };'' @ nl @ ''* End PBXNativeTarget section */'' @ nl"
    by (simp only: edit_content_unfold e0 e1 e2 e3 e4 e5 e6 e7 e8)
  have none: "\<not> sublist ''isa = PBXNativeTarget'' (main_target_pat @ file_ref_begin @ t2 @ ''000000000000000000000002'' @ '' /* PaykitDemoTests.xctest */ = {isa = PBXFileReference; explicitFileType = wrapper.cfbundle; includeInIndex = 0; path = PaykitDemoTests.xctest; sourceTree = BUILT_PRODUCTS_DIR; };'' @ nl @ ''* End PBXNativeTarget section */'' @ nl)"
    apply (rule not_sublist_eval)
    apply (simp only: pat_defs block_defs append_Cons append_Nil)
    apply (((rule nf_ne, (simp; fail)) | (rule nf_eq, ((rule np_ne, (simp; fail)) | rule np_eq | rule np_nil)+) | rule nf_nil)+)
    done
  show ?thesis
    by (rule conjI [OF main conjI [OF p0 conjI [OF sample_run [OF ed main] none]]])
qed

text \<open>
  C6 as it was stated fails on two files that hold the marker. The first lacks the
  main-target anchor: the guard returns \<open>False\<close> and the file keeps its content. In the
  second the marker starts at the last character of the file-reference marker: the
  file-reference line, inserted first, splits it, and the run writes a file with no
  PBXNativeTarget block.
\<close>

theorem native_target_counterexample:
  \<open>(sublist native_target_end_pat (native_target_end_pat @ nl)
   \<and> add_test_target example_rng project_path (sample_world project_path (native_target_end_pat @ nl))
       = Inr (False, print ''Error: Could not find main target''
                       (sample_world project_path (native_target_end_pat @ nl)))
   \<and> files (print ''Error: Could not find main target''
               (sample_world project_path (native_target_end_pat @ nl))) project_path
       = Some (native_target_end_pat @ nl))
   \<and> (sublist main_target_pat (main_target_pat @ file_ref_begin @ ''* End PBXNativeTarget section */'' @ nl)
   \<and> sublist native_target_end_pat (main_target_pat @ file_ref_begin @ ''* End PBXNativeTarget section */'' @ nl)
   \<and> add_test_target example_rng project_path (sample_world project_path (main_target_pat @ file_ref_begin @ ''* End PBXNativeTarget section */'' @ nl))
       = Inr (True, print ''Test target ID: 000000000000000000000001''
                      (print ''Added PaykitDemoTests target to project''
                         (write_file project_path
                            (main_target_pat @ file_ref_begin @ t2 @ ''000000000000000000000002'' @ '' /* PaykitDemoTests.xctest */ = {isa = PBXFileReference; explicitFileType = wrapper.cfbundle; includeInIndex = 0; path = PaykitDemoTests.xctest; sourceTree = BUILT_PRODUCTS_DIR; };'' @ nl @ ''* End PBXNativeTarget section */'' @ nl)
                            (sample_world project_path (main_target_pat @ file_ref_begin @ ''* End PBXNativeTarget section */'' @ nl)))))
   \<and> \<not> sublist ''isa = PBXNativeTarget'' (main_target_pat @ file_ref_begin @ t2 @ ''000000000000000000000002'' @ '' /* PaykitDemoTests.xctest */ = {isa = PBXFileReference; explicitFileType = wrapper.cfbundle; includeInIndex = 0; path = PaykitDemoTests.xctest; sourceTree = BUILT_PRODUCTS_DIR; };'' @ nl @ ''* End PBXNativeTarget section */'' @ nl))\<close>
  by (rule conjI [OF native_target_guard native_marker_split])

lemma build_configurations_guard:
  \<open>sublist config_list_end_pat (config_list_end_pat @ nl)
   \<and> add_test_target example_rng project_path (sample_world project_path (config_list_end_pat @ nl))
       = Inr (False, print ''Error: Could not find main target''
                       (sample_world project_path (config_list_end_pat @ nl)))
   \<and> files (print ''Error: Could not find main target''
               (sample_world project_path (config_list_end_pat @ nl))) project_path
       = Some (config_list_end_pat @ nl)\<close>
proof -
  have "\<not> sublist main_target_pat (config_list_end_pat @ nl)"
    apply (rule not_sublist_eval)
    apply (simp only: pat_defs block_defs append_Cons append_Nil)
    apply (((rule nf_ne, (simp; fail)) | (rule nf_eq, ((rule np_ne, (simp; fail)) | rule np_eq | rule np_nil)+) | rule nf_nil)+)
    done
  note a = sample_abort [OF this, of project_path]
  have p0: "sublist config_list_end_pat (config_list_end_pat @ nl)"
    by (rule sublist_append_rightI)
  show ?thesis
    by (rule conjI [OF p0 a])
qed

lemma config_marker_split:
  \<open>sublist main_target_pat (main_target_pat @ file_ref_begin @ ''* End XCConfigurationList section */'' @ nl)
   \<and> sublist config_list_end_pat (main_target_pat @ file_ref_begin @ ''* End XCConfigurationList section */'' @ nl)
   \<and> add_test_target example_rng project_path (sample_world project_path (main_target_pat @ file_ref_begin @ ''* End XCConfigurationList section */'' @ nl))
       = Inr (True, print ''Test target ID: 000000000000000000000001''
                      (print ''Added PaykitDemoTests target to project''
                         (write_file project_path
                            (main_target_pat @ file_ref_begin @ t2 @ ''000000000000000000000002'' @ '' /* PaykitDemoTests.xctest */ = {isa = PBXFileReference; explicitFileType = wrapper.cfbundle; includeInIndex = 0; path = PaykitDemoTests.xctest; sourceTree = BUILT_PRODUCTS_DIR; };'' @ nl @ ''* End XCConfigurationList section */'' @ nl)
                            (sample_world project_path (main_target_pat @ file_ref_begin @ ''* End XCConfigurationList section */'' @ nl)))))
   \<and> \<not> sublist ''isa = XC'' (main_target_pat @ file_ref_begin @ t2 @ ''000000000000000000000002'' @ '' /* PaykitDemoTests.xctest */ = {isa = PBXFileReference; explicitFileType = wrapper.cfbundle; includeInIndex = 0; path = PaykitDemoTests.xctest; sourceTree = BUILT_PRODUCTS_DIR; };'' @ nl @ ''* End XCConfigurationList section */'' @ nl)\<close>
proof -
  let ?i = "generate_ids example_rng"
  have main: "sublist main_target_pat (main_target_pat @ file_ref_begin @ ''* End XCConfigurationList section */'' @ nl)"
    by (rule sublist_append_rightI)
  have "main_target_pat @ file_ref_begin @ ''* End XCConfigurationList section */'' @ nl = main_target_pat @ ''/* Begin PBXFileReference section *'' @ config_list_end_pat @ nl"
    by (simp add: pat_defs)
  moreover have "sublist config_list_end_pat (main_target_pat @ ''/* Begin PBXFileReference section *'' @ config_list_end_pat @ nl)"
    by (rule sub_skip, rule sub_skip, rule sublist_append_rightI)
  ultimately have p0: "sublist config_list_end_pat (main_target_pat @ file_ref_begin @ ''* End XCConfigurationList section */'' @ nl)"
    by (simp only:)
  have e0: "add_file_reference ?i (main_target_pat @ file_ref_begin @ ''* End XCConfigurationList section */'' @ nl) = main_target_pat @ file_ref_begin @ t2 @ ''000000000000000000000002'' @ '' /* PaykitDemoTests.xctest */ = {isa = PBXFileReference; explicitFileType = wrapper.cfbundle; includeInIndex = 0; path = PaykitDemoTests.xctest; sourceTree = BUILT_PRODUCTS_DIR; };'' @ nl @ ''* End XCConfigurationList section */'' @ nl"
    by (rule split_by_file_reference)
  have e1: "add_group ?i (main_target_pat @ file_ref_begin @ t2 @ ''000000000000000000000002'' @ '' /* PaykitDemoTests.xctest */ = {isa = PBXFileReference; explicitFileType = wrapper.cfbundle; includeInIndex = 0; path = PaykitDemoTests.xctest; sourceTree = BUILT_PRODUCTS_DIR; };'' @ nl @ ''* End XCConfigurationList section */'' @ nl) = main_target_pat @ file_ref_begin @ t2 @ ''000000000000000000000002'' @ '' /* PaykitDemoTests.xctest */ = {isa = PBXFileReference; explicitFileType = wrapper.cfbundle; includeInIndex = 0; path = PaykitDemoTests.xctest; sourceTree = BUILT_PRODUCTS_DIR; };'' @ nl @ ''* End XCConfigurationList section */'' @ nl"
    apply (rule add_group_absent, rule not_sublist_eval)
    apply (simp only: pat_defs block_defs append_Cons append_Nil)
    apply (((rule nf_ne, (simp; fail)) | (rule nf_eq, ((rule np_ne, (simp; fail)) | rule np_eq | rule np_nil)+) | rule nf_nil)+)
    done
  have e2: "add_product_ref ?i (main_target_pat @ file_ref_begin @ t2 @ ''000000000000000000000002'' @ '' /* PaykitDemoTests.xctest */ = {isa = PBXFileReference; explicitFileType = wrapper.cfbundle; includeInIndex = 0; path = PaykitDemoTests.xctest; sourceTree = BUILT_PRODUCTS_DIR; };'' @ nl @ ''* End XCConfigurationList section */'' @ nl) = main_target_pat @ file_ref_begin @ t2 @ ''000000000000000000000002'' @ '' /* PaykitDemoTests.xctest */ = {isa = PBXFileReference; explicitFileType = wrapper.cfbundle; includeInIndex = 0; path = PaykitDemoTests.xctest; sourceTree = BUILT_PRODUCTS_DIR; };'' @ nl @ ''* End XCConfigurationList section */'' @ nl"
    apply (rule add_product_ref_absent, rule not_children_pattern_eval)
    apply (simp only: pat_defs block_defs append_Cons append_Nil)
    apply (((rule rc_step, ((rule np_ne, (simp; fail)) | rule np_eq | rule np_nil)+) | rule rc_nil)+)
    done
  have e3: "add_sources_phase ?i (main_target_pat @ file_ref_begin @ t2 @ ''000000000000000000000002'' @ '' /* PaykitDemoTests.xctest */ = {isa = PBXFileReference; explicitFileType = wrapper.cfbundle; includeInIndex = 0; path = PaykitDemoTests.xctest; sourceTree = BUILT_PRODUCTS_DIR; };'' @ nl @ ''* End XCConfigurationList section */'' @ nl) = main_target_pat @ file_ref_begin @ t2 @ ''000000000000000000000002'' @ '' /* PaykitDemoTests.xctest */ = {isa = PBXFileReference; explicitFileType = wrapper.cfbundle; includeInIndex = 0; path = PaykitDemoTests.xctest; sourceTree = BUILT_PRODUCTS_DIR; };'' @ nl @ ''* End XCConfigurationList section */'' @ nl"
    apply (rule add_sources_phase_absent, rule not_sublist_eval)
    apply (simp only: pat_defs block_defs append_Cons append_Nil)
    apply (((rule nf_ne, (simp; fail)) | (rule nf_eq, ((rule np_ne, (simp; fail)) | rule np_eq | rule np_nil)+) | rule nf_nil)+)
    done
  have e4: "add_frameworks_phase ?i (main_target_pat @ file_ref_begin @ t2 @ ''000000000000000000000002'' @ '' /* PaykitDemoTests.xctest */ = {isa = PBXFileReference; explicitFileType = wrapper.cfbundle; includeInIndex = 0; path = PaykitDemoTests.xctest; sourceTree = BUILT_PRODUCTS_DIR; };'' @ nl @ ''* End XCConfigurationList section */'' @ nl) = main_target_pat @ file_ref_begin @ t2 @ ''000000000000000000000002'' @ '' /* PaykitDemoTests.xctest */ = {isa = PBXFileReference; explicitFileType = wrapper.cfbundle; includeInIndex = 0; path = PaykitDemoTests.xctest; sourceTree = BUILT_PRODUCTS_DIR; };'' @ nl @ ''* End XCConfigurationList section */'' @ nl"
    apply (rule add_frameworks_phase_absent, rule not_sublist_eval)
    apply (simp only: pat_defs block_defs append_Cons append_Nil)
    apply (((rule nf_ne, (simp; fail)) | (rule nf_eq, ((rule np_ne, (simp; fail)) | rule np_eq | rule np_nil)+) | rule nf_nil)+)
    done
  have e5: "add_native_target ?i (generate_id (example_rng 8)) (main_target_pat @ file_ref_begin @ t2 @ ''000000000000000000000002'' @ '' /* PaykitDemoTests.xctest */ = {isa = PBXFileReference; explicitFileType = wrapper.cfbundle; includeInIndex = 0; path = PaykitDemoTests.xctest; sourceTree = BUILT_PRODUCTS_DIR; };'' @ nl @ ''* End XCConfigurationList section */'' @ nl) = main_target_pat @ file_ref_begin @ t2 @ ''000000000000000000000002'' @ '' /* PaykitDemoTests.xctest */ = {isa = PBXFileReference; explicitFileType = wrapper.cfbundle; includeInIndex = 0; path = PaykitDemoTests.xctest; sourceTree = BUILT_PRODUCTS_DIR; };'' @ nl @ ''* End XCConfigurationList section */'' @ nl"
    apply (rule add_native_target_absent, rule not_sublist_eval)
    apply (simp only: pat_defs block_defs append_Cons append_Nil)
    apply (((rule nf_ne, (simp; fail)) | (rule nf_eq, ((rule np_ne, (simp; fail)) | rule np_eq | rule np_nil)+) | rule nf_nil)+)
    done
  have e6: "add_target_ref ?i (main_target_pat @ file_ref_begin @ t2 @ ''000000000000000000000002'' @ '' /* PaykitDemoTests.xctest */ = {isa = PBXFileReference; explicitFileType = wrapper.cfbundle; includeInIndex = 0; path = PaykitDemoTests.xctest; sourceTree = BUILT_PRODUCTS_DIR; };'' @ nl @ ''* End XCConfigurationList section */'' @ nl) = main_target_pat @ file_ref_begin @ t2 @ ''000000000000000000000002'' @ '' /* PaykitDemoTests.xctest */ = {isa = PBXFileReference; explicitFileType = wrapper.cfbundle; includeInIndex = 0; path = PaykitDemoTests.xctest; sourceTree = BUILT_PRODUCTS_DIR; };'' @ nl @ ''* End XCConfigurationList section */'' @ nl"
    apply (rule add_target_ref_absent, rule not_sublist_eval)
    apply (simp only: pat_defs block_defs append_Cons append_Nil)
    apply (((rule nf_ne, (simp; fail)) | (rule nf_eq, ((rule np_ne, (simp; fail)) | rule np_eq | rule np_nil)+) | rule nf_nil)+)
    done
  have e7: "add_build_configs ?i (main_target_pat @ file_ref_begin @ t2 @ ''000000000000000000000002'' @ '' /* PaykitDemoTests.xctest */ = {isa = PBXFileReference; explicitFileType = wrapper.cfbundle; includeInIndex = 0; path = PaykitDemoTests.xctest; sourceTree = BUILT_PRODUCTS_DIR; };'' @ nl @ ''* End XCConfigurationList section */'' @ nl) = main_target_pat @ file_ref_begin @ t2 @ ''000000000000000000000002'' @ '' /* PaykitDemoTests.xctest */ = {isa = PBXFileReference; explicitFileType = wrapper.cfbundle; includeInIndex = 0; path = PaykitDemoTests.xctest; sourceTree = BUILT_PRODUCTS_DIR; };'' @ nl @ ''* End XCConfigurationList section */'' @ nl"
    apply (rule add_build_configs_absent, rule not_sublist_eval)
    apply (simp only: pat_defs block_defs append_Cons append_Nil)
    apply (((rule nf_ne, (simp; fail)) | (rule nf_eq, ((rule np_ne, (simp; fail)) | rule np_eq | rule np_nil)+) | rule nf_nil)+)
    done
  have e8: "add_target_attrs ?i (main_target_pat @ file_ref_begin @ t2 @ ''000000000000000000000002'' @ '' /* PaykitDemoTests.xctest */ = {isa = PBXFileReference; explicitFileType = wrapper.cfbundle; includeInIndex = 0; path = PaykitDemoTests.xctest; sourceTree = BUILT_PRODUCTS_DIR; };'' @ nl @ ''* End XCConfigurationList section */'' @ nl) = main_target_pat @ file_ref_begin @ t2 @ ''000000000000000000000002'' @ '' /* PaykitDemoTests.xctest */ = {isa = PBXFileReference; explicitFileType = wrapper.cfbundle; includeInIndex = 0; path = PaykitDemoTests.xctest; sourceTree = BUILT_PRODUCTS_DIR; };'' @ nl @ ''* End XCConfigurationList section */'' @ nl"
    apply (rule add_target_attrs_absent, rule not_sublist_eval)
    apply (simp only: pat_defs block_defs append_Cons append_Nil)
    apply (((rule nf_ne, (simp; fail)) | (rule nf_eq, ((rule np_ne, (simp; fail)) | rule np_eq | rule np_nil)+) | rule nf_nil)+)
    done
  have ed: "edit_content ?i (generate_id (example_rng 8)) (main_target_pat @ file_ref_begin @ ''* End XCConfigurationList section */'' @ nl) = main_target_pat @ file_ref_begin @ t2 @ ''000000000000000000000002'' @ '' /* PaykitDemoTests.xctest */ = {isa = PBXFileReference; explicitFileType = wrapper.cfbundle; includeInIndex = 0; path = PaykitDemoTests.xctest; sourceTree = BUILT_PRODUCTS_DIR; };'' @ nl @ ''* End XCConfigurationList section */'' @ nl"
    by (simp only: edit_content_unfold e0 e1 e2 e3 e4 e5 e6 e7 e8)
  have none: "\<not> sublist ''isa = XC'' (main_target_pat @ file_ref_begin @ t2 @ ''000000000000000000000002'' @ '' /* PaykitDemoTests.xctest */ = {isa = PBXFileReference; explicitFileType = wrapper.cfbundle; includeInIndex = 0; path = PaykitDemoTests.xctest; sourceTree = BUILT_PRODUCTS_DIR; };'' @ nl @ ''* End XCConfigurationList section */'' @ nl)"
    apply (rule not_sublist_eval)
    apply (simp only: pat_defs block_defs append_Cons append_Nil)
    apply (((rule nf_ne, (simp; fail)) | (rule nf_eq, ((rule np_ne, (simp; fail)) | rule np_eq | rule np_nil)+) | rule nf_nil)+)
    done
  show ?thesis
    by (rule conjI [OF main conjI [OF p0 conjI [OF sample_run [OF ed main] none]]])
qed

text \<open>
  C7 as it was stated fails on two files that hold the marker. The first lacks the
  main-target anchor: the guard returns \<open>False\<close> and the file keeps its content. In the
  second the marker starts at the last character of the file-reference marker: the
  file-reference line, inserted first, splits it, and the run writes a file with
  neither an XCBuildConfiguration nor an XCConfigurationList block.
\<close>

theorem build_configurations_counterexample:
  \<open>(sublist config_list_end_pat (config_list_end_pat @ nl)
   \<and> add_test_target example_rng project_path (sample_world project_path (config_list_end_pat @ nl))
       = Inr (False, print ''Error: Could not find main target''
                       (sample_world project_path (config_list_end_pat @ nl)))
   \<and> files (print ''Error: Could not find main target''
               (sample_world project_path (config_list_end_pat @ nl))) project_path
       = Some (config_list_end_pat @ nl))
   \<and> (sublist main_target_pat (main_target_pat @ file_ref_begin @ ''* End XCConfigurationList section */'' @ nl)
   \<and> sublist config_list_end_pat (main_target_pat @ file_ref_begin @ ''* End XCConfigurationList section */'' @ nl)
   \<and> add_test_target example_rng project_path (sample_world project_path (main_target_pat @ file_ref_begin @ ''* End XCConfigurationList section */'' @ nl))
       = Inr (True, print ''Test target ID: 000000000000000000000001''
                      (print ''Added PaykitDemoTests target to project''
                         (write_file project_path
                            (main_target_pat @ file_ref_begin @ t2 @ ''000000000000000000000002'' @ '' /* PaykitDemoTests.xctest */ = {isa = PBXFileReference; explicitFileType = wrapper.cfbundle; includeInIndex = 0; path = PaykitDemoTests.xctest; sourceTree = BUILT_PRODUCTS_DIR; };'' @ nl @ ''* End XCConfigurationList section */'' @ nl)
                            (sample_world project_path (main_target_pat @ file_ref_begin @ ''* End XCConfigurationList section */'' @ nl)))))
   \<and> \<not> sublist ''isa = XC'' (main_target_pat @ file_ref_begin @ t2 @ ''000000000000000000000002'' @ '' /* PaykitDemoTests.xctest */ = {isa = PBXFileReference; explicitFileType = wrapper.cfbundle; includeInIndex = 0; path = PaykitDemoTests.xctest; sourceTree = BUILT_PRODUCTS_DIR; };'' @ nl @ ''* End XCConfigurationList section */'' @ nl))\<close>
  by (rule conjI [OF build_configurations_guard config_marker_split])

end
